theory Spec2Isabelle
  imports Main "HOL-Library.Word"
begin

unbundle bit_operations_syntax

section \<open>The USB Type-C Port Manager test device (drivers/usb/typec/tcpmtest.c)\<close>

text \<open>
  The driver simulates a USB Power Delivery port partner for the Type-C Port Manager
  (tcpm). All simulator state lives in one \<^verbatim>\<open>struct tcpmtest_data\<close>, guarded by one
  mutex; every function below is one critical section of the driver, modelled as a
  function from the state to the new state. The calls the driver makes into the Port
  Manager and into the work queue are appended to a trace kept in the state (field
  \<open>calls\<close>), so that "notifies the Port Manager" is a fact about the result.
  \<^verbatim>\<open>dev_info\<close> lines are kernel-log output only and are left out.
\<close>

type_synonym u16 = "16 word"
type_synonym u32 = "32 word"

subsection \<open>Enumerations\<close>

datatype testmode = TESTMODE_NONE | TESTMODE_SNK | TESTMODE_SRC | TESTMODE_RESET

datatype simstate =
    SSTATE_NONE
  | SSTATE_SNK_START
  | SSTATE_SNK_RUN
  | SSTATE_SRC_START
  | SSTATE_SRC_VBUS
  | SSTATE_SRC_RX_SOURCE_CAP
  | SSTATE_SRC_WAIT_FOR_REQUEST
  | SSTATE_SRC_SEND_REQUEST
  | SSTATE_SRC_SEND_PS_RDY
  | SSTATE_SRC_RUN
  | SSTATE_TO_NONE

text \<open>
  Enumerations of \<^verbatim>\<open>linux/usb/typec.h\<close> and \<^verbatim>\<open>tcpm.h\<close>, with the enumerators the
  driver names (\<^verbatim>\<open>tcpmtest_cc2str\<close>, \<^verbatim>\<open>tcpmtest_txtype2str\<close>).
\<close>

datatype typec_cc_status =
  TYPEC_CC_OPEN | TYPEC_CC_RA | TYPEC_CC_RD | TYPEC_CC_RP_DEF | TYPEC_CC_RP_1_5 | TYPEC_CC_RP_3_0

datatype typec_cc_polarity = TYPEC_POLARITY_CC1 | TYPEC_POLARITY_CC2

datatype typec_role = TYPEC_SINK | TYPEC_SOURCE

datatype typec_data_role = TYPEC_DEVICE | TYPEC_HOST

datatype tcpm_transmit_type =
    TCPC_TX_SOP
  | TCPC_TX_SOP_PRIME
  | TCPC_TX_SOP_PRIME_PRIME
  | TCPC_TX_SOP_DEBUG_PRIME
  | TCPC_TX_SOP_DEBUG_PRIME_PRIME
  | TCPC_TX_HARD_RESET
  | TCPC_TX_CABLE_RESET
  | TCPC_TX_BIST_MODE_2

datatype tcpm_transmit_status = TCPC_TX_SUCCESS | TCPC_TX_DISCARDED | TCPC_TX_FAILED

subsection \<open>PD messages\<close>

text \<open>
  \<^verbatim>\<open>struct pd_message\<close>: a 16-bit header and an array of 32-bit data objects. The
  little-endian conversions (\<^verbatim>\<open>cpu_to_le16\<close>, \<^verbatim>\<open>le32_to_cpu\<close>, ...) change the byte
  order in memory, not the value, and are the identity here.
\<close>

record pd_message =
  header :: u16
  payload :: "u32 list"

text \<open>The calls the driver makes into the Port Manager and the work queue.\<close>

datatype port_call =
    Tcpm_cc_change
  | Tcpm_vbus_change
  | Tcpm_pd_hard_reset
  | Tcpm_tcpc_reset
  | Tcpm_pd_transmit_complete tcpm_transmit_status
  | Tcpm_pd_receive pd_message
  | Queue_work
  | Mod_delayed_work nat

subsection \<open>linux/usb/pd.h\<close>

text \<open>
  Modelled from the spec: the header \<^verbatim>\<open>linux/usb/pd.h\<close> (message types, \<^verbatim>\<open>PD_HEADER\<close>,
  \<^verbatim>\<open>PDO_FIXED\<close>, \<^verbatim>\<open>RDO_FIXED\<close>, \<^verbatim>\<open>rdo_index\<close>, ...) is not among the sources. The
  definitions follow the PD revision 2.0 message layout the spec names (a 3-bit message
  ID, 0 to 7 data objects of 32 bits, currents in mA) and the uses the driver makes of
  them: \<^verbatim>\<open>tcpmtest_log_msg\<close> reads the revision and the ID with
  \<^verbatim>\<open>(header >> PD_HEADER_ID_SHIFT) & PD_HEADER_ID_MASK\<close>, \<^verbatim>\<open>tcpmtest_log_capability_pdo\<close>
  reads the peak current at bit 20, and the driver's own comments give the values
  \<^verbatim>\<open>0x26019096\<close> and \<^verbatim>\<open>0x26019032\<close> of its two \<^verbatim>\<open>PDO_FIXED\<close> configuration words
  (lemma \<open>PDO_FIXED_config_words\<close> below).
\<close>

definition PD_CTRL_GOOD_CRC :: u32 where "PD_CTRL_GOOD_CRC = 1"
definition PD_CTRL_GOTO_MIN :: u32 where "PD_CTRL_GOTO_MIN = 2"
definition PD_CTRL_ACCEPT :: u32 where "PD_CTRL_ACCEPT = 3"
definition PD_CTRL_REJECT :: u32 where "PD_CTRL_REJECT = 4"
definition PD_CTRL_PING :: u32 where "PD_CTRL_PING = 5"
definition PD_CTRL_PS_RDY :: u32 where "PD_CTRL_PS_RDY = 6"
definition PD_CTRL_GET_SOURCE_CAP :: u32 where "PD_CTRL_GET_SOURCE_CAP = 7"
definition PD_CTRL_GET_SINK_CAP :: u32 where "PD_CTRL_GET_SINK_CAP = 8"
definition PD_CTRL_DR_SWAP :: u32 where "PD_CTRL_DR_SWAP = 9"
definition PD_CTRL_PR_SWAP :: u32 where "PD_CTRL_PR_SWAP = 10"
definition PD_CTRL_VCONN_SWAP :: u32 where "PD_CTRL_VCONN_SWAP = 11"
definition PD_CTRL_WAIT :: u32 where "PD_CTRL_WAIT = 12"
definition PD_CTRL_SOFT_RESET :: u32 where "PD_CTRL_SOFT_RESET = 13"

definition PD_DATA_SOURCE_CAP :: u32 where "PD_DATA_SOURCE_CAP = 1"
definition PD_DATA_REQUEST :: u32 where "PD_DATA_REQUEST = 2"
definition PD_DATA_BIST :: u32 where "PD_DATA_BIST = 3"
definition PD_DATA_SINK_CAP :: u32 where "PD_DATA_SINK_CAP = 4"
definition PD_DATA_VENDOR_DEF :: u32 where "PD_DATA_VENDOR_DEF = 15"

definition PD_REV20 :: u32 where "PD_REV20 = 1"

definition PD_HEADER_CNT_SHIFT :: nat where "PD_HEADER_CNT_SHIFT = 12"
definition PD_HEADER_CNT_MASK :: u32 where "PD_HEADER_CNT_MASK = 0x7"
definition PD_HEADER_ID_SHIFT :: nat where "PD_HEADER_ID_SHIFT = 9"
definition PD_HEADER_ID_MASK :: u32 where "PD_HEADER_ID_MASK = 0x7"
definition PD_HEADER_PWR_ROLE :: u32 where "PD_HEADER_PWR_ROLE = push_bit 8 1"
definition PD_HEADER_REV_SHIFT :: nat where "PD_HEADER_REV_SHIFT = 6"
definition PD_HEADER_REV_MASK :: u32 where "PD_HEADER_REV_MASK = 0x3"
definition PD_HEADER_DATA_ROLE :: u32 where "PD_HEADER_DATA_ROLE = push_bit 5 1"
definition PD_HEADER_TYPE_SHIFT :: nat where "PD_HEADER_TYPE_SHIFT = 0"
definition PD_HEADER_TYPE_MASK :: u32 where "PD_HEADER_TYPE_MASK = 0xf"

definition PD_HEADER :: "u32 \<Rightarrow> typec_role \<Rightarrow> typec_data_role \<Rightarrow> u32 \<Rightarrow> u32 \<Rightarrow> u32" where
  "PD_HEADER ty pwr dr mid cnt =
     (push_bit PD_HEADER_TYPE_SHIFT (ty AND PD_HEADER_TYPE_MASK)
      OR (if pwr = TYPEC_SOURCE then PD_HEADER_PWR_ROLE else 0)
      OR (if dr = TYPEC_HOST then PD_HEADER_DATA_ROLE else 0)
      OR push_bit PD_HEADER_REV_SHIFT PD_REV20
      OR push_bit PD_HEADER_ID_SHIFT (mid AND PD_HEADER_ID_MASK)
      OR push_bit PD_HEADER_CNT_SHIFT (cnt AND PD_HEADER_CNT_MASK))"

text \<open>\<^verbatim>\<open>PD_HEADER_LE\<close>: the header word stored in the 16-bit \<^verbatim>\<open>__le16\<close> field.\<close>

definition PD_HEADER_LE :: "u32 \<Rightarrow> typec_role \<Rightarrow> typec_data_role \<Rightarrow> u32 \<Rightarrow> u32 \<Rightarrow> u16" where
  "PD_HEADER_LE ty pwr dr mid cnt = ucast (PD_HEADER ty pwr dr mid cnt)"

definition pd_header_cnt :: "u16 \<Rightarrow> u32" where
  "pd_header_cnt h = drop_bit PD_HEADER_CNT_SHIFT (ucast h) AND PD_HEADER_CNT_MASK"

definition pd_header_type :: "u16 \<Rightarrow> u32" where
  "pd_header_type h = drop_bit PD_HEADER_TYPE_SHIFT (ucast h) AND PD_HEADER_TYPE_MASK"

text \<open>
  The revision and message-ID fields, as \<^verbatim>\<open>tcpmtest_log_msg\<close> reads them:
  \<^verbatim>\<open>(header >> PD_HEADER_REV_SHIFT) & PD_HEADER_REV_MASK\<close> and
  \<^verbatim>\<open>(header >> PD_HEADER_ID_SHIFT) & PD_HEADER_ID_MASK\<close>.
\<close>

definition pd_header_rev :: "u16 \<Rightarrow> u32" where
  "pd_header_rev h = drop_bit PD_HEADER_REV_SHIFT (ucast h) AND PD_HEADER_REV_MASK"

definition pd_header_id :: "u16 \<Rightarrow> u32" where
  "pd_header_id h = drop_bit PD_HEADER_ID_SHIFT (ucast h) AND PD_HEADER_ID_MASK"

definition PD_MAX_PAYLOAD :: nat where "PD_MAX_PAYLOAD = 7"
definition PDO_MAX_OBJECTS :: nat where "PDO_MAX_OBJECTS = 7"

text \<open>Power data objects. \<^verbatim>\<open>enum pd_pdo_type\<close> is kept as the 2-bit value it is read as.\<close>

definition PDO_TYPE_FIXED :: u32 where "PDO_TYPE_FIXED = 0"
definition PDO_TYPE_BATT :: u32 where "PDO_TYPE_BATT = 1"
definition PDO_TYPE_VAR :: u32 where "PDO_TYPE_VAR = 2"

definition pdo_type :: "u32 \<Rightarrow> u32" where
  "pdo_type pdo = drop_bit 30 pdo AND 0x3"

definition PDO_FIXED_DUAL_ROLE :: u32 where "PDO_FIXED_DUAL_ROLE = push_bit 29 1"
definition PDO_FIXED_SUSPEND :: u32 where "PDO_FIXED_SUSPEND = push_bit 28 1"
definition PDO_FIXED_EXTPOWER :: u32 where "PDO_FIXED_EXTPOWER = push_bit 27 1"
definition PDO_FIXED_USB_COMM :: u32 where "PDO_FIXED_USB_COMM = push_bit 26 1"
definition PDO_FIXED_DATA_SWAP :: u32 where "PDO_FIXED_DATA_SWAP = push_bit 25 1"

definition PDO_FIXED :: "u32 \<Rightarrow> u32 \<Rightarrow> u32 \<Rightarrow> u32" where
  "PDO_FIXED mv ma flags =
     (push_bit 30 PDO_TYPE_FIXED OR flags
      OR push_bit 10 ((mv div 50) AND 0x3ff)
      OR push_bit 0 ((ma div 10) AND 0x3ff))"

text \<open>Request data objects.\<close>

definition RDO_GIVE_BACK :: u32 where "RDO_GIVE_BACK = push_bit 27 1"
definition RDO_CAP_MISMATCH :: u32 where "RDO_CAP_MISMATCH = push_bit 26 1"
definition RDO_USB_COMM :: u32 where "RDO_USB_COMM = push_bit 25 1"
definition RDO_NO_SUSPEND :: u32 where "RDO_NO_SUSPEND = push_bit 24 1"

definition RDO_FIXED :: "u32 \<Rightarrow> u32 \<Rightarrow> u32 \<Rightarrow> u32 \<Rightarrow> u32" where
  "RDO_FIXED idx op_ma max_ma flags =
     (push_bit 28 (idx AND 0x7) OR flags
      OR push_bit 10 ((op_ma div 10) AND 0x3ff)
      OR push_bit 0 ((max_ma div 10) AND 0x3ff))"

definition rdo_index :: "u32 \<Rightarrow> u32" where
  "rdo_index rdo = drop_bit 28 rdo AND 0x7"

definition rdo_op_current :: "u32 \<Rightarrow> u32" where
  "rdo_op_current rdo = (drop_bit 10 rdo AND 0x3ff) * 10"

definition rdo_max_current :: "u32 \<Rightarrow> u32" where
  "rdo_max_current rdo = (drop_bit 0 rdo AND 0x3ff) * 10"

subsection \<open>linux/usb/pd_vdo.h and linux/usb/pd_vdo_dp.h\<close>

text \<open>
  Modelled from the spec: \<^verbatim>\<open>linux/usb/pd_vdo.h\<close> is not among the sources either. The
  vendor-defined-message header has the SVID in bits 31..16, the structured bit 15, the
  version in bits 14..13, the object position in bits 10..8, the command type in bits
  7..6 and the command in bits 4..0; the driver's decoder \<^verbatim>\<open>tcpmtest_log_vdo_header\<close>
  reads exactly these fields. \<^verbatim>\<open>VDO_STR\<close> builds a structured header from them.
  No theorem below depends on the values of the reply objects built here.
\<close>

definition VDO_SVDM_TYPE :: u32 where "VDO_SVDM_TYPE = push_bit 15 1"

definition PD_VDO_VID :: "u32 \<Rightarrow> u32" where "PD_VDO_VID vdo = drop_bit 16 vdo"
definition PD_VDO_CMD :: "u32 \<Rightarrow> u32" where "PD_VDO_CMD vdo = vdo AND 0x1f"
definition PD_VDO_CMDT :: "u32 \<Rightarrow> u32" where "PD_VDO_CMDT vdo = drop_bit 6 vdo AND 0x3"

definition CMDT_INIT :: u32 where "CMDT_INIT = 0"
definition CMDT_RSP_ACK :: u32 where "CMDT_RSP_ACK = 1"

definition CMD_DISCOVER_IDENT :: u32 where "CMD_DISCOVER_IDENT = 1"
definition CMD_DISCOVER_SVID :: u32 where "CMD_DISCOVER_SVID = 2"
definition CMD_DISCOVER_MODES :: u32 where "CMD_DISCOVER_MODES = 3"

definition VDO_INDEX_HDR :: nat where "VDO_INDEX_HDR = 0"
definition VDO_INDEX_IDH :: nat where "VDO_INDEX_IDH = 1"
definition VDO_INDEX_CSTAT :: nat where "VDO_INDEX_CSTAT = 2"
definition VDO_INDEX_PRODUCT :: nat where "VDO_INDEX_PRODUCT = 3"
definition VDO_INDEX_AMA :: nat where "VDO_INDEX_AMA = 4"

definition VDO_STR :: "u32 \<Rightarrow> u32 \<Rightarrow> u32 \<Rightarrow> u32 \<Rightarrow> u32 \<Rightarrow> u32" where
  "VDO_STR svid ver opos cmdt cmd =
     (push_bit 16 svid OR VDO_SVDM_TYPE OR push_bit 13 ver OR push_bit 8 opos
      OR push_bit 6 cmdt OR cmd)"

definition IDH_PTYPE_AMA :: u32 where "IDH_PTYPE_AMA = 5"

definition VDO_IDH :: "u32 \<Rightarrow> u32 \<Rightarrow> u32 \<Rightarrow> u32 \<Rightarrow> u32 \<Rightarrow> u32" where
  "VDO_IDH usbh usbd ptype is_modal vid =
     (push_bit 31 usbh OR push_bit 30 usbd OR push_bit 27 (ptype AND 0x7)
      OR push_bit 26 is_modal OR (vid AND 0xffff))"

definition VDO_PRODUCT :: "u32 \<Rightarrow> u32 \<Rightarrow> u32" where
  "VDO_PRODUCT pid bcd = (push_bit 16 (pid AND 0xffff) OR (bcd AND 0xffff))"

definition AMA_VCONN_PWR_1W5 :: u32 where "AMA_VCONN_PWR_1W5 = 1"
definition AMA_USBSS_BBONLY :: u32 where "AMA_USBSS_BBONLY = 3"

definition VDO_AMA ::
  "u32 \<Rightarrow> u32 \<Rightarrow> u32 \<Rightarrow> u32 \<Rightarrow> u32 \<Rightarrow> u32 \<Rightarrow> u32 \<Rightarrow> u32 \<Rightarrow> u32 \<Rightarrow> u32 \<Rightarrow> u32" where
  "VDO_AMA hw fw tx1d tx2d rx1d rx2d vcpwr vcr vbr usbss =
     (push_bit 28 (hw AND 0x7) OR push_bit 24 (fw AND 0x7)
      OR push_bit 11 tx1d OR push_bit 10 tx2d OR push_bit 9 rx1d OR push_bit 8 rx2d
      OR push_bit 5 (vcpwr AND 0x7) OR push_bit 4 vcr OR push_bit 3 vbr
      OR (usbss AND 0x7))"

definition VDO_SVID :: "u32 \<Rightarrow> u32 \<Rightarrow> u32" where
  "VDO_SVID svid0 svid1 = (push_bit 16 (svid0 AND 0xffff) OR (svid1 AND 0xffff))"

text \<open>From \<^verbatim>\<open>include/linux/usb/pd_vdo_dp.h\<close>, which is among the sources.\<close>

definition USB_SID_PD :: u32 where "USB_SID_PD = 0xff00"
definition USB_SID_DISPLAYPORT :: u32 where "USB_SID_DISPLAYPORT = 0xff01"

definition MODE_DP_PIN_C :: u32 where "MODE_DP_PIN_C = 0x04"
definition MODE_DP_V13 :: u32 where "MODE_DP_V13 = 0x1"
definition MODE_DP_SNK :: u32 where "MODE_DP_SNK = 0x1"

definition VDO_MODE_DP :: "u32 \<Rightarrow> u32 \<Rightarrow> u32 \<Rightarrow> u32 \<Rightarrow> u32 \<Rightarrow> u32 \<Rightarrow> u32" where
  "VDO_MODE_DP snkp srcp usb gdr sign sdir =
     (push_bit 16 (snkp AND 0xff) OR push_bit 8 (srcp AND 0xff)
      OR push_bit 7 (usb AND 1) OR push_bit 6 (gdr AND 1) OR push_bit 2 (sign AND 0xF)
      OR (sdir AND 0x3))"

subsection \<open>The simulator state\<close>

text \<open>
  The \<^verbatim>\<open>request\<close> union: four one-bit flags that share storage with
  \<^verbatim>\<open>request.word\<close>. No other bit of the word is ever set, so \<^verbatim>\<open>request.word = 0\<close>
  is "all four flags clear".
\<close>

record request_flags =
  mode_set :: bool
  msg_rx :: bool
  msg_tx :: bool
  vbus_chng :: bool

definition request_word_zero :: request_flags where
  "request_word_zero = \<lparr>mode_set = False, msg_rx = False, msg_tx = False, vbus_chng = False\<rparr>"

record tcpmtest_data =
  cc1_status :: typec_cc_status
  cc2_status :: typec_cc_status
  vbus_present :: bool
  polarity :: typec_cc_polarity
  vconn_enable :: bool
  pd_rx_enable :: bool
  data_role :: typec_data_role
  power_role :: typec_role
  delay :: nat
  request :: request_flags
  state :: simstate
  tx_type :: tcpm_transmit_type
  tx_msg :: pd_message
  rx_msg :: pd_message
  rx_id :: u32
  src_cap_pdo_type :: "u32 list"
  sysfs_mode :: testmode
  sysfs_mode_req :: testmode
  calls :: "port_call list"

subsection \<open>Message log parsers\<close>

text \<open>
  The log functions format kernel-log lines, which are left out, but two of them touch
  the per-object-position cache \<^verbatim>\<open>src_cap_pdo_type[PDO_MAX_OBJECTS]\<close>:
  \<^verbatim>\<open>tcpmtest_log_capability_pdo\<close> writes it and \<^verbatim>\<open>tcpmtest_log_request_pdo\<close> reads it.
  C does not check the index; here an access outside the array is the result \<open>None\<close>.
\<close>

definition tcpmtest_log_capability_pdo ::
  "tcpmtest_data \<Rightarrow> u32 \<Rightarrow> bool \<Rightarrow> nat \<Rightarrow> tcpmtest_data option" where
  "tcpmtest_log_capability_pdo d pdo src index =
     (if index < PDO_MAX_OBJECTS
      then Some (d\<lparr>src_cap_pdo_type := (src_cap_pdo_type d)[index := pdo_type pdo]\<rparr>)
      else None)"

text \<open>
  \<^verbatim>\<open>unsigned int index = rdo_index(rdo) - 1;\<close> is 32-bit unsigned arithmetic: it wraps.
\<close>

definition tcpmtest_log_request_pdo :: "tcpmtest_data \<Rightarrow> u32 \<Rightarrow> tcpmtest_data option" where
  "tcpmtest_log_request_pdo d rdo =
     (let index = rdo_index rdo - 1 in
      if unat index < PDO_MAX_OBJECTS then Some d else None)"

fun tx_type_num :: "tcpm_transmit_type \<Rightarrow> nat" where
  "tx_type_num TCPC_TX_SOP = 0"
| "tx_type_num TCPC_TX_SOP_PRIME = 1"
| "tx_type_num TCPC_TX_SOP_PRIME_PRIME = 2"
| "tx_type_num TCPC_TX_SOP_DEBUG_PRIME = 3"
| "tx_type_num TCPC_TX_SOP_DEBUG_PRIME_PRIME = 4"
| "tx_type_num TCPC_TX_HARD_RESET = 5"
| "tx_type_num TCPC_TX_CABLE_RESET = 6"
| "tx_type_num TCPC_TX_BIST_MODE_2 = 7"

text \<open>
  The body of the \<^verbatim>\<open>for (ix=0; ix<cnt; ++ix)\<close> loop of \<^verbatim>\<open>tcpmtest_log_msg\<close>, over the
  indices still to visit. \<^verbatim>\<open>cnt\<close> is a 3-bit field, so \<^verbatim>\<open>ix\<close> stays below the
  \<^verbatim>\<open>PD_MAX_PAYLOAD\<close> entries of the payload.
\<close>

fun tcpmtest_log_dobjs ::
  "tcpmtest_data \<Rightarrow> u16 \<Rightarrow> pd_message \<Rightarrow> nat list \<Rightarrow> tcpmtest_data option" where
  "tcpmtest_log_dobjs d hdr msg [] = Some d"
| "tcpmtest_log_dobjs d hdr msg (ix # ixs) =
     (let dobj = payload msg ! ix; ty = pd_header_type hdr in
      case (if ty = PD_DATA_SOURCE_CAP then tcpmtest_log_capability_pdo d dobj True ix
            else if ty = PD_DATA_REQUEST then tcpmtest_log_request_pdo d dobj
            else if ty = PD_DATA_BIST then Some d
            else if ty = PD_DATA_SINK_CAP then tcpmtest_log_capability_pdo d dobj False ix
            else Some d) of
        None \<Rightarrow> None
      | Some d' \<Rightarrow> tcpmtest_log_dobjs d' hdr msg ixs)"

definition tcpmtest_log_msg ::
  "tcpmtest_data \<Rightarrow> tcpm_transmit_type \<Rightarrow> pd_message \<Rightarrow> tcpmtest_data option" where
  "tcpmtest_log_msg d ty msg =
     (let hdr = header msg in
      if tx_type_num ty > tx_type_num TCPC_TX_SOP_PRIME_PRIME then Some d
      else if pd_header_rev hdr \<noteq> PD_REV20 then Some d
      else tcpmtest_log_dobjs d hdr msg [0 ..< unat (pd_header_cnt hdr)])"

subsection \<open>SysFs interface\<close>

text \<open>
  \<^verbatim>\<open>sysfs_streq\<close> (lib/string.c) compares two NUL-terminated strings. Its loop
  \<^verbatim>\<open>while (*s1 && *s1 == *s2) { s1++; s2++; }\<close> walks both strings while the characters
  are equal and not NUL; then the strings count as equal when both stopped at the same
  character, or when one stopped at its NUL and the other at a newline that is followed
  by NUL. A string is given here by the bytes before its terminator, and a buffer by the
  bytes written: the byte after them is NUL, so reading at or past the end of the list
  gives NUL (\<open>char_at\<close>), and a NUL inside the buffer ends the string there.
\<close>

definition char_at :: "string \<Rightarrow> nat \<Rightarrow> char" where
  "char_at s i = (if i < length s then s ! i else CHR 0x00)"

definition sysfs_streq_tail :: "string \<Rightarrow> string \<Rightarrow> bool" where
  "sysfs_streq_tail s1 s2 =
     (char_at s1 0 = char_at s2 0
      \<or> (char_at s1 0 = CHR 0x00 \<and> char_at s2 0 = CHR 0x0A \<and> char_at s2 1 = CHR 0x00)
      \<or> (char_at s1 0 = CHR 0x0A \<and> char_at s1 1 = CHR 0x00 \<and> char_at s2 0 = CHR 0x00))"

fun sysfs_streq :: "string \<Rightarrow> string \<Rightarrow> bool" where
  "sysfs_streq (c1 # s1) (c2 # s2) =
     (if c1 \<noteq> CHR 0x00 \<and> c1 = c2 then sysfs_streq s1 s2
      else sysfs_streq_tail (c1 # s1) (c2 # s2))"
| "sysfs_streq s1 s2 = sysfs_streq_tail s1 s2"

datatype errno = EINVAL | ENODEV

text \<open>
  \<^verbatim>\<open>tcpmtest_sysfs_store\<close> for the one attribute there is, \<^verbatim>\<open>mode\<close>: record the requested
  mode, latch \<^verbatim>\<open>request.mode_set\<close> and queue the event work; an empty write
  (\<^verbatim>\<open>count\<close> is 0) or an unknown string is \<^verbatim>\<open>-EINVAL\<close> and changes nothing. The
  argument is the \<^verbatim>\<open>count\<close> bytes written.
\<close>

definition tcpmtest_sysfs_store :: "tcpmtest_data \<Rightarrow> string \<Rightarrow> errno + tcpmtest_data" where
  "tcpmtest_sysfs_store d buf =
     (if buf \<noteq> [] then
        (let latch = (\<lambda>m. Inr (d\<lparr>sysfs_mode_req := m,
                                  request := (request d)\<lparr>mode_set := True\<rparr>,
                                  calls := calls d @ [Queue_work]\<rparr>)) in
         if sysfs_streq ''none'' buf then latch TESTMODE_NONE
         else if sysfs_streq ''reset'' buf then latch TESTMODE_RESET
         else if sysfs_streq ''snk'' buf then latch TESTMODE_SNK
         else if sysfs_streq ''src'' buf then latch TESTMODE_SRC
         else Inl EINVAL)
      else Inl EINVAL)"

subsection \<open>TCPM interface functions\<close>

text \<open>
  \<^verbatim>\<open>tcpmtest_set_vbus\<close>: under the lock, compute \<^verbatim>\<open>source || sink\<close>; only when it
  differs from the stored value, latch \<^verbatim>\<open>request.vbus_chng\<close>, store it and queue the
  event work.
\<close>

definition tcpmtest_set_vbus :: "tcpmtest_data \<Rightarrow> bool \<Rightarrow> bool \<Rightarrow> tcpmtest_data" where
  "tcpmtest_set_vbus d source sink =
     (let vbus = (source \<or> sink) in
      if vbus \<noteq> vbus_present d
      then d\<lparr>request := (request d)\<lparr>vbus_chng := True\<rparr>,
             vbus_present := vbus,
             calls := calls d @ [Queue_work]\<rparr>
      else d)"

definition tcpmtest_set_polarity :: "tcpmtest_data \<Rightarrow> typec_cc_polarity \<Rightarrow> tcpmtest_data" where
  "tcpmtest_set_polarity d p = d\<lparr>polarity := p\<rparr>"

definition tcpmtest_set_vconn :: "tcpmtest_data \<Rightarrow> bool \<Rightarrow> tcpmtest_data" where
  "tcpmtest_set_vconn d enable = d\<lparr>vconn_enable := enable\<rparr>"

definition tcpmtest_set_roles ::
  "tcpmtest_data \<Rightarrow> bool \<Rightarrow> typec_role \<Rightarrow> typec_data_role \<Rightarrow> tcpmtest_data" where
  "tcpmtest_set_roles d attached pr dr = d\<lparr>data_role := dr, power_role := pr\<rparr>"

definition tcpmtest_set_pd_rx :: "tcpmtest_data \<Rightarrow> bool \<Rightarrow> tcpmtest_data" where
  "tcpmtest_set_pd_rx d enable =
     (if pd_rx_enable d \<noteq> enable
      then d\<lparr>pd_rx_enable := enable, calls := calls d @ [Queue_work]\<rparr>
      else d)"

text \<open>
  \<^verbatim>\<open>tcpmtest_pd_transmit\<close> logs the message first: \<^verbatim>\<open>tcpmtest_log_msg\<close> reads
  \<^verbatim>\<open>msg->header\<close> before any test, so an absent message (\<open>None\<close>, the null pointer) is
  an invalid access there, as is an index outside the cache. Then, under the lock, it
  stores the transmit type and the message, latches \<^verbatim>\<open>request.msg_tx\<close> and queues the
  event work.
\<close>

definition tcpmtest_pd_transmit ::
  "tcpmtest_data \<Rightarrow> tcpm_transmit_type \<Rightarrow> pd_message option \<Rightarrow> tcpmtest_data option" where
  "tcpmtest_pd_transmit d ty msg =
     (case msg of
        None \<Rightarrow> None
      | Some m \<Rightarrow>
          (case tcpmtest_log_msg d ty m of
             None \<Rightarrow> None
           | Some d1 \<Rightarrow>
               Some (d1\<lparr>tx_type := ty,
                        tx_msg := m,
                        request := (request d1)\<lparr>msg_tx := True\<rparr>,
                        calls := calls d1 @ [Queue_work]\<rparr>)))"

subsection \<open>Driver internals: resets and the message synthesizers\<close>

text \<open>
  \<^verbatim>\<open>tcpmtest_hard_reset\<close>: clear the whole request word and the message-ID counter; when
  the reset comes from the simulated peer, tell the Port Manager.
\<close>

definition tcpmtest_hard_reset :: "tcpmtest_data \<Rightarrow> bool \<Rightarrow> tcpmtest_data" where
  "tcpmtest_hard_reset d from_peer =
     d\<lparr>request := request_word_zero,
       rx_id := 0,
       calls := (if from_peer then calls d @ [Tcpm_pd_hard_reset] else calls d)\<rparr>"

text \<open>
  Every synthesizer writes the header with \<^verbatim>\<open>data->rx_id++\<close> as the message ID, writes
  the data objects it sends (the other entries of \<^verbatim>\<open>rx_msg.payload\<close> keep their old
  values) and sets \<^verbatim>\<open>request.msg_rx\<close>. The payload array has \<^verbatim>\<open>PD_MAX_PAYLOAD\<close> entries
  in C, so the constant indices written here are always in range.
\<close>

definition tcpmtest_mk_snk_request :: "tcpmtest_data \<Rightarrow> tcpmtest_data" where
  "tcpmtest_mk_snk_request d =
     d\<lparr>rx_msg := (rx_msg d)\<lparr>
         header := PD_HEADER_LE PD_DATA_REQUEST TYPEC_SINK TYPEC_DEVICE (rx_id d) 1,
         payload := (payload (rx_msg d))[0 := RDO_FIXED 1 1500 1500 RDO_USB_COMM]\<rparr>,
       rx_id := rx_id d + 1,
       request := (request d)\<lparr>msg_rx := True\<rparr>\<rparr>"

definition tcpmtest_mk_snk_sink_cap :: "tcpmtest_data \<Rightarrow> tcpmtest_data" where
  "tcpmtest_mk_snk_sink_cap d =
     d\<lparr>rx_msg := (rx_msg d)\<lparr>
         header := PD_HEADER_LE PD_DATA_SINK_CAP TYPEC_SINK TYPEC_DEVICE (rx_id d) 1,
         payload := (payload (rx_msg d))[0 := PDO_FIXED 5000 2000 PDO_FIXED_USB_COMM]\<rparr>,
       rx_id := rx_id d + 1,
       request := (request d)\<lparr>msg_rx := True\<rparr>\<rparr>"

definition tcpmtest_mk_snk_disc_ident_resp_vdm :: "tcpmtest_data \<Rightarrow> tcpmtest_data" where
  "tcpmtest_mk_snk_disc_ident_resp_vdm d =
     d\<lparr>rx_msg := (rx_msg d)\<lparr>
         header := PD_HEADER_LE PD_DATA_VENDOR_DEF TYPEC_SINK TYPEC_DEVICE (rx_id d) 5,
         payload := (payload (rx_msg d))
           [VDO_INDEX_HDR := VDO_STR USB_SID_PD 0 0 CMDT_RSP_ACK CMD_DISCOVER_IDENT,
            VDO_INDEX_IDH := VDO_IDH 0 1 IDH_PTYPE_AMA 1 0x2109,
            VDO_INDEX_CSTAT := 0,
            VDO_INDEX_PRODUCT := VDO_PRODUCT 0x0101 0x0001,
            VDO_INDEX_AMA := VDO_AMA 0 0 0 0 0 0 AMA_VCONN_PWR_1W5 1 1 AMA_USBSS_BBONLY]\<rparr>,
       rx_id := rx_id d + 1,
       request := (request d)\<lparr>msg_rx := True\<rparr>\<rparr>"

definition tcpmtest_mk_snk_disc_svid_resp_vdm :: "tcpmtest_data \<Rightarrow> tcpmtest_data" where
  "tcpmtest_mk_snk_disc_svid_resp_vdm d =
     d\<lparr>rx_msg := (rx_msg d)\<lparr>
         header := PD_HEADER_LE PD_DATA_VENDOR_DEF TYPEC_SINK TYPEC_DEVICE (rx_id d) 2,
         payload := (payload (rx_msg d))
           [VDO_INDEX_HDR := VDO_STR USB_SID_PD 0 0 CMDT_RSP_ACK CMD_DISCOVER_SVID,
            1 := VDO_SVID USB_SID_DISPLAYPORT 0x0000]\<rparr>,
       rx_id := rx_id d + 1,
       request := (request d)\<lparr>msg_rx := True\<rparr>\<rparr>"

text \<open>The \<^verbatim>\<open>svid\<close> parameter is a \<^verbatim>\<open>u16\<close>: the caller's 32-bit value is truncated.\<close>

definition tcpmtest_mk_snk_disc_modes_resp_vdm :: "tcpmtest_data \<Rightarrow> u16 \<Rightarrow> tcpmtest_data" where
  "tcpmtest_mk_snk_disc_modes_resp_vdm d svid =
     (if ucast svid \<noteq> USB_SID_DISPLAYPORT then d
      else
        d\<lparr>rx_msg := (rx_msg d)\<lparr>
            header := PD_HEADER_LE PD_DATA_VENDOR_DEF TYPEC_SINK TYPEC_DEVICE (rx_id d) 2,
            payload := (payload (rx_msg d))
              [VDO_INDEX_HDR := VDO_STR USB_SID_DISPLAYPORT 0 0 CMDT_RSP_ACK CMD_DISCOVER_MODES,
               1 := VDO_MODE_DP 0 MODE_DP_PIN_C 0 1 MODE_DP_V13 MODE_DP_SNK]\<rparr>,
          rx_id := rx_id d + 1,
          request := (request d)\<lparr>msg_rx := True\<rparr>\<rparr>)"

definition tcpmtest_mk_src_data_source_cap :: "tcpmtest_data \<Rightarrow> tcpmtest_data" where
  "tcpmtest_mk_src_data_source_cap d =
     d\<lparr>rx_msg := (rx_msg d)\<lparr>
         header := PD_HEADER_LE PD_DATA_SOURCE_CAP TYPEC_SOURCE TYPEC_HOST (rx_id d) 1,
         payload := (payload (rx_msg d))
           [0 := PDO_FIXED 5000 3000
                   (PDO_FIXED_DUAL_ROLE OR PDO_FIXED_EXTPOWER OR PDO_FIXED_USB_COMM
                    OR PDO_FIXED_DATA_SWAP)]\<rparr>,
       rx_id := rx_id d + 1,
       request := (request d)\<lparr>msg_rx := True\<rparr>\<rparr>"

definition tcpmtest_mk_src_accept :: "tcpmtest_data \<Rightarrow> tcpmtest_data" where
  "tcpmtest_mk_src_accept d =
     d\<lparr>rx_msg := (rx_msg d)\<lparr>
         header := PD_HEADER_LE PD_CTRL_ACCEPT TYPEC_SOURCE TYPEC_HOST (rx_id d) 0\<rparr>,
       rx_id := rx_id d + 1,
       request := (request d)\<lparr>msg_rx := True\<rparr>\<rparr>"

definition tcpmtest_mk_src_ps_rdy :: "tcpmtest_data \<Rightarrow> tcpmtest_data" where
  "tcpmtest_mk_src_ps_rdy d =
     d\<lparr>rx_msg := (rx_msg d)\<lparr>
         header := PD_HEADER_LE PD_CTRL_PS_RDY TYPEC_SOURCE TYPEC_HOST (rx_id d) 0\<rparr>,
       rx_id := rx_id d + 1,
       request := (request d)\<lparr>msg_rx := True\<rparr>\<rparr>"

subsection \<open>Driver internals: reacting to what the Port Manager transmits\<close>

text \<open>
  \<^verbatim>\<open>tcpmtest_process_tx_vdm_for_snk\<close>: unstructured messages are ignored; the three
  discovery commands are answered when the command type is "initiation". The \<^verbatim>\<open>switch\<close>
  is written as a chain of tests in the order of its labels.
\<close>

definition tcpmtest_process_tx_vdm_for_snk :: "tcpmtest_data \<Rightarrow> u32 \<Rightarrow> tcpmtest_data" where
  "tcpmtest_process_tx_vdm_for_snk d cnt =
     (let vdo_hdr = payload (tx_msg d) ! 0 in
      if vdo_hdr AND VDO_SVDM_TYPE = 0 then d
      else
        let cmdt = PD_VDO_CMDT vdo_hdr; cmd = PD_VDO_CMD vdo_hdr in
        if cmd = CMD_DISCOVER_IDENT then
          (if cmdt = CMDT_INIT then tcpmtest_mk_snk_disc_ident_resp_vdm d else d)
        else if cmd = CMD_DISCOVER_SVID then
          (if cmdt = CMDT_INIT then tcpmtest_mk_snk_disc_svid_resp_vdm d else d)
        else if cmd = CMD_DISCOVER_MODES then
          (if cmdt = CMDT_INIT
           then tcpmtest_mk_snk_disc_modes_resp_vdm d (ucast (PD_VDO_VID vdo_hdr)) else d)
        else d)"

definition tcpmtest_process_tx_msg_for_snk :: "tcpmtest_data \<Rightarrow> tcpmtest_data" where
  "tcpmtest_process_tx_msg_for_snk d =
     (if tx_type d = TCPC_TX_HARD_RESET then tcpmtest_hard_reset d False
      else if tx_type d \<noteq> TCPC_TX_SOP then d
      else
        let hdr = header (tx_msg d); cnt = pd_header_cnt hdr; ty = pd_header_type hdr in
        if cnt = 0 then
          (if ty = PD_CTRL_GOOD_CRC \<or> ty = PD_CTRL_GOTO_MIN \<or> ty = PD_CTRL_ACCEPT then d
           else if ty = PD_CTRL_REJECT then tcpmtest_hard_reset d True
           else if ty = PD_CTRL_PING \<or> ty = PD_CTRL_PS_RDY then d
           else if ty = PD_CTRL_GET_SOURCE_CAP then tcpmtest_hard_reset d True
           else if ty = PD_CTRL_GET_SINK_CAP then tcpmtest_mk_snk_sink_cap d
           else if ty = PD_CTRL_DR_SWAP \<or> ty = PD_CTRL_PR_SWAP \<or> ty = PD_CTRL_VCONN_SWAP
             then tcpmtest_hard_reset d True
           else if ty = PD_CTRL_WAIT then d
           else if ty = PD_CTRL_SOFT_RESET then d\<lparr>rx_id := 0\<rparr>
           else d)
        else
          (if ty = PD_DATA_SOURCE_CAP then tcpmtest_mk_snk_request d
           else if ty = PD_DATA_REQUEST then tcpmtest_hard_reset d True
           else if ty = PD_DATA_BIST then d
           else if ty = PD_DATA_SINK_CAP then tcpmtest_hard_reset d True
           else if ty = PD_DATA_VENDOR_DEF then tcpmtest_process_tx_vdm_for_snk d cnt
           else d))"

text \<open>\<^verbatim>\<open>tcpmtest_process_tx_vdm_for_src\<close> has an empty body.\<close>

definition tcpmtest_process_tx_vdm_for_src :: "tcpmtest_data \<Rightarrow> u32 \<Rightarrow> tcpmtest_data" where
  "tcpmtest_process_tx_vdm_for_src d cnt = d"

definition tcpmtest_process_tx_msg_for_src :: "tcpmtest_data \<Rightarrow> tcpmtest_data" where
  "tcpmtest_process_tx_msg_for_src d =
     (if tx_type d = TCPC_TX_HARD_RESET then tcpmtest_hard_reset d False
      else if tx_type d \<noteq> TCPC_TX_SOP then d
      else
        let hdr = header (tx_msg d); cnt = pd_header_cnt hdr; ty = pd_header_type hdr in
        if cnt = 0 then
          (if ty = PD_CTRL_GOOD_CRC \<or> ty = PD_CTRL_GOTO_MIN then d
           else if ty = PD_CTRL_ACCEPT \<or> ty = PD_CTRL_REJECT then tcpmtest_hard_reset d True
           else if ty = PD_CTRL_PING \<or> ty = PD_CTRL_PS_RDY then d
           else if ty = PD_CTRL_GET_SOURCE_CAP then tcpmtest_mk_src_data_source_cap d
           else if ty = PD_CTRL_GET_SINK_CAP then tcpmtest_hard_reset d True
           else if ty = PD_CTRL_DR_SWAP \<or> ty = PD_CTRL_PR_SWAP \<or> ty = PD_CTRL_VCONN_SWAP
             then tcpmtest_hard_reset d True
           else if ty = PD_CTRL_WAIT then d
           else if ty = PD_CTRL_SOFT_RESET then d\<lparr>rx_id := 0\<rparr>
           else d)
        else
          (if ty = PD_DATA_SOURCE_CAP then tcpmtest_hard_reset d True
           else if ty = PD_DATA_REQUEST then
             (if state d = SSTATE_SRC_WAIT_FOR_REQUEST
              then d\<lparr>state := SSTATE_SRC_SEND_REQUEST\<rparr> else d)
           else if ty = PD_DATA_BIST \<or> ty = PD_DATA_SINK_CAP then d
           else if ty = PD_DATA_VENDOR_DEF then tcpmtest_process_tx_vdm_for_src d cnt
           else d))"

subsection \<open>The state machine\<close>

text \<open>
  \<^verbatim>\<open>tcpmtest_state_machine\<close>: one step from the current state. Only \<^verbatim>\<open>SSTATE_SRC_START\<close>
  sets the local \<^verbatim>\<open>delay\<close> (to 5), which the tail of the function stores and hands to
  \<^verbatim>\<open>mod_delayed_work\<close>. The \<^verbatim>\<open>default: BUG()\<close> label has no state left to catch: the
  cases cover the enumeration.
\<close>

definition tcpmtest_state_machine :: "tcpmtest_data \<Rightarrow> bool \<Rightarrow> tcpmtest_data" where
  "tcpmtest_state_machine d timeout =
     (case state d of
        SSTATE_NONE \<Rightarrow> d
      | SSTATE_SNK_START \<Rightarrow>
          d\<lparr>vbus_present := False,
            cc1_status := TYPEC_CC_RD,
            cc2_status := TYPEC_CC_RA,
            calls := calls d @ [Tcpm_cc_change],
            state := SSTATE_SNK_RUN\<rparr>
      | SSTATE_SNK_RUN \<Rightarrow> d
      | SSTATE_SRC_START \<Rightarrow>
          d\<lparr>cc1_status := TYPEC_CC_OPEN,
            cc2_status := TYPEC_CC_RP_3_0,
            state := SSTATE_SRC_VBUS,
            delay := 5,
            calls := calls d @ [Tcpm_cc_change, Mod_delayed_work 5]\<rparr>
      | SSTATE_SRC_VBUS \<Rightarrow>
          (if timeout
           then d\<lparr>vbus_present := True,
                  request := (request d)\<lparr>vbus_chng := True\<rparr>,
                  state := SSTATE_SRC_RX_SOURCE_CAP\<rparr>
           else d)
      | SSTATE_SRC_RX_SOURCE_CAP \<Rightarrow>
          (if pd_rx_enable d
           then (tcpmtest_mk_src_data_source_cap d)\<lparr>state := SSTATE_SRC_WAIT_FOR_REQUEST\<rparr>
           else d)
      | SSTATE_SRC_WAIT_FOR_REQUEST \<Rightarrow> d
      | SSTATE_SRC_SEND_REQUEST \<Rightarrow>
          (tcpmtest_mk_src_accept d)\<lparr>state := SSTATE_SRC_SEND_PS_RDY\<rparr>
      | SSTATE_SRC_SEND_PS_RDY \<Rightarrow>
          (if \<not> msg_rx (request d)
           then (tcpmtest_mk_src_ps_rdy d)\<lparr>state := SSTATE_SRC_RUN\<rparr>
           else d)
      | SSTATE_SRC_RUN \<Rightarrow> d
      | SSTATE_TO_NONE \<Rightarrow>
          (let d1 = tcpmtest_hard_reset
                      (d\<lparr>vbus_present := False,
                         cc1_status := TYPEC_CC_OPEN,
                         cc2_status := TYPEC_CC_OPEN\<rparr>) False
           in d1\<lparr>calls := calls d1 @
                    [if sysfs_mode_req d1 = TESTMODE_RESET then Tcpm_tcpc_reset
                     else Tcpm_cc_change],
                 sysfs_mode := TESTMODE_NONE,
                 state := SSTATE_NONE\<rparr>))"

subsection \<open>The event work and the timeout work\<close>

definition SRC_RESP_DELAY :: nat where "SRC_RESP_DELAY = 2"

text \<open>
  \<^verbatim>\<open>tcpmtest_event_work\<close> handles the latched requests in a fixed order and then runs one
  step of the state machine. Its first three \<^verbatim>\<open>if\<close> blocks are named here. In the
  mode-change block the \<^verbatim>\<open>default: BUG()\<close> label has no value left to catch:
  \<^verbatim>\<open>sysfs.mode_req\<close> only ever holds one of the four modes.
\<close>

definition tcpmtest_event_work_mode_set :: "tcpmtest_data \<Rightarrow> tcpmtest_data" where
  "tcpmtest_event_work_mode_set d =
     (if mode_set (request d) then
        (let d1 = d\<lparr>request := (request d)\<lparr>mode_set := False\<rparr>\<rparr> in
         case sysfs_mode_req d1 of
           TESTMODE_NONE \<Rightarrow>
             (if sysfs_mode d1 \<noteq> TESTMODE_NONE then d1\<lparr>state := SSTATE_TO_NONE\<rparr> else d1)
         | TESTMODE_RESET \<Rightarrow>
             (if sysfs_mode d1 \<noteq> TESTMODE_NONE then d1\<lparr>state := SSTATE_TO_NONE\<rparr> else d1)
         | TESTMODE_SNK \<Rightarrow>
             (if sysfs_mode d1 = TESTMODE_NONE
              then d1\<lparr>sysfs_mode := TESTMODE_SNK, state := SSTATE_SNK_START\<rparr> else d1)
         | TESTMODE_SRC \<Rightarrow>
             (if sysfs_mode d1 = TESTMODE_NONE
              then d1\<lparr>sysfs_mode := TESTMODE_SRC, state := SSTATE_SRC_START\<rparr> else d1))
      else d)"

definition tcpmtest_event_work_vbus_chng :: "tcpmtest_data \<Rightarrow> tcpmtest_data" where
  "tcpmtest_event_work_vbus_chng d =
     (if vbus_chng (request d)
      then d\<lparr>request := (request d)\<lparr>vbus_chng := False\<rparr>,
             calls := calls d @ [Tcpm_vbus_change]\<rparr>
      else d)"

definition tcpmtest_event_work_msg_tx :: "tcpmtest_data \<Rightarrow> tcpmtest_data" where
  "tcpmtest_event_work_msg_tx d =
     (if msg_tx (request d) then
        (let d1 = d\<lparr>request := (request d)\<lparr>msg_tx := False\<rparr>\<rparr> in
         if sysfs_mode d1 = TESTMODE_SNK then
           (let d2 = tcpmtest_process_tx_msg_for_snk d1
            in d2\<lparr>calls := calls d2 @ [Tcpm_pd_transmit_complete TCPC_TX_SUCCESS]\<rparr>)
         else if sysfs_mode d1 = TESTMODE_SRC then
           (let d2 = tcpmtest_process_tx_msg_for_src d1
            in d2\<lparr>calls := calls d2 @ [Tcpm_pd_transmit_complete TCPC_TX_SUCCESS]\<rparr>)
         else d1\<lparr>calls := calls d1 @ [Tcpm_pd_transmit_complete TCPC_TX_FAILED]\<rparr>)
      else d)"

text \<open>
  After the three blocks the source has
  \<^verbatim>\<open>if (tcpmtest_state_machine(data, false)) queue_work(...)\<close>, although
  \<^verbatim>\<open>tcpmtest_state_machine\<close> returns \<^verbatim>\<open>void\<close>: the condition has no value. The step is
  run and nothing is queued for it. Last, a staged message arms the timeout work.
\<close>

definition tcpmtest_event_work :: "tcpmtest_data \<Rightarrow> tcpmtest_data" where
  "tcpmtest_event_work d =
     (let d1 = tcpmtest_event_work_mode_set d;
          d2 = tcpmtest_event_work_vbus_chng d1;
          d3 = tcpmtest_event_work_msg_tx d2;
          d4 = tcpmtest_state_machine d3 False
      in if msg_rx (request d4)
         then d4\<lparr>calls := calls d4 @ [Mod_delayed_work SRC_RESP_DELAY]\<rparr>
         else d4)"

text \<open>
  \<^verbatim>\<open>tcpmtest_tmo_work\<close>: deliver the staged message, if any (logging it first), then
  run one step of the state machine with the timeout flag.
\<close>

definition tcpmtest_tmo_work :: "tcpmtest_data \<Rightarrow> tcpmtest_data option" where
  "tcpmtest_tmo_work d =
     (case (if msg_rx (request d) then
              (case tcpmtest_log_msg (d\<lparr>request := (request d)\<lparr>msg_rx := False\<rparr>\<rparr>)
                      TCPC_TX_SOP (rx_msg d) of
                 None \<Rightarrow> None
               | Some d1 \<Rightarrow> Some (d1\<lparr>calls := calls d1 @ [Tcpm_pd_receive (rx_msg d1)]\<rparr>))
            else Some d) of
        None \<Rightarrow> None
      | Some d2 \<Rightarrow> Some (tcpmtest_state_machine (d2\<lparr>delay := 0\<rparr>) True))"

subsection \<open>Runs of the driver\<close>

text \<open>
  \<^verbatim>\<open>tcpmtest_probe\<close> allocates the state with \<^verbatim>\<open>devm_kzalloc\<close>: every field is zero, which
  is the first enumerator of each enumeration. The arrays have their declared sizes,
  \<^verbatim>\<open>PD_MAX_PAYLOAD\<close> and \<^verbatim>\<open>PDO_MAX_OBJECTS\<close> entries, that is seven each.
\<close>

definition tcpmtest_probe :: tcpmtest_data where
  "tcpmtest_probe =
     \<lparr>cc1_status = TYPEC_CC_OPEN, cc2_status = TYPEC_CC_OPEN, vbus_present = False,
      polarity = TYPEC_POLARITY_CC1, vconn_enable = False, pd_rx_enable = False,
      data_role = TYPEC_DEVICE, power_role = TYPEC_SINK, delay = 0,
      request = request_word_zero, state = SSTATE_NONE, tx_type = TCPC_TX_SOP,
      tx_msg = \<lparr>header = 0, payload = [0, 0, 0, 0, 0, 0, 0]\<rparr>,
      rx_msg = \<lparr>header = 0, payload = [0, 0, 0, 0, 0, 0, 0]\<rparr>,
      rx_id = 0, src_cap_pdo_type = [0, 0, 0, 0, 0, 0, 0],
      sysfs_mode = TESTMODE_NONE, sysfs_mode_req = TESTMODE_NONE, calls = []\<rparr>"

text \<open>
  What can happen to the driver: a write to the mode attribute, a call of the Port
  Manager through the \<^verbatim>\<open>tcpc_dev\<close> operations, a run of the event work, a run of the
  timeout work. A run stops (\<open>None\<close>) at an invalid memory access; a rejected mode
  string leaves the state as it is.
\<close>

datatype event =
    Sysfs_store string
  | Set_vbus bool bool
  | Set_pd_rx bool
  | Set_polarity typec_cc_polarity
  | Set_vconn bool
  | Set_roles bool typec_role typec_data_role
  | Pd_transmit tcpm_transmit_type "pd_message option"
  | Event_work
  | Tmo_work

fun step :: "event \<Rightarrow> tcpmtest_data \<Rightarrow> tcpmtest_data option" where
  "step (Sysfs_store buf) d =
     (case tcpmtest_sysfs_store d buf of Inl e \<Rightarrow> Some d | Inr d' \<Rightarrow> Some d')"
| "step (Set_vbus source sink) d = Some (tcpmtest_set_vbus d source sink)"
| "step (Set_pd_rx enable) d = Some (tcpmtest_set_pd_rx d enable)"
| "step (Set_polarity p) d = Some (tcpmtest_set_polarity d p)"
| "step (Set_vconn enable) d = Some (tcpmtest_set_vconn d enable)"
| "step (Set_roles attached pr dr) d = Some (tcpmtest_set_roles d attached pr dr)"
| "step (Pd_transmit ty msg) d = tcpmtest_pd_transmit d ty msg"
| "step Event_work d = Some (tcpmtest_event_work d)"
| "step Tmo_work d = tcpmtest_tmo_work d"

fun run :: "event list \<Rightarrow> tcpmtest_data \<Rightarrow> tcpmtest_data option" where
  "run [] d = Some d"
| "run (e # es) d = (case step e d of None \<Rightarrow> None | Some d' \<Rightarrow> run es d')"

subsection \<open>The work queue\<close>

text \<open>
  Modelled from the spec: the kernel work queue (\<^verbatim>\<open>kernel/workqueue.c\<close> is not among the
  sources), as far as the driver uses it. Section 5 of the specification: the work is
  serialized, never parallel, and at most one timer is outstanding, a later re-arm
  replaces rather than stacks. \<^verbatim>\<open>queue_work\<close> makes the event work pending and
  \<^verbatim>\<open>mod_delayed_work\<close> arms the timer of the timeout work; a work runs only when it is
  pending, and a pending event work runs before the timer expires. What a step of the
  driver queued or armed is read off the calls it added to the trace.
\<close>

fun is_mod_delayed_work :: "port_call \<Rightarrow> bool" where
  "is_mod_delayed_work (Mod_delayed_work n) = True"
| "is_mod_delayed_work c = False"

definition calls_since :: "tcpmtest_data \<Rightarrow> tcpmtest_data \<Rightarrow> port_call list" where
  "calls_since d d' = drop (length (calls d)) (calls d')"

record work_queue =
  event_pending :: bool
  tmo_armed :: bool

definition work_queue_idle :: work_queue where
  "work_queue_idle = \<lparr>event_pending = False, tmo_armed = False\<rparr>"

definition queue_after :: "work_queue \<Rightarrow> tcpmtest_data \<Rightarrow> tcpmtest_data \<Rightarrow> work_queue" where
  "queue_after q d d' =
     \<lparr>event_pending = (event_pending q \<or> Queue_work \<in> set (calls_since d d')),
      tmo_armed = (tmo_armed q \<or> list_ex is_mod_delayed_work (calls_since d d'))\<rparr>"

text \<open>
  The work queue runs what is pending, at most \<open>n\<close> works, and stops when nothing is
  pending any more (the returned queue is then idle). \<open>None\<close> is an invalid memory access
  in a work.
\<close>

fun drain :: "nat \<Rightarrow> work_queue \<Rightarrow> tcpmtest_data \<Rightarrow> (work_queue \<times> tcpmtest_data) option" where
  "drain 0 q d = Some (q, d)"
| "drain (Suc n) q d =
     (if event_pending q then
        (case step Event_work d of
           None \<Rightarrow> None
         | Some d' \<Rightarrow> drain n (queue_after (q\<lparr>event_pending := False\<rparr>) d d') d')
      else if tmo_armed q then
        (case step Tmo_work d of
           None \<Rightarrow> None
         | Some d' \<Rightarrow> drain n (queue_after (q\<lparr>tmo_armed := False\<rparr>) d d') d')
      else Some (q, d))"

text \<open>
  A call from outside (the operator's write or an operation called by the Port Manager)
  followed by the works it sets off, and a sequence of such calls.
\<close>

definition external_call ::
  "nat \<Rightarrow> event \<Rightarrow> work_queue \<times> tcpmtest_data \<Rightarrow> (work_queue \<times> tcpmtest_data) option" where
  "external_call n e qd =
     (case step e (snd qd) of
        None \<Rightarrow> None
      | Some d' \<Rightarrow> drain n (queue_after (fst qd) (snd qd) d') d')"

fun session ::
  "nat \<Rightarrow> event list \<Rightarrow> work_queue \<times> tcpmtest_data \<Rightarrow> (work_queue \<times> tcpmtest_data) option" where
  "session n [] qd = Some qd"
| "session n (e # es) qd =
     (case external_call n e qd of None \<Rightarrow> None | Some qd' \<Rightarrow> session n es qd')"

subsection \<open>The events that set the message-ID counter to zero\<close>

text \<open>
  The event work hands the transmitted message to a classifier when a transmit is latched
  and, after the mode-change block, a role is active.
\<close>

definition message_processed :: "tcpmtest_data \<Rightarrow> bool" where
  "message_processed d =
     (msg_tx (request d)
      \<and> (sysfs_mode (tcpmtest_event_work_mode_set d) = TESTMODE_SNK
          \<or> sysfs_mode (tcpmtest_event_work_mode_set d) = TESTMODE_SRC))"

text \<open>
  A step \<open>e\<close> of the driver from \<open>d\<close> to \<open>d'\<close> is one of the events named in the
  specification when: the event work processes a hard reset transmitted by the Port
  Manager; or the step notifies the Port Manager of a hard reset from the simulated peer
  (\<^verbatim>\<open>tcpm_pd_hard_reset\<close>); or the event work processes a SoftReset control message; or
  the session ends, that is, the state machine runs in \<^verbatim>\<open>SSTATE_TO_NONE\<close>.
\<close>

definition counter_reset_event :: "event \<Rightarrow> tcpmtest_data \<Rightarrow> tcpmtest_data \<Rightarrow> bool" where
  "counter_reset_event e d d' =
     ((e = Event_work \<and> message_processed d \<and> tx_type d = TCPC_TX_HARD_RESET)
      \<or> Tcpm_pd_hard_reset \<in> set (calls_since d d')
      \<or> (e = Event_work \<and> message_processed d \<and> tx_type d = TCPC_TX_SOP
          \<and> pd_header_cnt (header (tx_msg d)) = 0
          \<and> pd_header_type (header (tx_msg d)) = PD_CTRL_SOFT_RESET)
      \<or> (e = Event_work \<and> state (tcpmtest_event_work_mode_set d) = SSTATE_TO_NONE)
      \<or> (e = Tmo_work \<and> state d = SSTATE_TO_NONE))"

subsection \<open>The polling variant of the driver\<close>

text \<open>
  An earlier revision of the driver (the second file of \<^verbatim>\<open>src/unnamed/part_000\<close>) runs a
  worker thread instead of the event work and has no state machine. Its
  \<^verbatim>\<open>struct tcpmtest_data\<close> has the fields used here in common with the later one (it
  lacks \<^verbatim>\<open>state\<close>, \<^verbatim>\<open>delay\<close> and \<^verbatim>\<open>sysfs.mode_req\<close>, which its functions cannot touch),
  so its functions are modelled on the same record, with the suffix \<open>_poll\<close>. Its
  \<^verbatim>\<open>tcpmtest_hard_reset\<close>, \<^verbatim>\<open>tcpmtest_mk_snk_request\<close>, \<^verbatim>\<open>tcpmtest_mk_snk_sink_cap\<close>,
  \<^verbatim>\<open>tcpmtest_mk_snk_disc_ident_resp_vdm\<close> and \<^verbatim>\<open>tcpmtest_mk_snk_disc_svid_resp_vdm\<close> are the
  same text as in the later revision and are not repeated. Its DiscoverModes reply is
  built with \<^verbatim>\<open>VDO_DPM\<close> of its own \<^verbatim>\<open>pd_vdo_dp.h\<close> (\<^verbatim>\<open>src/unnamed/part_001\<close>).
\<close>

definition DPM_DFP_D_PIN_C :: u32 where "DPM_DFP_D_PIN_C = 0x04"
definition DPM_SIGN_SUPP_DP13 :: u32 where "DPM_SIGN_SUPP_DP13 = 0x1"
definition DPM_PORT_CAP_UFP_D :: u32 where "DPM_PORT_CAP_UFP_D = 1"

definition VDO_DPM :: "u32 \<Rightarrow> u32 \<Rightarrow> u32 \<Rightarrow> u32 \<Rightarrow> u32 \<Rightarrow> u32 \<Rightarrow> u32" where
  "VDO_DPM ufpd dfpd nusb20 rcp sign cap =
     (push_bit 16 ufpd OR push_bit 8 dfpd OR push_bit 7 nusb20 OR push_bit 6 rcp
      OR push_bit 2 sign OR cap)"

definition tcpmtest_mk_snk_disc_modes_resp_vdm_poll ::
  "tcpmtest_data \<Rightarrow> u16 \<Rightarrow> tcpmtest_data" where
  "tcpmtest_mk_snk_disc_modes_resp_vdm_poll d svid =
     (if ucast svid \<noteq> USB_SID_DISPLAYPORT then d
      else
        d\<lparr>rx_msg := (rx_msg d)\<lparr>
            header := PD_HEADER_LE PD_DATA_VENDOR_DEF TYPEC_SINK TYPEC_DEVICE (rx_id d) 2,
            payload := (payload (rx_msg d))
              [VDO_INDEX_HDR := VDO_STR USB_SID_DISPLAYPORT 0 0 CMDT_RSP_ACK CMD_DISCOVER_MODES,
               1 := VDO_DPM 0 DPM_DFP_D_PIN_C 0 0 DPM_SIGN_SUPP_DP13 DPM_PORT_CAP_UFP_D]\<rparr>,
          rx_id := rx_id d + 1,
          request := (request d)\<lparr>msg_rx := True\<rparr>\<rparr>)"

definition tcpmtest_process_tx_vdm_for_snk_poll :: "tcpmtest_data \<Rightarrow> u32 \<Rightarrow> tcpmtest_data" where
  "tcpmtest_process_tx_vdm_for_snk_poll d cnt =
     (let vdo_hdr = payload (tx_msg d) ! 0 in
      if vdo_hdr AND VDO_SVDM_TYPE = 0 then d
      else
        let cmdt = PD_VDO_CMDT vdo_hdr; cmd = PD_VDO_CMD vdo_hdr in
        if cmd = CMD_DISCOVER_IDENT then
          (if cmdt = CMDT_INIT then tcpmtest_mk_snk_disc_ident_resp_vdm d else d)
        else if cmd = CMD_DISCOVER_SVID then
          (if cmdt = CMDT_INIT then tcpmtest_mk_snk_disc_svid_resp_vdm d else d)
        else if cmd = CMD_DISCOVER_MODES then
          (if cmdt = CMDT_INIT
           then tcpmtest_mk_snk_disc_modes_resp_vdm_poll d (ucast (PD_VDO_VID vdo_hdr))
           else d)
        else d)"

definition tcpmtest_process_tx_msg_for_snk_poll :: "tcpmtest_data \<Rightarrow> tcpmtest_data" where
  "tcpmtest_process_tx_msg_for_snk_poll d =
     (if tx_type d = TCPC_TX_HARD_RESET then tcpmtest_hard_reset d False
      else if tx_type d \<noteq> TCPC_TX_SOP then d
      else
        let hdr = header (tx_msg d); cnt = pd_header_cnt hdr; ty = pd_header_type hdr in
        if cnt = 0 then
          (if ty = PD_CTRL_GOOD_CRC \<or> ty = PD_CTRL_GOTO_MIN \<or> ty = PD_CTRL_ACCEPT then d
           else if ty = PD_CTRL_REJECT then tcpmtest_hard_reset d True
           else if ty = PD_CTRL_PING \<or> ty = PD_CTRL_PS_RDY then d
           else if ty = PD_CTRL_GET_SOURCE_CAP then tcpmtest_hard_reset d True
           else if ty = PD_CTRL_GET_SINK_CAP then tcpmtest_mk_snk_sink_cap d
           else if ty = PD_CTRL_DR_SWAP \<or> ty = PD_CTRL_PR_SWAP \<or> ty = PD_CTRL_VCONN_SWAP
             then tcpmtest_hard_reset d True
           else if ty = PD_CTRL_WAIT then d
           else if ty = PD_CTRL_SOFT_RESET then d\<lparr>rx_id := 0\<rparr>
           else d)
        else
          (if ty = PD_DATA_SOURCE_CAP then tcpmtest_mk_snk_request d
           else if ty = PD_DATA_REQUEST then tcpmtest_hard_reset d True
           else if ty = PD_DATA_BIST then d
           else if ty = PD_DATA_SINK_CAP then tcpmtest_hard_reset d True
           else if ty = PD_DATA_VENDOR_DEF then tcpmtest_process_tx_vdm_for_snk_poll d cnt
           else d))"

text \<open>In this revision the Source classifier is a copy of the Sink classifier.\<close>

definition tcpmtest_process_tx_msg_for_src_poll :: "tcpmtest_data \<Rightarrow> tcpmtest_data" where
  "tcpmtest_process_tx_msg_for_src_poll d =
     (if tx_type d = TCPC_TX_HARD_RESET then tcpmtest_hard_reset d False
      else if tx_type d \<noteq> TCPC_TX_SOP then d
      else
        let hdr = header (tx_msg d); cnt = pd_header_cnt hdr; ty = pd_header_type hdr in
        if cnt = 0 then
          (if ty = PD_CTRL_GOOD_CRC \<or> ty = PD_CTRL_GOTO_MIN \<or> ty = PD_CTRL_ACCEPT then d
           else if ty = PD_CTRL_REJECT then tcpmtest_hard_reset d True
           else if ty = PD_CTRL_PING \<or> ty = PD_CTRL_PS_RDY then d
           else if ty = PD_CTRL_GET_SOURCE_CAP then tcpmtest_hard_reset d True
           else if ty = PD_CTRL_GET_SINK_CAP then tcpmtest_mk_snk_sink_cap d
           else if ty = PD_CTRL_DR_SWAP \<or> ty = PD_CTRL_PR_SWAP \<or> ty = PD_CTRL_VCONN_SWAP
             then tcpmtest_hard_reset d True
           else if ty = PD_CTRL_WAIT then d
           else if ty = PD_CTRL_SOFT_RESET then d\<lparr>rx_id := 0\<rparr>
           else d)
        else
          (if ty = PD_DATA_SOURCE_CAP then tcpmtest_hard_reset d True
           else if ty = PD_DATA_REQUEST then tcpmtest_mk_snk_request d
           else if ty = PD_DATA_BIST then d
           else if ty = PD_DATA_SINK_CAP then tcpmtest_hard_reset d True
           else if ty = PD_DATA_VENDOR_DEF then tcpmtest_process_tx_vdm_for_snk_poll d cnt
           else d))"

text \<open>
  The one message on which the two Sink classifiers differ: a structured vendor-defined
  message that initiates DiscoverModes for the DisplayPort SVID.
\<close>

definition disc_modes_dp_init :: "tcpmtest_data \<Rightarrow> bool" where
  "disc_modes_dp_init d =
     (tx_type d = TCPC_TX_SOP \<and> pd_header_cnt (header (tx_msg d)) \<noteq> 0
      \<and> pd_header_type (header (tx_msg d)) = PD_DATA_VENDOR_DEF
      \<and> payload (tx_msg d) ! 0 AND VDO_SVDM_TYPE \<noteq> 0
      \<and> PD_VDO_CMD (payload (tx_msg d) ! 0) = CMD_DISCOVER_MODES
      \<and> PD_VDO_CMDT (payload (tx_msg d) ! 0) = CMDT_INIT
      \<and> ucast (ucast (PD_VDO_VID (payload (tx_msg d) ! 0)) :: u16) = USB_SID_DISPLAYPORT)"

text \<open>
  The vendor-defined messages that the Sink-role VDM handler of either variant answers:
  a structured VDM that initiates DiscoverIdentity, DiscoverSVIDs, or DiscoverModes for
  the DisplayPort SVID.
\<close>

definition svdm_init_answered :: "tcpmtest_data \<Rightarrow> bool" where
  "svdm_init_answered d =
     (payload (tx_msg d) ! 0 AND VDO_SVDM_TYPE \<noteq> 0
      \<and> PD_VDO_CMDT (payload (tx_msg d) ! 0) = CMDT_INIT
      \<and> (PD_VDO_CMD (payload (tx_msg d) ! 0) = CMD_DISCOVER_IDENT
          \<or> PD_VDO_CMD (payload (tx_msg d) ! 0) = CMD_DISCOVER_SVID
          \<or> (PD_VDO_CMD (payload (tx_msg d) ! 0) = CMD_DISCOVER_MODES
              \<and> ucast (ucast (PD_VDO_VID (payload (tx_msg d) ! 0)) :: u16)
                  = USB_SID_DISPLAYPORT)))"

subsection \<open>Example sessions\<close>

text \<open>
  A message as the Port Manager hands it to \<^verbatim>\<open>pd_transmit\<close>: a header and a first data
  object, the other six data objects zero.
\<close>

definition pm_message :: "u16 \<Rightarrow> u32 \<Rightarrow> pd_message" where
  "pm_message h dobj = \<lparr>header = h, payload = [dobj, 0, 0, 0, 0, 0, 0]\<rparr>"

text \<open>
  A Source session up to the point where the simulator waits for the Request: the
  operator writes \<^verbatim>\<open>src\<close>, the attach delay expires, the Port Manager enables PD
  reception, the SourceCapabilities message is staged and, after the response delay,
  delivered.
\<close>

definition src_session_start :: "event list" where
  "src_session_start =
     [Sysfs_store ''src'', Event_work, Tmo_work, Set_pd_rx True, Event_work, Tmo_work]"

text \<open>
  The Port Manager, as sink, requests object position 1 (header: Request, revision 2.0,
  one data object); the simulator stages the Accept and, when the timeout work has
  delivered it, the PowerReady. The last two events of \<open>src_session_request\<close> are one
  more run of the event work, queued by whatever the driver is called with next, and the
  timeout work it arms, which delivers the PowerReady.
\<close>

definition request_message :: pd_message where
  "request_message = pm_message 0x1042 (RDO_FIXED 1 1500 1500 RDO_USB_COMM)"

definition src_session_request :: "event list" where
  "src_session_request =
     [Pd_transmit TCPC_TX_SOP (Some request_message), Event_work, Tmo_work,
      Event_work, Tmo_work]"

text \<open>
  The state of the driver after \<open>src_session_start\<close>, and after
  \<open>src_session_start @ src_session_request\<close> (lemma \<open>src_session_runs\<close>).
\<close>

definition src_waiting_state :: tcpmtest_data where
  "src_waiting_state =
     \<lparr>cc1_status = TYPEC_CC_OPEN, cc2_status = TYPEC_CC_RP_3_0, vbus_present = True,
      polarity = TYPEC_POLARITY_CC1, vconn_enable = False, pd_rx_enable = True,
      data_role = TYPEC_DEVICE, power_role = TYPEC_SINK, delay = 0,
      request = request_word_zero, state = SSTATE_SRC_WAIT_FOR_REQUEST,
      tx_type = TCPC_TX_SOP,
      tx_msg = \<lparr>header = 0, payload = [0, 0, 0, 0, 0, 0, 0]\<rparr>,
      rx_msg = \<lparr>header = 0x1161, payload = [0x2E01912C, 0, 0, 0, 0, 0, 0]\<rparr>,
      rx_id = 1, src_cap_pdo_type = [0, 0, 0, 0, 0, 0, 0],
      sysfs_mode = TESTMODE_SRC, sysfs_mode_req = TESTMODE_SRC,
      calls =
        [Queue_work, Tcpm_cc_change, Mod_delayed_work 5, Queue_work, Tcpm_vbus_change,
         Mod_delayed_work 2,
         Tcpm_pd_receive \<lparr>header = 0x1161, payload = [0x2E01912C, 0, 0, 0, 0, 0, 0]\<rparr>]\<rparr>"

definition src_running_state :: tcpmtest_data where
  "src_running_state =
     src_waiting_state
       \<lparr>state := SSTATE_SRC_RUN,
        tx_msg := request_message,
        rx_msg := \<lparr>header = 0x566, payload = [0x2E01912C, 0, 0, 0, 0, 0, 0]\<rparr>,
        rx_id := 3,
        calls := calls src_waiting_state @
          [Queue_work, Tcpm_pd_transmit_complete TCPC_TX_SUCCESS, Mod_delayed_work 2,
           Tcpm_pd_receive \<lparr>header = 0x363, payload = [0x2E01912C, 0, 0, 0, 0, 0, 0]\<rparr>,
           Mod_delayed_work 2,
           Tcpm_pd_receive \<lparr>header = 0x566, payload = [0x2E01912C, 0, 0, 0, 0, 0, 0]\<rparr>]\<rparr>"

text \<open>
  The state in which the driver's own works leave the session after the Request: the
  Accept is delivered and the PowerReady is staged.
\<close>

definition src_accepted_state :: tcpmtest_data where
  "src_accepted_state =
     src_waiting_state
       \<lparr>state := SSTATE_SRC_RUN,
        tx_msg := request_message,
        request := request_word_zero\<lparr>msg_rx := True\<rparr>,
        rx_msg := \<lparr>header = 0x566, payload = [0x2E01912C, 0, 0, 0, 0, 0, 0]\<rparr>,
        rx_id := 3,
        calls := calls src_waiting_state @
          [Queue_work, Tcpm_pd_transmit_complete TCPC_TX_SUCCESS, Mod_delayed_work 2,
           Tcpm_pd_receive \<lparr>header = 0x363, payload = [0x2E01912C, 0, 0, 0, 0, 0, 0]\<rparr>]\<rparr>"

text \<open>
  Messages of the Port Manager: its sink capabilities (the driver's configuration word
  \<^verbatim>\<open>tcpmtest_snk_pdos\<close>) and a control message of a given type, sent as sink.
\<close>

definition sink_cap_message :: pd_message where
  "sink_cap_message = pm_message 0x1044 0x26019032"

definition ctrl_message :: "u32 \<Rightarrow> pd_message" where
  "ctrl_message ty = pm_message (PD_HEADER_LE ty TYPEC_SINK TYPEC_DEVICE 0 0) 0"

text \<open>
  A Sink session: the state after the operator wrote \<^verbatim>\<open>snk\<close> and the event work ran,
  and the source capabilities of the Port Manager (the driver's configuration word
  \<^verbatim>\<open>tcpmtest_src_pdos\<close>).
\<close>

definition snk_attached_state :: tcpmtest_data where
  "snk_attached_state =
     tcpmtest_probe
       \<lparr>cc1_status := TYPEC_CC_RD, cc2_status := TYPEC_CC_RA, state := SSTATE_SNK_RUN,
        sysfs_mode := TESTMODE_SNK, sysfs_mode_req := TESTMODE_SNK,
        calls := [Queue_work, Tcpm_cc_change]\<rparr>"

definition source_cap_message :: pd_message where
  "source_cap_message = pm_message 0x1161 0x26019096"

subsection \<open>The states of a session\<close>

text \<open>
  The states that belong to each active mode. \<^verbatim>\<open>sysfs.mode\<close> is never
  \<^verbatim>\<open>TESTMODE_RESET\<close>: a reset is only ever a requested mode.
\<close>

definition session_inv :: "tcpmtest_data \<Rightarrow> bool" where
  "session_inv d =
     (case sysfs_mode d of
        TESTMODE_NONE \<Rightarrow> state d = SSTATE_NONE
      | TESTMODE_SNK \<Rightarrow> state d \<in> {SSTATE_SNK_START, SSTATE_SNK_RUN, SSTATE_TO_NONE}
      | TESTMODE_SRC \<Rightarrow>
          state d \<in> {SSTATE_SRC_START, SSTATE_SRC_VBUS, SSTATE_SRC_RX_SOURCE_CAP,
                      SSTATE_SRC_WAIT_FOR_REQUEST, SSTATE_SRC_SEND_REQUEST,
                      SSTATE_SRC_SEND_PS_RDY, SSTATE_SRC_RUN, SSTATE_TO_NONE}
      | TESTMODE_RESET \<Rightarrow> False)"

subsection \<open>The message synthesizers, as a list\<close>

text \<open>
  All functions of the driver that build a message for the Port Manager; the
  DiscoverModes reply is built for the one SVID it answers, DisplayPort.
  \<open>synthesize_all\<close> calls a sequence of them, first to last.
\<close>

definition synthesizers :: "(tcpmtest_data \<Rightarrow> tcpmtest_data) list" where
  "synthesizers =
     [tcpmtest_mk_snk_request, tcpmtest_mk_snk_sink_cap,
      tcpmtest_mk_snk_disc_ident_resp_vdm, tcpmtest_mk_snk_disc_svid_resp_vdm,
      (\<lambda>d. tcpmtest_mk_snk_disc_modes_resp_vdm d (ucast USB_SID_DISPLAYPORT)),
      tcpmtest_mk_src_data_source_cap, tcpmtest_mk_src_accept, tcpmtest_mk_src_ps_rdy]"

fun synthesize_all ::
  "(tcpmtest_data \<Rightarrow> tcpmtest_data) list \<Rightarrow> tcpmtest_data \<Rightarrow> tcpmtest_data" where
  "synthesize_all [] d = d"
| "synthesize_all (f # fs) d = synthesize_all fs (f d)"

section \<open>Auxiliary facts\<close>

lemmas pd_msg_types =
  PD_CTRL_GOOD_CRC_def PD_CTRL_GOTO_MIN_def PD_CTRL_ACCEPT_def PD_CTRL_REJECT_def
  PD_CTRL_PING_def PD_CTRL_PS_RDY_def PD_CTRL_GET_SOURCE_CAP_def PD_CTRL_GET_SINK_CAP_def
  PD_CTRL_DR_SWAP_def PD_CTRL_PR_SWAP_def PD_CTRL_VCONN_SWAP_def PD_CTRL_WAIT_def
  PD_CTRL_SOFT_RESET_def PD_DATA_SOURCE_CAP_def PD_DATA_REQUEST_def PD_DATA_BIST_def
  PD_DATA_SINK_CAP_def PD_DATA_VENDOR_DEF_def

lemmas pd_header_fields =
  PD_REV20_def PD_HEADER_CNT_SHIFT_def PD_HEADER_CNT_MASK_def PD_HEADER_ID_SHIFT_def
  PD_HEADER_ID_MASK_def PD_HEADER_PWR_ROLE_def PD_HEADER_REV_SHIFT_def PD_HEADER_REV_MASK_def
  PD_HEADER_DATA_ROLE_def PD_HEADER_TYPE_SHIFT_def PD_HEADER_TYPE_MASK_def

subsection \<open>The fields of a synthesized header\<close>

lemma mask_as_take_bit:
  "(x::u32) AND 7 = take_bit 3 x" "(x::u32) AND 15 = take_bit 4 x" "(x::u32) AND 3 = take_bit 2 x"
  by (simp_all add: take_bit_eq_mask mask_eq_exp_minus_1)

lemma less_4_cases: "(n::nat) < 4 \<Longrightarrow> n = 0 \<or> n = 1 \<or> n = 2 \<or> n = 3"
  by arith

lemma pd_header_id_LE: "pd_header_id (PD_HEADER_LE ty pwr dr mid cnt) = mid AND 7"
  unfolding pd_header_id_def PD_HEADER_LE_def PD_HEADER_def pd_header_fields mask_as_take_bit
  apply (rule bit_word_eqI)
  subgoal for n
    using less_4_cases [of n] by (cases "n < 4") (auto simp add: bit_simps)
  done

lemma pd_header_cnt_LE: "pd_header_cnt (PD_HEADER_LE ty pwr dr mid cnt) = cnt AND 7"
  unfolding pd_header_cnt_def PD_HEADER_LE_def PD_HEADER_def pd_header_fields mask_as_take_bit
  apply (rule bit_word_eqI)
  subgoal for n
    using less_4_cases [of n] by (cases "n < 4") (auto simp add: bit_simps)
  done

lemma pd_header_type_LE: "pd_header_type (PD_HEADER_LE ty pwr dr mid cnt) = ty AND 0xf"
  unfolding pd_header_type_def PD_HEADER_LE_def PD_HEADER_def pd_header_fields mask_as_take_bit
  apply (rule bit_word_eqI)
  subgoal for n
    using less_4_cases [of n] by (cases "n < 4") (auto simp add: bit_simps)
  done

lemma pd_header_rev_LE: "pd_header_rev (PD_HEADER_LE ty pwr dr mid cnt) = PD_REV20"
  unfolding pd_header_rev_def PD_HEADER_LE_def PD_HEADER_def pd_header_fields mask_as_take_bit
  apply (rule bit_word_eqI)
  subgoal for n
    using less_4_cases [of n] by (cases "n < 4") (auto simp add: bit_simps)
  done

text \<open>The two configuration words of the driver, with the values its comments give.\<close>

lemma PDO_FIXED_config_words:
  "PDO_FIXED 5000 1500 (PDO_FIXED_DUAL_ROLE OR PDO_FIXED_USB_COMM OR PDO_FIXED_DATA_SWAP)
     = 0x26019096"
  "PDO_FIXED 5000 500 (PDO_FIXED_DUAL_ROLE OR PDO_FIXED_USB_COMM OR PDO_FIXED_DATA_SWAP)
     = 0x26019032"
  by (simp_all add: PDO_FIXED_def PDO_TYPE_FIXED_def PDO_FIXED_DUAL_ROLE_def
      PDO_FIXED_USB_COMM_def PDO_FIXED_DATA_SWAP_def)

lemma snk_request_rdo:
  "rdo_index (RDO_FIXED 1 1500 1500 RDO_USB_COMM) = 1"
  "rdo_op_current (RDO_FIXED 1 1500 1500 RDO_USB_COMM) = 1500"
  "rdo_max_current (RDO_FIXED 1 1500 1500 RDO_USB_COMM) = 1500"
  "RDO_FIXED 1 1500 1500 RDO_USB_COMM AND RDO_USB_COMM \<noteq> 0"
  by (simp_all add: rdo_index_def rdo_op_current_def rdo_max_current_def RDO_FIXED_def
      RDO_USB_COMM_def)

subsection \<open>What a transmitted message can do\<close>

lemma if_mem: "(c \<Longrightarrow> a \<in> S) \<Longrightarrow> (\<not> c \<Longrightarrow> b \<in> S) \<Longrightarrow> (if c then a else b) \<in> S"
  by simp

lemma process_tx_vdm_for_snk_outcomes:
  "tcpmtest_process_tx_vdm_for_snk d cnt \<in>
     {r. r = d \<or> r = tcpmtest_mk_snk_disc_ident_resp_vdm d
         \<or> r = tcpmtest_mk_snk_disc_svid_resp_vdm d
         \<or> r = tcpmtest_mk_snk_disc_modes_resp_vdm d
                 (ucast (PD_VDO_VID (payload (tx_msg d) ! 0)))}"
  unfolding tcpmtest_process_tx_vdm_for_snk_def Let_def
  by (intro if_mem) (simp_all only: mem_Collect_eq simp_thms)

lemma process_tx_msg_for_snk_outcomes:
  "tcpmtest_process_tx_msg_for_snk d \<in>
     {r. r = d \<or> r = tcpmtest_hard_reset d False \<or> r = tcpmtest_hard_reset d True
         \<or> r = d\<lparr>rx_id := 0\<rparr>
         \<or> r = tcpmtest_mk_snk_sink_cap d \<or> r = tcpmtest_mk_snk_request d
         \<or> r = tcpmtest_process_tx_vdm_for_snk d (pd_header_cnt (header (tx_msg d)))}"
  unfolding tcpmtest_process_tx_msg_for_snk_def Let_def
  by (intro if_mem) (simp_all only: mem_Collect_eq simp_thms)

lemma process_tx_msg_for_src_outcomes:
  "tcpmtest_process_tx_msg_for_src d \<in>
     {r. r = d \<or> r = tcpmtest_hard_reset d False \<or> r = tcpmtest_hard_reset d True
         \<or> r = d\<lparr>rx_id := 0\<rparr>
         \<or> r = tcpmtest_mk_src_data_source_cap d
         \<or> (state d = SSTATE_SRC_WAIT_FOR_REQUEST \<and> r = d\<lparr>state := SSTATE_SRC_SEND_REQUEST\<rparr>)}"
  unfolding tcpmtest_process_tx_msg_for_src_def tcpmtest_process_tx_vdm_for_src_def Let_def
  by (intro if_mem) (simp_all only: mem_Collect_eq simp_thms)

lemmas synth_defs =
  tcpmtest_mk_snk_request_def tcpmtest_mk_snk_sink_cap_def
  tcpmtest_mk_snk_disc_ident_resp_vdm_def tcpmtest_mk_snk_disc_svid_resp_vdm_def
  tcpmtest_mk_snk_disc_modes_resp_vdm_def tcpmtest_mk_src_data_source_cap_def
  tcpmtest_mk_src_accept_def tcpmtest_mk_src_ps_rdy_def

text \<open>The classifiers never touch the mode, the requested mode, the CC lines or VBUS.\<close>

lemma process_tx_msg_for_snk_frame:
  "sysfs_mode (tcpmtest_process_tx_msg_for_snk d) = sysfs_mode d"
  "sysfs_mode_req (tcpmtest_process_tx_msg_for_snk d) = sysfs_mode_req d"
  "state (tcpmtest_process_tx_msg_for_snk d) = state d"
  using process_tx_msg_for_snk_outcomes [of d]
    process_tx_vdm_for_snk_outcomes [of d "pd_header_cnt (header (tx_msg d))"]
  by (auto simp add: synth_defs tcpmtest_hard_reset_def)

lemma process_tx_msg_for_src_frame:
  "sysfs_mode (tcpmtest_process_tx_msg_for_src d) = sysfs_mode d"
  "sysfs_mode_req (tcpmtest_process_tx_msg_for_src d) = sysfs_mode_req d"
  "state d \<noteq> SSTATE_SRC_WAIT_FOR_REQUEST \<Longrightarrow> state (tcpmtest_process_tx_msg_for_src d) = state d"
  using process_tx_msg_for_src_outcomes [of d]
  by (auto simp add: synth_defs tcpmtest_hard_reset_def)


subsection \<open>Evaluating the driver on concrete inputs\<close>

lemmas driver_defs =
  tcpmtest_sysfs_store_def sysfs_streq_tail_def char_at_def tcpmtest_set_vbus_def
  tcpmtest_set_pd_rx_def tcpmtest_set_polarity_def tcpmtest_set_vconn_def tcpmtest_set_roles_def
  tcpmtest_pd_transmit_def tcpmtest_log_msg_def tcpmtest_log_capability_pdo_def
  tcpmtest_log_request_pdo_def tcpmtest_event_work_def tcpmtest_event_work_mode_set_def
  tcpmtest_event_work_vbus_chng_def tcpmtest_event_work_msg_tx_def tcpmtest_tmo_work_def
  tcpmtest_state_machine_def tcpmtest_process_tx_msg_for_snk_def
  tcpmtest_process_tx_msg_for_src_def tcpmtest_process_tx_vdm_for_snk_def
  tcpmtest_process_tx_vdm_for_src_def tcpmtest_hard_reset_def synth_defs
  tcpmtest_probe_def request_word_zero_def pm_message_def SRC_RESP_DELAY_def
  PD_MAX_PAYLOAD_def PDO_MAX_OBJECTS_def

lemmas pd_defs =
  pd_msg_types pd_header_fields PD_HEADER_def PD_HEADER_LE_def pd_header_cnt_def
  pd_header_type_def pd_header_rev_def pd_header_id_def pdo_type_def PDO_FIXED_def
  PDO_TYPE_FIXED_def PDO_FIXED_DUAL_ROLE_def PDO_FIXED_EXTPOWER_def PDO_FIXED_USB_COMM_def
  PDO_FIXED_DATA_SWAP_def RDO_FIXED_def RDO_USB_COMM_def rdo_index_def rdo_op_current_def
  rdo_max_current_def

lemmas example_defs =
  src_session_start_def src_session_request_def request_message_def src_waiting_state_def
  src_running_state_def sink_cap_message_def ctrl_message_def snk_attached_state_def
  source_cap_message_def src_accepted_state_def

text \<open>The example states are states the driver reaches from \<^verbatim>\<open>probe\<close>.\<close>

lemma src_session_runs:
  "run src_session_start tcpmtest_probe = Some src_waiting_state"
  "run src_session_request src_waiting_state = Some src_running_state"
  "run (src_session_start @ src_session_request) tcpmtest_probe = Some src_running_state"
  by (simp_all add: example_defs driver_defs pd_defs Let_def upt_rec)

subsection \<open>The reaction to each control message\<close>

lemma snk_control_reactions:
  assumes "tx_type d = TCPC_TX_SOP" and "pd_header_cnt (header (tx_msg d)) = 0"
  shows
    "pd_header_type (header (tx_msg d)) = PD_CTRL_GOOD_CRC \<Longrightarrow>
       tcpmtest_process_tx_msg_for_snk d = d"
    "pd_header_type (header (tx_msg d)) = PD_CTRL_GOTO_MIN \<Longrightarrow>
       tcpmtest_process_tx_msg_for_snk d = d"
    "pd_header_type (header (tx_msg d)) = PD_CTRL_ACCEPT \<Longrightarrow>
       tcpmtest_process_tx_msg_for_snk d = d"
    "pd_header_type (header (tx_msg d)) = PD_CTRL_REJECT \<Longrightarrow>
       tcpmtest_process_tx_msg_for_snk d = tcpmtest_hard_reset d True"
    "pd_header_type (header (tx_msg d)) = PD_CTRL_PING \<Longrightarrow>
       tcpmtest_process_tx_msg_for_snk d = d"
    "pd_header_type (header (tx_msg d)) = PD_CTRL_PS_RDY \<Longrightarrow>
       tcpmtest_process_tx_msg_for_snk d = d"
    "pd_header_type (header (tx_msg d)) = PD_CTRL_GET_SOURCE_CAP \<Longrightarrow>
       tcpmtest_process_tx_msg_for_snk d = tcpmtest_hard_reset d True"
    "pd_header_type (header (tx_msg d)) = PD_CTRL_GET_SINK_CAP \<Longrightarrow>
       tcpmtest_process_tx_msg_for_snk d = tcpmtest_mk_snk_sink_cap d"
    "pd_header_type (header (tx_msg d)) = PD_CTRL_DR_SWAP \<Longrightarrow>
       tcpmtest_process_tx_msg_for_snk d = tcpmtest_hard_reset d True"
    "pd_header_type (header (tx_msg d)) = PD_CTRL_PR_SWAP \<Longrightarrow>
       tcpmtest_process_tx_msg_for_snk d = tcpmtest_hard_reset d True"
    "pd_header_type (header (tx_msg d)) = PD_CTRL_VCONN_SWAP \<Longrightarrow>
       tcpmtest_process_tx_msg_for_snk d = tcpmtest_hard_reset d True"
    "pd_header_type (header (tx_msg d)) = PD_CTRL_SOFT_RESET \<Longrightarrow>
       tcpmtest_process_tx_msg_for_snk d = d\<lparr>rx_id := 0\<rparr>"
  using assms by (simp_all add: tcpmtest_process_tx_msg_for_snk_def Let_def pd_msg_types)

lemma src_control_reactions:
  assumes "tx_type d = TCPC_TX_SOP" and "pd_header_cnt (header (tx_msg d)) = 0"
  shows
    "pd_header_type (header (tx_msg d)) = PD_CTRL_GOOD_CRC \<Longrightarrow>
       tcpmtest_process_tx_msg_for_src d = d"
    "pd_header_type (header (tx_msg d)) = PD_CTRL_GOTO_MIN \<Longrightarrow>
       tcpmtest_process_tx_msg_for_src d = d"
    "pd_header_type (header (tx_msg d)) = PD_CTRL_ACCEPT \<Longrightarrow>
       tcpmtest_process_tx_msg_for_src d = tcpmtest_hard_reset d True"
    "pd_header_type (header (tx_msg d)) = PD_CTRL_REJECT \<Longrightarrow>
       tcpmtest_process_tx_msg_for_src d = tcpmtest_hard_reset d True"
    "pd_header_type (header (tx_msg d)) = PD_CTRL_PING \<Longrightarrow>
       tcpmtest_process_tx_msg_for_src d = d"
    "pd_header_type (header (tx_msg d)) = PD_CTRL_PS_RDY \<Longrightarrow>
       tcpmtest_process_tx_msg_for_src d = d"
    "pd_header_type (header (tx_msg d)) = PD_CTRL_GET_SOURCE_CAP \<Longrightarrow>
       tcpmtest_process_tx_msg_for_src d = tcpmtest_mk_src_data_source_cap d"
    "pd_header_type (header (tx_msg d)) = PD_CTRL_GET_SINK_CAP \<Longrightarrow>
       tcpmtest_process_tx_msg_for_src d = tcpmtest_hard_reset d True"
    "pd_header_type (header (tx_msg d)) = PD_CTRL_DR_SWAP \<Longrightarrow>
       tcpmtest_process_tx_msg_for_src d = tcpmtest_hard_reset d True"
    "pd_header_type (header (tx_msg d)) = PD_CTRL_PR_SWAP \<Longrightarrow>
       tcpmtest_process_tx_msg_for_src d = tcpmtest_hard_reset d True"
    "pd_header_type (header (tx_msg d)) = PD_CTRL_VCONN_SWAP \<Longrightarrow>
       tcpmtest_process_tx_msg_for_src d = tcpmtest_hard_reset d True"
    "pd_header_type (header (tx_msg d)) = PD_CTRL_SOFT_RESET \<Longrightarrow>
       tcpmtest_process_tx_msg_for_src d = d\<lparr>rx_id := 0\<rparr>"
  using assms by (simp_all add: tcpmtest_process_tx_msg_for_src_def Let_def pd_msg_types)

lemma hard_reset_from_peer:
  "tcpmtest_hard_reset d True =
     d\<lparr>request := request_word_zero, rx_id := 0, calls := calls d @ [Tcpm_pd_hard_reset]\<rparr>"
  by (simp add: tcpmtest_hard_reset_def)

lemma mk_snk_sink_cap_staged:
  "msg_rx (request (tcpmtest_mk_snk_sink_cap d))"
  "pd_header_cnt (header (rx_msg (tcpmtest_mk_snk_sink_cap d))) = 1"
  "pd_header_type (header (rx_msg (tcpmtest_mk_snk_sink_cap d))) = PD_DATA_SINK_CAP"
  by (simp_all add: tcpmtest_mk_snk_sink_cap_def pd_header_cnt_LE pd_header_type_LE
      PD_DATA_SINK_CAP_def)

subsection \<open>Runs and the message log\<close>

lemma run_append:
  "run (es @ es') d = (case run es d of None \<Rightarrow> None | Some d' \<Rightarrow> run es' d')"
  by (induction es arbitrary: d) (simp_all split: option.splits)

lemma pd_header_cnt_le: "unat (pd_header_cnt h) \<le> 7"
proof -
  have "pd_header_cnt h \<le> 7"
    unfolding pd_header_cnt_def PD_HEADER_CNT_MASK_def by (rule word_and_le1)
  then show ?thesis by (simp add: word_le_nat_alt)
qed

text \<open>
  Logging a message that is not a Request never leaves the cache: it can only rewrite
  entries of \<^verbatim>\<open>src_cap_pdo_type\<close>.
\<close>

lemma log_dobjs_no_request:
  assumes "pd_header_type hdr \<noteq> PD_DATA_REQUEST" and "\<forall>ix \<in> set ixs. ix < PDO_MAX_OBJECTS"
  shows "\<exists>c. tcpmtest_log_dobjs d hdr msg ixs = Some (d\<lparr>src_cap_pdo_type := c\<rparr>)"
  using assms(2)
proof (induction ixs arbitrary: d)
  case Nil
  have "d = d\<lparr>src_cap_pdo_type := src_cap_pdo_type d\<rparr>" by simp
  then show ?case by (metis tcpmtest_log_dobjs.simps(1))
next
  case (Cons ix ixs)
  from Cons.prems have ix: "ix < PDO_MAX_OBJECTS" and rest: "\<forall>ix \<in> set ixs. ix < PDO_MAX_OBJECTS"
    by simp_all
  let ?r = "(if pd_header_type hdr = PD_DATA_SOURCE_CAP
        then tcpmtest_log_capability_pdo d (payload msg ! ix) True ix
      else if pd_header_type hdr = PD_DATA_REQUEST
        then tcpmtest_log_request_pdo d (payload msg ! ix)
      else if pd_header_type hdr = PD_DATA_BIST then Some d
      else if pd_header_type hdr = PD_DATA_SINK_CAP
        then tcpmtest_log_capability_pdo d (payload msg ! ix) False ix
      else Some d)"
  have "?r = Some (d\<lparr>src_cap_pdo_type := (src_cap_pdo_type d)[ix := pdo_type (payload msg ! ix)]\<rparr>)
        \<or> ?r = Some (d\<lparr>src_cap_pdo_type := src_cap_pdo_type d\<rparr>)"
    using assms(1) ix by (simp add: tcpmtest_log_capability_pdo_def)
  then obtain c1 where step: "?r = Some (d\<lparr>src_cap_pdo_type := c1\<rparr>)"
    by blast
  from Cons.IH [OF rest, of "d\<lparr>src_cap_pdo_type := c1\<rparr>"] obtain c2 where
    "tcpmtest_log_dobjs (d\<lparr>src_cap_pdo_type := c1\<rparr>) hdr msg ixs = Some (d\<lparr>src_cap_pdo_type := c2\<rparr>)"
    by auto
  with step show ?case by (auto simp add: Let_def)
qed

lemma log_msg_no_request:
  assumes "pd_header_type (header msg) \<noteq> PD_DATA_REQUEST"
  shows "\<exists>c. tcpmtest_log_msg d ty msg = Some (d\<lparr>src_cap_pdo_type := c\<rparr>)"
proof -
  have same: "d = d\<lparr>src_cap_pdo_type := src_cap_pdo_type d\<rparr>" by simp
  have "\<forall>ix \<in> set [0 ..< unat (pd_header_cnt (header msg))]. ix < PDO_MAX_OBJECTS"
    using pd_header_cnt_le [of "header msg"] by (simp add: PDO_MAX_OBJECTS_def)
  from log_dobjs_no_request [OF assms this] same show ?thesis
    unfolding tcpmtest_log_msg_def Let_def by metis
qed

text \<open>A control message has no data objects, so logging it changes nothing.\<close>

lemma log_msg_no_objects:
  "pd_header_cnt (header msg) = 0 \<Longrightarrow> tcpmtest_log_msg d ty msg = Some d"
  by (simp add: tcpmtest_log_msg_def Let_def)

subsection \<open>Frames of the event work\<close>

lemma process_tx_msg_calls:
  "calls (tcpmtest_process_tx_msg_for_snk d) = calls d
   \<or> calls (tcpmtest_process_tx_msg_for_snk d) = calls d @ [Tcpm_pd_hard_reset]"
  "calls (tcpmtest_process_tx_msg_for_src d) = calls d
   \<or> calls (tcpmtest_process_tx_msg_for_src d) = calls d @ [Tcpm_pd_hard_reset]"
  using process_tx_msg_for_snk_outcomes [of d] process_tx_msg_for_src_outcomes [of d]
    process_tx_vdm_for_snk_outcomes [of d "pd_header_cnt (header (tx_msg d))"]
  by (auto simp add: synth_defs tcpmtest_hard_reset_def)

lemma event_work_msg_tx_frame:
  "sysfs_mode (tcpmtest_event_work_msg_tx d) = sysfs_mode d"
  "sysfs_mode_req (tcpmtest_event_work_msg_tx d) = sysfs_mode_req d"
  "state d \<noteq> SSTATE_SRC_WAIT_FOR_REQUEST \<Longrightarrow> state (tcpmtest_event_work_msg_tx d) = state d"
  by (simp_all add: tcpmtest_event_work_msg_tx_def Let_def process_tx_msg_for_snk_frame
      process_tx_msg_for_src_frame)

lemma event_work_msg_tx_calls:
  "\<exists>xs. calls (tcpmtest_event_work_msg_tx d) = calls d @ xs
        \<and> Tcpm_tcpc_reset \<notin> set xs \<and> Tcpm_cc_change \<notin> set xs"
proof -
  let ?d1 = "d\<lparr>request := (request d)\<lparr>msg_tx := False\<rparr>\<rparr>"
  have "calls (tcpmtest_event_work_msg_tx d) = calls d @ []
    \<or> calls (tcpmtest_event_work_msg_tx d) = calls d @ [Tcpm_pd_transmit_complete TCPC_TX_FAILED]
    \<or> calls (tcpmtest_event_work_msg_tx d) = calls d @ [Tcpm_pd_transmit_complete TCPC_TX_SUCCESS]
    \<or> calls (tcpmtest_event_work_msg_tx d)
        = calls d @ [Tcpm_pd_hard_reset, Tcpm_pd_transmit_complete TCPC_TX_SUCCESS]"
    using process_tx_msg_calls [of ?d1]
    by (auto simp add: tcpmtest_event_work_msg_tx_def Let_def)
  then show ?thesis
    by (elim disjE) (rule exI, erule conjI, simp)+
qed

lemma state_machine_TO_NONE:
  "state d = SSTATE_TO_NONE \<Longrightarrow>
   tcpmtest_state_machine d timeout =
     d\<lparr>vbus_present := False, cc1_status := TYPEC_CC_OPEN, cc2_status := TYPEC_CC_OPEN,
       request := request_word_zero, rx_id := 0,
       calls := calls d @ [if sysfs_mode_req d = TESTMODE_RESET then Tcpm_tcpc_reset
                           else Tcpm_cc_change],
       sysfs_mode := TESTMODE_NONE, state := SSTATE_NONE\<rparr>"
  by (simp add: tcpmtest_state_machine_def tcpmtest_hard_reset_def Let_def)

subsection \<open>Logging a Request\<close>

lemma rdo_index_le: "rdo_index rdo \<le> 7"
  unfolding rdo_index_def by (rule word_and_le1)

lemma log_request_pdo_safe:
  "rdo_index rdo \<noteq> 0 \<Longrightarrow> tcpmtest_log_request_pdo d rdo = Some d"
proof -
  assume nz: "rdo_index rdo \<noteq> 0"
  have "unat (rdo_index rdo) \<le> 7"
    using rdo_index_le [of rdo] by (simp add: word_le_nat_alt)
  moreover have "unat (rdo_index rdo) \<noteq> 0"
    using nz by (simp add: unat_eq_0)
  moreover have "unat (rdo_index rdo - 1) = unat (rdo_index rdo) - 1"
    using nz by (simp add: unat_minus_one)
  ultimately have "unat (rdo_index rdo - 1) < 7" by arith
  then show ?thesis
    by (simp add: tcpmtest_log_request_pdo_def Let_def PDO_MAX_OBJECTS_def)
qed

lemma log_msg_request_safe:
  assumes "pd_header_type (header m) = PD_DATA_REQUEST" and "pd_header_cnt (header m) = 1"
    and "rdo_index (payload m ! 0) \<noteq> 0"
  shows "tcpmtest_log_msg d ty m = Some d"
  using assms
  by (simp add: tcpmtest_log_msg_def Let_def log_request_pdo_safe pd_msg_types)

subsection \<open>Every run keeps the state within the active mode's session\<close>

lemma session_inv_mode_set:
  "session_inv d \<Longrightarrow> session_inv (tcpmtest_event_work_mode_set d)"
  by (cases "sysfs_mode d"; cases "sysfs_mode_req d")
    (simp_all add: session_inv_def tcpmtest_event_work_mode_set_def Let_def)

lemma session_inv_vbus_chng:
  "session_inv d \<Longrightarrow> session_inv (tcpmtest_event_work_vbus_chng d)"
  by (simp add: session_inv_def tcpmtest_event_work_vbus_chng_def split: testmode.splits)

lemma session_inv_fields:
  "sysfs_mode d' = sysfs_mode d \<Longrightarrow> state d' = state d \<Longrightarrow> session_inv d' = session_inv d"
  by (simp add: session_inv_def split: testmode.splits)

lemma session_inv_msg_tx:
  assumes "session_inv d"
  shows "session_inv (tcpmtest_event_work_msg_tx d)"
proof (cases "state d = SSTATE_SRC_WAIT_FOR_REQUEST \<and> msg_tx (request d)
    \<and> sysfs_mode d = TESTMODE_SRC")
  case False
  have "state (tcpmtest_event_work_msg_tx d) = state d"
  proof (cases "state d = SSTATE_SRC_WAIT_FOR_REQUEST")
    case True
    with False assms show ?thesis
      by (auto simp add: tcpmtest_event_work_msg_tx_def Let_def process_tx_msg_for_snk_frame
          session_inv_def split: testmode.splits)
  next
    case False
    then show ?thesis by (simp add: event_work_msg_tx_frame)
  qed
  with assms show ?thesis
    using session_inv_fields [of "tcpmtest_event_work_msg_tx d" d]
    by (simp add: event_work_msg_tx_frame)
next
  case True
  let ?d1 = "d\<lparr>request := (request d)\<lparr>msg_tx := False\<rparr>\<rparr>"
  have "state (tcpmtest_process_tx_msg_for_src ?d1) = SSTATE_SRC_WAIT_FOR_REQUEST
      \<or> state (tcpmtest_process_tx_msg_for_src ?d1) = SSTATE_SRC_SEND_REQUEST"
    using process_tx_msg_for_src_outcomes [of ?d1] True
    by (auto simp add: synth_defs tcpmtest_hard_reset_def)
  with True show ?thesis
    by (auto simp add: session_inv_def tcpmtest_event_work_msg_tx_def Let_def
        process_tx_msg_for_src_frame)
qed

lemma session_inv_state_machine:
  "session_inv d \<Longrightarrow> session_inv (tcpmtest_state_machine d timeout)"
  by (cases "state d"; cases "sysfs_mode d")
    (simp_all add: session_inv_def tcpmtest_state_machine_def synth_defs
      tcpmtest_hard_reset_def Let_def)

lemma session_inv_event_work:
  "session_inv d \<Longrightarrow> session_inv (tcpmtest_event_work d)"
proof -
  assume "session_inv d"
  then have "session_inv (tcpmtest_state_machine (tcpmtest_event_work_msg_tx
      (tcpmtest_event_work_vbus_chng (tcpmtest_event_work_mode_set d))) False)"
    by (intro session_inv_state_machine session_inv_msg_tx session_inv_vbus_chng
        session_inv_mode_set)
  then show ?thesis
    by (simp add: tcpmtest_event_work_def Let_def session_inv_def split: testmode.splits)
qed

lemma session_inv_log_msg:
  "tcpmtest_log_msg d ty m = Some d' \<Longrightarrow> sysfs_mode d' = sysfs_mode d \<and> state d' = state d"
proof -
  have dobjs: "tcpmtest_log_dobjs d hdr msg ixs = Some d'
      \<Longrightarrow> sysfs_mode d' = sysfs_mode d \<and> state d' = state d" for hdr msg ixs d d'
  proof (induction ixs arbitrary: d)
    case Nil
    then show ?case by simp
  next
    case (Cons ix ixs)
    then show ?case
      by (fastforce simp add: Let_def tcpmtest_log_capability_pdo_def
          tcpmtest_log_request_pdo_def split: option.splits if_splits)
  qed
  assume "tcpmtest_log_msg d ty m = Some d'"
  then show ?thesis
    by (auto simp add: tcpmtest_log_msg_def Let_def split: if_splits dest: dobjs)
qed

lemma session_inv_step:
  assumes "session_inv d" and "step e d = Some d'"
  shows "session_inv d'"
proof (cases e)
  case (Sysfs_store buf)
  with assms show ?thesis
    by (auto simp add: tcpmtest_sysfs_store_def session_inv_def Let_def
        split: sum.splits if_splits testmode.splits)
next
  case (Set_vbus source sink)
  with assms show ?thesis
    by (auto simp add: tcpmtest_set_vbus_def session_inv_def Let_def
        split: if_splits testmode.splits)
next
  case (Set_pd_rx enable)
  with assms show ?thesis
    by (auto simp add: tcpmtest_set_pd_rx_def session_inv_def
        split: if_splits testmode.splits)
next
  case (Set_polarity p)
  with assms show ?thesis
    by (auto simp add: tcpmtest_set_polarity_def session_inv_def split: testmode.splits)
next
  case (Set_vconn enable)
  with assms show ?thesis
    by (auto simp add: tcpmtest_set_vconn_def session_inv_def split: testmode.splits)
next
  case (Set_roles attached pr dr)
  with assms show ?thesis
    by (auto simp add: tcpmtest_set_roles_def session_inv_def split: testmode.splits)
next
  case (Pd_transmit ty msg)
  with assms show ?thesis
    by (auto simp add: tcpmtest_pd_transmit_def session_inv_def
        split: option.splits testmode.splits dest!: session_inv_log_msg)
next
  case Event_work
  with assms show ?thesis by (auto simp add: session_inv_event_work)
next
  case Tmo_work
  from Tmo_work assms(2) obtain d2 where
    d2: "d' = tcpmtest_state_machine (d2\<lparr>delay := 0\<rparr>) True"
      "sysfs_mode d2 = sysfs_mode d" "state d2 = state d"
    by (auto simp add: tcpmtest_tmo_work_def split: option.splits if_splits
        dest!: session_inv_log_msg)
  from d2(2,3) assms(1) have "session_inv (d2\<lparr>delay := 0\<rparr>)"
    by (simp add: session_inv_def split: testmode.splits)
  then show ?thesis unfolding d2(1) by (rule session_inv_state_machine)
qed

lemma session_inv_run:
  "session_inv d \<Longrightarrow> run es d = Some d' \<Longrightarrow> session_inv d'"
proof (induction es arbitrary: d)
  case Nil
  then show ?case by simp
next
  case (Cons e es)
  then show ?case
    by (auto split: option.splits dest: session_inv_step)
qed

lemma session_inv_probe: "session_inv tcpmtest_probe"
  by (simp add: session_inv_def tcpmtest_probe_def)

subsection \<open>The message-ID counter\<close>

lemma synthesizer_consumes_id:
  assumes "f \<in> set synthesizers"
  shows "rx_id (f d) = rx_id d + 1"
    and "pd_header_id (header (rx_msg (f d))) = rx_id d AND 7"
    and "msg_rx (request (f d))"
  using assms
  by (auto simp add: synthesizers_def synth_defs pd_header_id_LE USB_SID_DISPLAYPORT_def)

lemma synthesize_all_rx_id:
  "set fs \<subseteq> set synthesizers \<Longrightarrow> rx_id (synthesize_all fs d) = rx_id d + of_nat (length fs)"
proof (induction fs arbitrary: d)
  case Nil
  then show ?case by simp
next
  case (Cons f fs)
  then have "f \<in> set synthesizers" and "set fs \<subseteq> set synthesizers" by simp_all
  with Cons.IH [of "f d"] show ?case
    by (simp add: synthesizer_consumes_id(1))
qed

lemma unat_low3: "unat ((x::u32) AND 7) = unat x mod 8"
proof -
  have "x AND 7 = take_bit 3 x" by (rule mask_as_take_bit)
  then show ?thesis by (simp only: unsigned_take_bit_eq) (simp add: take_bit_eq_mod)
qed

lemma unat_low3_add: "unat (((x::u32) + of_nat n) AND 7) = (unat x + n) mod 8"
proof -
  have "unat (x + of_nat n) = (unat x + n) mod 2 ^ 32"
    by (simp add: unat_word_ariths unat_of_nat mod_add_right_eq)
  moreover have "(8::nat) dvd 2 ^ 32" by simp
  ultimately show ?thesis
    by (simp only: unat_low3 mod_mod_cancel)
qed

text \<open>
  The reply to a vendor-defined message is one of the three discovery replies or nothing,
  and notifies nothing.
\<close>

lemma process_tx_vdm_for_snk_counter:
  "calls (tcpmtest_process_tx_vdm_for_snk d cnt) = calls d"
  "(rx_id (tcpmtest_process_tx_vdm_for_snk d cnt) = rx_id d
      \<and> rx_msg (tcpmtest_process_tx_vdm_for_snk d cnt) = rx_msg d
      \<and> msg_rx (request (tcpmtest_process_tx_vdm_for_snk d cnt)) = msg_rx (request d))
   \<or> (rx_id (tcpmtest_process_tx_vdm_for_snk d cnt) = rx_id d + 1
       \<and> msg_rx (request (tcpmtest_process_tx_vdm_for_snk d cnt))
       \<and> pd_header_id (header (rx_msg (tcpmtest_process_tx_vdm_for_snk d cnt)))
           = rx_id d AND 7)"
  using process_tx_vdm_for_snk_outcomes [of d cnt]
   apply (simp_all only: mem_Collect_eq)
   apply (elim disjE; simp add: synth_defs pd_header_id_LE)+
  done

text \<open>
  The classifiers, the state machine and the counter: zero after a hard reset from
  either side, after a SoftReset and in \<^verbatim>\<open>SSTATE_TO_NONE\<close>; otherwise kept, or consumed by
  one staged message.
\<close>

lemma process_tx_msg_for_snk_counter:
  "tcpmtest_process_tx_msg_for_snk d \<in>
     {r. if tx_type d = TCPC_TX_HARD_RESET
            \<or> calls r = calls d @ [Tcpm_pd_hard_reset]
            \<or> (tx_type d = TCPC_TX_SOP \<and> pd_header_cnt (header (tx_msg d)) = 0
                \<and> pd_header_type (header (tx_msg d)) = PD_CTRL_SOFT_RESET)
         then rx_id r = 0
         else (rx_id r = rx_id d \<and> rx_msg r = rx_msg d
               \<and> msg_rx (request r) = msg_rx (request d))
              \<or> (rx_id r = rx_id d + 1 \<and> msg_rx (request r)
                  \<and> pd_header_id (header (rx_msg r)) = rx_id d AND 7)}"
  unfolding tcpmtest_process_tx_msg_for_snk_def Let_def
  apply (intro if_mem)
  apply (simp_all only: mem_Collect_eq pd_msg_types)
  apply (simp_all add: tcpmtest_hard_reset_def tcpmtest_mk_snk_sink_cap_def
      tcpmtest_mk_snk_request_def pd_header_id_LE process_tx_vdm_for_snk_counter)
  apply auto
  done

lemma process_tx_msg_for_src_counter:
  "tcpmtest_process_tx_msg_for_src d \<in>
     {r. if tx_type d = TCPC_TX_HARD_RESET
            \<or> calls r = calls d @ [Tcpm_pd_hard_reset]
            \<or> (tx_type d = TCPC_TX_SOP \<and> pd_header_cnt (header (tx_msg d)) = 0
                \<and> pd_header_type (header (tx_msg d)) = PD_CTRL_SOFT_RESET)
         then rx_id r = 0
         else (rx_id r = rx_id d \<and> rx_msg r = rx_msg d
               \<and> msg_rx (request r) = msg_rx (request d))
              \<or> (rx_id r = rx_id d + 1 \<and> msg_rx (request r)
                  \<and> pd_header_id (header (rx_msg r)) = rx_id d AND 7)}"
  unfolding tcpmtest_process_tx_msg_for_src_def tcpmtest_process_tx_vdm_for_src_def Let_def
  apply (intro if_mem)
  apply (simp_all only: mem_Collect_eq pd_msg_types)
  apply (simp_all add: tcpmtest_hard_reset_def tcpmtest_mk_src_data_source_cap_def pd_header_id_LE)
  apply auto
  done

lemma state_machine_stages:
  "state d \<noteq> SSTATE_TO_NONE \<Longrightarrow>
   (rx_id (tcpmtest_state_machine d timeout) = rx_id d
      \<and> rx_msg (tcpmtest_state_machine d timeout) = rx_msg d
      \<and> msg_rx (request (tcpmtest_state_machine d timeout)) = msg_rx (request d))
   \<or> (rx_id (tcpmtest_state_machine d timeout) = rx_id d + 1
       \<and> msg_rx (request (tcpmtest_state_machine d timeout))
       \<and> pd_header_id (header (rx_msg (tcpmtest_state_machine d timeout)))
           = rx_id d AND 7)"
  by (cases "state d")
    (simp_all add: tcpmtest_state_machine_def tcpmtest_mk_src_data_source_cap_def
      tcpmtest_mk_src_accept_def tcpmtest_mk_src_ps_rdy_def pd_header_id_LE)

lemma state_machine_counter:
  "if state d = SSTATE_TO_NONE then rx_id (tcpmtest_state_machine d timeout) = 0
   else rx_id (tcpmtest_state_machine d timeout) = rx_id d
        \<or> (rx_id (tcpmtest_state_machine d timeout) = rx_id d + 1
            \<and> msg_rx (request (tcpmtest_state_machine d timeout))
            \<and> pd_header_id (header (rx_msg (tcpmtest_state_machine d timeout)))
                = rx_id d AND 7)"
  by (cases "state d")
    (simp_all add: tcpmtest_state_machine_def tcpmtest_hard_reset_def Let_def
      tcpmtest_mk_src_data_source_cap_def tcpmtest_mk_src_accept_def
      tcpmtest_mk_src_ps_rdy_def pd_header_id_LE)

subsection \<open>The two variants of the classifiers\<close>

lemma word_le_15_cases:
  assumes "(w::u32) \<le> 15"
  shows "w \<in> {0, 1, 2, 3, 4, 5, 6, 7, 8, 9, 10, 11, 12, 13, 14, 15}"
proof -
  from assms have "unat w \<le> 15" by (simp add: word_le_nat_alt)
  then have "unat w \<in> {0, 1, 2, 3, 4, 5, 6, 7, 8, 9, 10, 11, 12, 13, 14, 15}"
    by (simp add: le_Suc_eq numeral_eq_Suc) 
  moreover have "w = of_nat (unat w)" by simp
  ultimately have "w \<in> of_nat ` {0, 1, 2, 3, 4, 5, 6, 7, 8, 9, 10, 11, 12, 13, 14, 15}"
    by (rule_tac image_eqI) 
  then show ?thesis by simp
qed

lemma pd_header_type_cases:
  "pd_header_type h \<in> {0, 1, 2, 3, 4, 5, 6, 7, 8, 9, 10, 11, 12, 13, 14, 15}"
proof -
  have "pd_header_type h \<le> 15"
    unfolding pd_header_type_def PD_HEADER_TYPE_MASK_def by (rule word_and_le1)
  then show ?thesis by (rule word_le_15_cases)
qed

lemmas poll_defs =
  tcpmtest_process_tx_msg_for_snk_poll_def tcpmtest_process_tx_msg_for_src_poll_def

lemma variants_off_sop:
  assumes "tx_type d \<noteq> TCPC_TX_SOP"
  shows "tcpmtest_process_tx_msg_for_snk_poll d = tcpmtest_process_tx_msg_for_snk d"
    and "tcpmtest_process_tx_msg_for_src_poll d = tcpmtest_process_tx_msg_for_src d"
  using assms
  by (simp_all add: poll_defs tcpmtest_process_tx_msg_for_snk_def
      tcpmtest_process_tx_msg_for_src_def)

lemma variants_control:
  assumes "tx_type d = TCPC_TX_SOP" and "pd_header_cnt (header (tx_msg d)) = 0"
  shows "tcpmtest_process_tx_msg_for_snk_poll d = tcpmtest_process_tx_msg_for_snk d"
    and "pd_header_type (header (tx_msg d)) \<noteq> PD_CTRL_ACCEPT \<Longrightarrow>
         pd_header_type (header (tx_msg d)) \<noteq> PD_CTRL_GET_SOURCE_CAP \<Longrightarrow>
         pd_header_type (header (tx_msg d)) \<noteq> PD_CTRL_GET_SINK_CAP \<Longrightarrow>
         tcpmtest_process_tx_msg_for_src_poll d = tcpmtest_process_tx_msg_for_src d"
  using pd_header_type_cases [of "header (tx_msg d)"] assms
  by (elim insertE emptyE;
      simp add: poll_defs tcpmtest_process_tx_msg_for_snk_def
        tcpmtest_process_tx_msg_for_src_def Let_def pd_msg_types)+

lemma variants_data:
  assumes "tx_type d = TCPC_TX_SOP" and "pd_header_cnt (header (tx_msg d)) \<noteq> 0"
  shows "pd_header_type (header (tx_msg d)) \<noteq> PD_DATA_VENDOR_DEF \<Longrightarrow>
         tcpmtest_process_tx_msg_for_snk_poll d = tcpmtest_process_tx_msg_for_snk d"
    and "pd_header_type (header (tx_msg d)) \<noteq> PD_DATA_REQUEST \<Longrightarrow>
         pd_header_type (header (tx_msg d)) \<noteq> PD_DATA_SINK_CAP \<Longrightarrow>
         pd_header_type (header (tx_msg d)) \<noteq> PD_DATA_VENDOR_DEF \<Longrightarrow>
         tcpmtest_process_tx_msg_for_src_poll d = tcpmtest_process_tx_msg_for_src d"
  using pd_header_type_cases [of "header (tx_msg d)"] assms
  by (elim insertE emptyE;
      simp add: poll_defs tcpmtest_process_tx_msg_for_snk_def
        tcpmtest_process_tx_msg_for_src_def Let_def pd_msg_types)+

lemma variants_vendor_def:
  assumes "tx_type d = TCPC_TX_SOP" and "pd_header_cnt (header (tx_msg d)) \<noteq> 0"
    and "pd_header_type (header (tx_msg d)) = PD_DATA_VENDOR_DEF"
  shows "tcpmtest_process_tx_msg_for_snk d
           = tcpmtest_process_tx_vdm_for_snk d (pd_header_cnt (header (tx_msg d)))"
    and "tcpmtest_process_tx_msg_for_snk_poll d
           = tcpmtest_process_tx_vdm_for_snk_poll d (pd_header_cnt (header (tx_msg d)))"
    and "tcpmtest_process_tx_msg_for_src d = d"
    and "tcpmtest_process_tx_msg_for_src_poll d
           = tcpmtest_process_tx_vdm_for_snk_poll d (pd_header_cnt (header (tx_msg d)))"
  using assms
  by (simp_all add: poll_defs tcpmtest_process_tx_msg_for_snk_def
      tcpmtest_process_tx_msg_for_src_def tcpmtest_process_tx_vdm_for_src_def Let_def
      pd_msg_types)

lemma vdm_variants:
  "tcpmtest_process_tx_vdm_for_snk_poll d cnt =
     (if payload (tx_msg d) ! 0 AND VDO_SVDM_TYPE \<noteq> 0
         \<and> PD_VDO_CMD (payload (tx_msg d) ! 0) = CMD_DISCOVER_MODES
         \<and> PD_VDO_CMDT (payload (tx_msg d) ! 0) = CMDT_INIT
         \<and> ucast (ucast (PD_VDO_VID (payload (tx_msg d) ! 0)) :: u16) = USB_SID_DISPLAYPORT
      then tcpmtest_mk_snk_disc_modes_resp_vdm_poll d (ucast USB_SID_DISPLAYPORT)
      else tcpmtest_process_tx_vdm_for_snk d cnt)"
  "payload (tx_msg d) ! 0 AND VDO_SVDM_TYPE \<noteq> 0
     \<and> PD_VDO_CMD (payload (tx_msg d) ! 0) = CMD_DISCOVER_MODES
     \<and> PD_VDO_CMDT (payload (tx_msg d) ! 0) = CMDT_INIT
     \<and> ucast (ucast (PD_VDO_VID (payload (tx_msg d) ! 0)) :: u16) = USB_SID_DISPLAYPORT
   \<Longrightarrow> tcpmtest_process_tx_vdm_for_snk d cnt
       = tcpmtest_mk_snk_disc_modes_resp_vdm d (ucast USB_SID_DISPLAYPORT)"
  by (auto simp add: tcpmtest_process_tx_vdm_for_snk_poll_def
      tcpmtest_process_tx_vdm_for_snk_def tcpmtest_mk_snk_disc_modes_resp_vdm_poll_def
      tcpmtest_mk_snk_disc_modes_resp_vdm_def Let_def USB_SID_DISPLAYPORT_def
      CMD_DISCOVER_IDENT_def CMD_DISCOVER_SVID_def CMD_DISCOVER_MODES_def)

lemma disc_modes_replies:
  "tcpmtest_mk_snk_disc_modes_resp_vdm_poll d (ucast USB_SID_DISPLAYPORT) =
     (tcpmtest_mk_snk_disc_modes_resp_vdm d (ucast USB_SID_DISPLAYPORT))
       \<lparr>rx_msg := (rx_msg (tcpmtest_mk_snk_disc_modes_resp_vdm d (ucast USB_SID_DISPLAYPORT)))
          \<lparr>payload :=
             (payload (rx_msg (tcpmtest_mk_snk_disc_modes_resp_vdm d
                (ucast USB_SID_DISPLAYPORT))))[1 := 0x405]\<rparr>\<rparr>"
  "1 < length (payload (rx_msg d)) \<Longrightarrow>
     payload (rx_msg (tcpmtest_mk_snk_disc_modes_resp_vdm d (ucast USB_SID_DISPLAYPORT))) ! 1
       = 0x445"
  "1 < length (payload (rx_msg d)) \<Longrightarrow>
     payload (rx_msg (tcpmtest_mk_snk_disc_modes_resp_vdm_poll d (ucast USB_SID_DISPLAYPORT))) ! 1
       = 0x405"
  by (simp_all add: tcpmtest_mk_snk_disc_modes_resp_vdm_poll_def
      tcpmtest_mk_snk_disc_modes_resp_vdm_def USB_SID_DISPLAYPORT_def VDO_DPM_def
      VDO_MODE_DP_def DPM_DFP_D_PIN_C_def DPM_SIGN_SUPP_DP13_def DPM_PORT_CAP_UFP_D_def
      MODE_DP_PIN_C_def MODE_DP_V13_def MODE_DP_SNK_def VDO_INDEX_HDR_def)


lemma neq_by_calls: "calls a \<noteq> calls b \<Longrightarrow> (a::tcpmtest_data) \<noteq> b"
  by auto

lemma neq_by_rx_id: "rx_id a \<noteq> rx_id b \<Longrightarrow> (a::tcpmtest_data) \<noteq> b"
  by auto

lemma neq_by_payload:
  "payload (rx_msg a) \<noteq> payload (rx_msg b) \<Longrightarrow> (a::tcpmtest_data) \<noteq> b"
  by auto

lemma vdm_poll_rx_id:
  "rx_id (tcpmtest_process_tx_vdm_for_snk_poll d cnt)
     = (if svdm_init_answered d then rx_id d + 1 else rx_id d)"
  by (simp add: tcpmtest_process_tx_vdm_for_snk_poll_def svdm_init_answered_def Let_def
      tcpmtest_mk_snk_disc_modes_resp_vdm_poll_def tcpmtest_mk_snk_disc_ident_resp_vdm_def
      tcpmtest_mk_snk_disc_svid_resp_vdm_def CMD_DISCOVER_IDENT_def CMD_DISCOVER_SVID_def
      CMD_DISCOVER_MODES_def USB_SID_DISPLAYPORT_def)

lemma vdm_poll_unanswered:
  "\<not> svdm_init_answered d \<Longrightarrow> tcpmtest_process_tx_vdm_for_snk_poll d cnt = d"
  by (auto simp add: tcpmtest_process_tx_vdm_for_snk_poll_def svdm_init_answered_def Let_def
      tcpmtest_mk_snk_disc_modes_resp_vdm_poll_def USB_SID_DISPLAYPORT_def)

lemma vdm_poll_changes:
  "tcpmtest_process_tx_vdm_for_snk_poll d cnt \<noteq> d \<longleftrightarrow> svdm_init_answered d"
proof (cases "svdm_init_answered d")
  case True
  then have "rx_id (tcpmtest_process_tx_vdm_for_snk_poll d cnt) \<noteq> rx_id d"
    by (simp add: vdm_poll_rx_id)
  then have "tcpmtest_process_tx_vdm_for_snk_poll d cnt \<noteq> d" by (rule neq_by_rx_id)
  with True show ?thesis by simp
next
  case False
  then show ?thesis by (simp add: vdm_poll_unanswered)
qed

lemma hard_reset_from_peer_calls:
  "calls (tcpmtest_hard_reset d True) = calls d @ [Tcpm_pd_hard_reset]"
  "calls (tcpmtest_mk_src_data_source_cap d) = calls d"
  "calls (tcpmtest_mk_snk_sink_cap d) = calls d"
  "rx_id (tcpmtest_mk_snk_request d) = rx_id d + 1"
  by (simp_all add: tcpmtest_hard_reset_def synth_defs)

lemma variant_results_differ:
  "d \<noteq> tcpmtest_hard_reset d True"
  "tcpmtest_hard_reset d True \<noteq> d"
  "tcpmtest_hard_reset d True \<noteq> tcpmtest_mk_src_data_source_cap d"
  "tcpmtest_mk_snk_sink_cap d \<noteq> tcpmtest_hard_reset d True"
  "tcpmtest_mk_snk_request d \<noteq>
     (if state d = SSTATE_SRC_WAIT_FOR_REQUEST then d\<lparr>state := SSTATE_SRC_SEND_REQUEST\<rparr> else d)"
proof -
  show "d \<noteq> tcpmtest_hard_reset d True"
    by (rule neq_by_calls) (simp add: hard_reset_from_peer_calls)
  show "tcpmtest_hard_reset d True \<noteq> d"
    by (rule neq_by_calls) (simp add: hard_reset_from_peer_calls)
  show "tcpmtest_hard_reset d True \<noteq> tcpmtest_mk_src_data_source_cap d"
    by (rule neq_by_calls) (simp add: hard_reset_from_peer_calls)
  show "tcpmtest_mk_snk_sink_cap d \<noteq> tcpmtest_hard_reset d True"
    by (rule neq_by_calls) (simp add: hard_reset_from_peer_calls)
  show "tcpmtest_mk_snk_request d \<noteq>
     (if state d = SSTATE_SRC_WAIT_FOR_REQUEST then d\<lparr>state := SSTATE_SRC_SEND_REQUEST\<rparr> else d)"
    by (rule neq_by_rx_id) (simp add: hard_reset_from_peer_calls)
qed

subsection \<open>What the log and the timeout work leave alone\<close>

lemma log_dobjs_frame:
  "tcpmtest_log_dobjs d hdr msg ixs = Some d' \<Longrightarrow>
   calls d' = calls d \<and> rx_id d' = rx_id d \<and> rx_msg d' = rx_msg d
   \<and> request d' = request d \<and> state d' = state d \<and> sysfs_mode d' = sysfs_mode d
   \<and> sysfs_mode_req d' = sysfs_mode_req d \<and> pd_rx_enable d' = pd_rx_enable d
   \<and> tx_type d' = tx_type d \<and> tx_msg d' = tx_msg d"
proof (induction ixs arbitrary: d)
  case Nil
  then show ?case by simp
next
  case (Cons ix ixs)
  then show ?case
    by (fastforce simp add: Let_def tcpmtest_log_capability_pdo_def
        tcpmtest_log_request_pdo_def split: option.splits if_splits)
qed

lemma log_msg_frame:
  assumes "tcpmtest_log_msg d ty m = Some d'"
  shows "calls d' = calls d" and "rx_id d' = rx_id d" and "rx_msg d' = rx_msg d"
    and "request d' = request d" and "state d' = state d" and "sysfs_mode d' = sysfs_mode d"
    and "sysfs_mode_req d' = sysfs_mode_req d" and "pd_rx_enable d' = pd_rx_enable d"
    and "tx_type d' = tx_type d" and "tx_msg d' = tx_msg d"
  using assms
  by (auto simp add: tcpmtest_log_msg_def Let_def split: if_splits dest: log_dobjs_frame)

text \<open>
  The state machine never queues the event work, and it arms the timer only in
  \<^verbatim>\<open>SSTATE_SRC_START\<close>.
\<close>

lemma state_machine_calls:
  "\<exists>xs. calls (tcpmtest_state_machine d timeout) = calls d @ xs
      \<and> Queue_work \<notin> set xs \<and> Tcpm_pd_hard_reset \<notin> set xs
      \<and> (\<forall>msg. Tcpm_pd_receive msg \<notin> set xs)
      \<and> (list_ex is_mod_delayed_work xs \<longrightarrow> state d = SSTATE_SRC_START)"
  by (cases "state d")
    (simp_all add: tcpmtest_state_machine_def synth_defs tcpmtest_hard_reset_def Let_def)

lemma tmo_work_cases:
  assumes "tcpmtest_tmo_work d = Some d'"
  obtains (idle) "\<not> msg_rx (request d)"
      "d' = tcpmtest_state_machine (d\<lparr>delay := 0\<rparr>) True"
    | (deliver) d1 where "msg_rx (request d)"
      "tcpmtest_log_msg (d\<lparr>request := (request d)\<lparr>msg_rx := False\<rparr>\<rparr>) TCPC_TX_SOP (rx_msg d)
         = Some d1"
      "d' = tcpmtest_state_machine
              (d1\<lparr>calls := calls d1 @ [Tcpm_pd_receive (rx_msg d1)], delay := 0\<rparr>) True"
  using assms
  by (cases "msg_rx (request d)")
    (auto simp add: tcpmtest_tmo_work_def split: option.splits)

lemma tmo_work_calls:
  assumes "tcpmtest_tmo_work d = Some d'"
  shows "Queue_work \<notin> set (calls_since d d')"
    and "list_ex is_mod_delayed_work (calls_since d d') \<longrightarrow> state d = SSTATE_SRC_START"
proof -
  have "Queue_work \<notin> set (calls_since d d')
      \<and> (list_ex is_mod_delayed_work (calls_since d d') \<longrightarrow> state d = SSTATE_SRC_START)"
    using assms
  proof (cases rule: tmo_work_cases)
    case idle
    from state_machine_calls [of "d\<lparr>delay := 0\<rparr>" True] obtain xs where
      xs: "calls d' = calls d @ xs" "Queue_work \<notin> set xs"
        "list_ex is_mod_delayed_work xs \<longrightarrow> state d = SSTATE_SRC_START"
      unfolding idle(2) by auto
    from xs(1) have "calls_since d d' = xs" by (simp add: calls_since_def)
    with xs(2,3) show ?thesis by simp
  next
    case (deliver d1)
    from log_msg_frame(1,5) [OF deliver(2)] have d1: "calls d1 = calls d" "state d1 = state d"
      by simp_all
    from state_machine_calls
      [of "d1\<lparr>calls := calls d1 @ [Tcpm_pd_receive (rx_msg d1)], delay := 0\<rparr>" True]
    obtain xs where
      xs: "calls d' = (calls d @ [Tcpm_pd_receive (rx_msg d1)]) @ xs" "Queue_work \<notin> set xs"
        "list_ex is_mod_delayed_work xs \<longrightarrow> state d = SSTATE_SRC_START"
      unfolding deliver(3) using d1 by auto
    from xs(1) have "calls_since d d' = Tcpm_pd_receive (rx_msg d1) # xs"
      by (simp add: calls_since_def)
    with xs(2,3) show ?thesis by simp
  qed
  then show "Queue_work \<notin> set (calls_since d d')"
    and "list_ex is_mod_delayed_work (calls_since d d') \<longrightarrow> state d = SSTATE_SRC_START"
    by simp_all
qed

lemma drain_idle: "drain n work_queue_idle d = Some (work_queue_idle, d)"
  by (cases n) (simp_all add: work_queue_idle_def)

lemma session_append:
  "session n (es @ es') qd =
     (case session n es qd of None \<Rightarrow> None | Some qd' \<Rightarrow> session n es' qd')"
  by (induction es arbitrary: qd) (simp_all split: option.splits)

subsection \<open>The counter in a step of the driver\<close>

lemma process_tx_msg_state_to_none:
  "state (tcpmtest_process_tx_msg_for_snk d) = SSTATE_TO_NONE \<longleftrightarrow> state d = SSTATE_TO_NONE"
  "state (tcpmtest_process_tx_msg_for_src d) = SSTATE_TO_NONE \<longleftrightarrow> state d = SSTATE_TO_NONE"
  using process_tx_msg_for_src_outcomes [of d]
  by (auto simp add: process_tx_msg_for_snk_frame synth_defs tcpmtest_hard_reset_def)

lemma event_work_msg_tx_state:
  "state (tcpmtest_event_work_msg_tx d) = SSTATE_TO_NONE \<longleftrightarrow> state d = SSTATE_TO_NONE"
  by (simp add: tcpmtest_event_work_msg_tx_def Let_def process_tx_msg_state_to_none)

lemma event_work_msg_tx_counter:
  "if (msg_tx (request d) \<and> (sysfs_mode d = TESTMODE_SNK \<or> sysfs_mode d = TESTMODE_SRC)
        \<and> (tx_type d = TCPC_TX_HARD_RESET
            \<or> (tx_type d = TCPC_TX_SOP \<and> pd_header_cnt (header (tx_msg d)) = 0
                \<and> pd_header_type (header (tx_msg d)) = PD_CTRL_SOFT_RESET)))
      \<or> Tcpm_pd_hard_reset \<in> set (calls_since d (tcpmtest_event_work_msg_tx d))
   then rx_id (tcpmtest_event_work_msg_tx d) = 0
   else (rx_id (tcpmtest_event_work_msg_tx d) = rx_id d
         \<and> rx_msg (tcpmtest_event_work_msg_tx d) = rx_msg d
         \<and> msg_rx (request (tcpmtest_event_work_msg_tx d)) = msg_rx (request d))
        \<or> (rx_id (tcpmtest_event_work_msg_tx d) = rx_id d + 1
            \<and> msg_rx (request (tcpmtest_event_work_msg_tx d))
            \<and> pd_header_id (header (rx_msg (tcpmtest_event_work_msg_tx d))) = rx_id d AND 7)"
proof -
  let ?d1 = "d\<lparr>request := (request d)\<lparr>msg_tx := False\<rparr>\<rparr>"
  consider (none) "\<not> msg_tx (request d)"
    | (failed) "msg_tx (request d)" "sysfs_mode d \<noteq> TESTMODE_SNK" "sysfs_mode d \<noteq> TESTMODE_SRC"
    | (snk) "msg_tx (request d)" "sysfs_mode d = TESTMODE_SNK"
    | (src) "msg_tx (request d)" "sysfs_mode d = TESTMODE_SRC"
    by blast
  then show ?thesis
  proof cases
    case none
    then show ?thesis by (simp add: tcpmtest_event_work_msg_tx_def calls_since_def)
  next
    case failed
    then show ?thesis by (simp add: tcpmtest_event_work_msg_tx_def calls_since_def Let_def)
  next
    case snk
    from process_tx_msg_calls(1) [of ?d1]
    have hr: "Tcpm_pd_hard_reset \<in> set (calls_since d (tcpmtest_event_work_msg_tx d))
        \<longleftrightarrow> calls (tcpmtest_process_tx_msg_for_snk ?d1) = calls ?d1 @ [Tcpm_pd_hard_reset]"
      using snk by (auto simp add: tcpmtest_event_work_msg_tx_def calls_since_def Let_def)
    from process_tx_msg_for_snk_counter [of ?d1] snk show ?thesis
      unfolding hr
      by (auto simp add: tcpmtest_event_work_msg_tx_def Let_def split: if_splits)
  next
    case src
    from process_tx_msg_calls(2) [of ?d1]
    have hr: "Tcpm_pd_hard_reset \<in> set (calls_since d (tcpmtest_event_work_msg_tx d))
        \<longleftrightarrow> calls (tcpmtest_process_tx_msg_for_src ?d1) = calls ?d1 @ [Tcpm_pd_hard_reset]"
      using src by (auto simp add: tcpmtest_event_work_msg_tx_def calls_since_def Let_def)
    from process_tx_msg_for_src_counter [of ?d1] src show ?thesis
      unfolding hr
      by (auto simp add: tcpmtest_event_work_msg_tx_def Let_def split: if_splits)
  qed
qed

lemma event_work_msg_tx_prefix:
  "\<exists>zs. calls (tcpmtest_event_work_msg_tx d) = calls d @ zs"
  using event_work_msg_tx_calls [of d] by blast

lemma event_work_blocks_frame:
  "rx_id (tcpmtest_event_work_vbus_chng (tcpmtest_event_work_mode_set d)) = rx_id d"
  "rx_msg (tcpmtest_event_work_vbus_chng (tcpmtest_event_work_mode_set d)) = rx_msg d"
  "msg_rx (request (tcpmtest_event_work_vbus_chng (tcpmtest_event_work_mode_set d)))
     = msg_rx (request d)"
  "msg_tx (request (tcpmtest_event_work_vbus_chng (tcpmtest_event_work_mode_set d)))
     = msg_tx (request d)"
  "tx_type (tcpmtest_event_work_vbus_chng (tcpmtest_event_work_mode_set d)) = tx_type d"
  "tx_msg (tcpmtest_event_work_vbus_chng (tcpmtest_event_work_mode_set d)) = tx_msg d"
  "sysfs_mode (tcpmtest_event_work_vbus_chng (tcpmtest_event_work_mode_set d))
     = sysfs_mode (tcpmtest_event_work_mode_set d)"
  "state (tcpmtest_event_work_vbus_chng (tcpmtest_event_work_mode_set d))
     = state (tcpmtest_event_work_mode_set d)"
  by (simp_all add: tcpmtest_event_work_vbus_chng_def tcpmtest_event_work_mode_set_def Let_def
      split: testmode.splits)

lemma event_work_blocks_calls:
  "\<exists>ys. calls (tcpmtest_event_work_vbus_chng (tcpmtest_event_work_mode_set d)) = calls d @ ys
      \<and> Tcpm_pd_hard_reset \<notin> set ys"
proof -
  have "calls (tcpmtest_event_work_mode_set d) = calls d"
    by (simp add: tcpmtest_event_work_mode_set_def Let_def split: testmode.splits)
  then have "calls (tcpmtest_event_work_vbus_chng (tcpmtest_event_work_mode_set d)) = calls d @ []
      \<or> calls (tcpmtest_event_work_vbus_chng (tcpmtest_event_work_mode_set d))
          = calls d @ [Tcpm_vbus_change]"
    by (simp add: tcpmtest_event_work_vbus_chng_def)
  then show ?thesis by (elim disjE) (rule exI, erule conjI, simp)+
qed

lemma event_work_tail:
  "rx_id (tcpmtest_event_work d)
     = rx_id (tcpmtest_state_machine (tcpmtest_event_work_msg_tx
         (tcpmtest_event_work_vbus_chng (tcpmtest_event_work_mode_set d))) False)"
  "rx_msg (tcpmtest_event_work d)
     = rx_msg (tcpmtest_state_machine (tcpmtest_event_work_msg_tx
         (tcpmtest_event_work_vbus_chng (tcpmtest_event_work_mode_set d))) False)"
  "msg_rx (request (tcpmtest_event_work d))
     = msg_rx (request (tcpmtest_state_machine (tcpmtest_event_work_msg_tx
         (tcpmtest_event_work_vbus_chng (tcpmtest_event_work_mode_set d))) False))"
  "\<exists>vs. calls (tcpmtest_event_work d)
     = calls (tcpmtest_state_machine (tcpmtest_event_work_msg_tx
         (tcpmtest_event_work_vbus_chng (tcpmtest_event_work_mode_set d))) False) @ vs
     \<and> Tcpm_pd_hard_reset \<notin> set vs"
  by (simp_all add: tcpmtest_event_work_def Let_def)

lemma event_work_hard_reset_call:
  "Tcpm_pd_hard_reset \<in> set (calls_since d (tcpmtest_event_work d))
   \<longleftrightarrow> Tcpm_pd_hard_reset \<in> set (calls_since
         (tcpmtest_event_work_vbus_chng (tcpmtest_event_work_mode_set d))
         (tcpmtest_event_work_msg_tx
           (tcpmtest_event_work_vbus_chng (tcpmtest_event_work_mode_set d))))"
proof -
  let ?d2 = "tcpmtest_event_work_vbus_chng (tcpmtest_event_work_mode_set d)"
  let ?X = "tcpmtest_event_work_msg_tx ?d2"
  let ?d4 = "tcpmtest_state_machine ?X False"
  from event_work_blocks_calls [of d] obtain ys where
    ys: "calls ?d2 = calls d @ ys" "Tcpm_pd_hard_reset \<notin> set ys" by blast
  from event_work_msg_tx_prefix [of ?d2] obtain zs where
    zs: "calls ?X = calls ?d2 @ zs" by blast
  from state_machine_calls [of ?X False] obtain ws where
    ws: "calls ?d4 = calls ?X @ ws" "Tcpm_pd_hard_reset \<notin> set ws" by blast
  from event_work_tail(4) [of d] obtain vs where
    vs: "calls (tcpmtest_event_work d) = calls ?d4 @ vs" "Tcpm_pd_hard_reset \<notin> set vs" by blast
  have all: "calls (tcpmtest_event_work d) = calls d @ (ys @ zs @ ws @ vs)"
    by (simp only: vs(1) ws(1) zs ys(1) append_assoc)
  have "calls_since d (tcpmtest_event_work d) = ys @ zs @ ws @ vs"
    unfolding calls_since_def all by simp
  moreover have "calls_since ?d2 ?X = zs"
    unfolding calls_since_def zs by simp
  ultimately show ?thesis using ys(2) ws(2) vs(2) by simp
qed

lemma event_work_counter:
  "if counter_reset_event Event_work d (tcpmtest_event_work d)
   then rx_id (tcpmtest_event_work d) = 0
        \<or> (rx_id (tcpmtest_event_work d) = 1 \<and> msg_rx (request (tcpmtest_event_work d))
            \<and> pd_header_id (header (rx_msg (tcpmtest_event_work d))) = 0)
   else rx_id (tcpmtest_event_work d) = rx_id d
        \<or> (rx_id (tcpmtest_event_work d) = rx_id d + 1
            \<and> msg_rx (request (tcpmtest_event_work d))
            \<and> pd_header_id (header (rx_msg (tcpmtest_event_work d))) = rx_id d AND 7)
        \<or> (rx_id (tcpmtest_event_work d) = rx_id d + 2
            \<and> msg_rx (request (tcpmtest_event_work d))
            \<and> pd_header_id (header (rx_msg (tcpmtest_event_work d))) = (rx_id d + 1) AND 7)"
proof -
  let ?d2 = "tcpmtest_event_work_vbus_chng (tcpmtest_event_work_mode_set d)"
  let ?X = "tcpmtest_event_work_msg_tx ?d2"
  let ?d4 = "tcpmtest_state_machine ?X False"
  let ?by_message = "(msg_tx (request ?d2)
        \<and> (sysfs_mode ?d2 = TESTMODE_SNK \<or> sysfs_mode ?d2 = TESTMODE_SRC)
        \<and> (tx_type ?d2 = TCPC_TX_HARD_RESET
            \<or> (tx_type ?d2 = TCPC_TX_SOP \<and> pd_header_cnt (header (tx_msg ?d2)) = 0
                \<and> pd_header_type (header (tx_msg ?d2)) = PD_CTRL_SOFT_RESET)))
      \<or> Tcpm_pd_hard_reset \<in> set (calls_since ?d2 ?X)"
  have reset_iff: "counter_reset_event Event_work d (tcpmtest_event_work d)
      \<longleftrightarrow> ?by_message \<or> state ?d2 = SSTATE_TO_NONE"
    unfolding counter_reset_event_def message_processed_def event_work_hard_reset_call
      event_work_blocks_frame
    by blast
  show ?thesis
  proof (cases "state ?d2 = SSTATE_TO_NONE")
    case True
    then have "state ?X = SSTATE_TO_NONE" by (simp only: event_work_msg_tx_state)
    with state_machine_counter [of ?X False] have "rx_id ?d4 = 0" by simp
    then have zero: "rx_id (tcpmtest_event_work d) = 0" by (simp only: event_work_tail)
    from True reset_iff have "counter_reset_event Event_work d (tcpmtest_event_work d)"
      by blast
    then show ?thesis by (simp only: if_True zero simp_thms)
  next
    case False
    then have "state ?X \<noteq> SSTATE_TO_NONE" by (simp only: event_work_msg_tx_state) simp
    from state_machine_stages [OF this, of False]
    have sm: "(rx_id (tcpmtest_event_work d) = rx_id ?X
          \<and> rx_msg (tcpmtest_event_work d) = rx_msg ?X
          \<and> msg_rx (request (tcpmtest_event_work d)) = msg_rx (request ?X))
        \<or> (rx_id (tcpmtest_event_work d) = rx_id ?X + 1
            \<and> msg_rx (request (tcpmtest_event_work d))
            \<and> pd_header_id (header (rx_msg (tcpmtest_event_work d))) = rx_id ?X AND 7)"
      by (simp only: event_work_tail)
    show ?thesis
    proof (cases ?by_message)
      case True
      with event_work_msg_tx_counter [of ?d2] have "rx_id ?X = 0" by simp
      with sm have res: "rx_id (tcpmtest_event_work d) = 0
        \<or> (rx_id (tcpmtest_event_work d) = 1 \<and> msg_rx (request (tcpmtest_event_work d))
            \<and> pd_header_id (header (rx_msg (tcpmtest_event_work d))) = 0)"
        by auto
      from True reset_iff have "counter_reset_event Event_work d (tcpmtest_event_work d)"
        by blast
      with res show ?thesis by (simp only: if_True)
    next
      case no: False
      from event_work_msg_tx_counter [of ?d2]
      have "(rx_id ?X = rx_id ?d2 \<and> rx_msg ?X = rx_msg ?d2
            \<and> msg_rx (request ?X) = msg_rx (request ?d2))
          \<or> (rx_id ?X = rx_id ?d2 + 1 \<and> msg_rx (request ?X)
              \<and> pd_header_id (header (rx_msg ?X)) = rx_id ?d2 AND 7)"
        by (simp only: no if_False)
      then have X: "(rx_id ?X = rx_id d \<and> rx_msg ?X = rx_msg d
            \<and> msg_rx (request ?X) = msg_rx (request d))
          \<or> (rx_id ?X = rx_id d + 1 \<and> msg_rx (request ?X)
              \<and> pd_header_id (header (rx_msg ?X)) = rx_id d AND 7)"
        by (simp only: event_work_blocks_frame)
      from X sm have res: "rx_id (tcpmtest_event_work d) = rx_id d
        \<or> (rx_id (tcpmtest_event_work d) = rx_id d + 1
            \<and> msg_rx (request (tcpmtest_event_work d))
            \<and> pd_header_id (header (rx_msg (tcpmtest_event_work d))) = rx_id d AND 7)
        \<or> (rx_id (tcpmtest_event_work d) = rx_id d + 2
            \<and> msg_rx (request (tcpmtest_event_work d))
            \<and> pd_header_id (header (rx_msg (tcpmtest_event_work d))) = (rx_id d + 1) AND 7)"
        by (elim disjE conjE) simp_all
      from no False reset_iff have "\<not> counter_reset_event Event_work d (tcpmtest_event_work d)"
        by blast
      with res show ?thesis by (simp only: if_False)
    qed
  qed
qed

lemma tmo_work_counter:
  assumes "tcpmtest_tmo_work d = Some d'"
  shows "Tcpm_pd_hard_reset \<notin> set (calls_since d d')"
    and "state d = SSTATE_TO_NONE \<Longrightarrow> rx_id d' = 0"
    and "state d \<noteq> SSTATE_TO_NONE \<Longrightarrow>
         rx_id d' = rx_id d
         \<or> (rx_id d' = rx_id d + 1 \<and> msg_rx (request d')
             \<and> pd_header_id (header (rx_msg d')) = rx_id d AND 7)"
proof -
  have "Tcpm_pd_hard_reset \<notin> set (calls_since d d')
      \<and> (state d = SSTATE_TO_NONE \<longrightarrow> rx_id d' = 0)
      \<and> (state d \<noteq> SSTATE_TO_NONE \<longrightarrow>
         rx_id d' = rx_id d
         \<or> (rx_id d' = rx_id d + 1 \<and> msg_rx (request d')
             \<and> pd_header_id (header (rx_msg d')) = rx_id d AND 7))"
    using assms
  proof (cases rule: tmo_work_cases)
    case idle
    let ?d2 = "d\<lparr>delay := 0\<rparr>"
    from state_machine_calls [of ?d2 True] obtain xs where
      xs: "calls d' = calls d @ xs" "Tcpm_pd_hard_reset \<notin> set xs"
      unfolding idle(2) by auto
    from xs(1) have cs: "calls_since d d' = xs" by (simp add: calls_since_def)
    from state_machine_counter [of ?d2 True, folded idle(2)]
      state_machine_stages [of ?d2 True, folded idle(2)]
    show ?thesis unfolding cs using xs(2) by auto
  next
    case (deliver d1)
    let ?d2 = "d1\<lparr>calls := calls d1 @ [Tcpm_pd_receive (rx_msg d1)], delay := 0\<rparr>"
    from log_msg_frame(1,2,5) [OF deliver(2)]
    have d1: "calls d1 = calls d" "rx_id d1 = rx_id d" "state d1 = state d"
      by simp_all
    from state_machine_calls [of ?d2 True] obtain xs where
      xs: "calls d' = (calls d @ [Tcpm_pd_receive (rx_msg d1)]) @ xs"
        "Tcpm_pd_hard_reset \<notin> set xs"
      unfolding deliver(3) using d1 by auto
    from xs(1) have cs: "calls_since d d' = Tcpm_pd_receive (rx_msg d1) # xs"
      by (simp add: calls_since_def)
    from state_machine_counter [of ?d2 True, folded deliver(3)]
      state_machine_stages [of ?d2 True, folded deliver(3)]
    show ?thesis unfolding cs using xs(2) d1 by auto
  qed
  then show "Tcpm_pd_hard_reset \<notin> set (calls_since d d')"
    and "state d = SSTATE_TO_NONE \<Longrightarrow> rx_id d' = 0"
    and "state d \<noteq> SSTATE_TO_NONE \<Longrightarrow>
         rx_id d' = rx_id d
         \<or> (rx_id d' = rx_id d + 1 \<and> msg_rx (request d')
             \<and> pd_header_id (header (rx_msg d')) = rx_id d AND 7)"
    by simp_all
qed

text \<open>
  The write to the mode attribute and the operations called by the Port Manager keep
  the counter and the staged message, and notify no hard reset.
\<close>

lemma external_step_frame:
  assumes "e \<noteq> Event_work" and "e \<noteq> Tmo_work" and "step e d = Some d'"
  shows "rx_id d' = rx_id d" and "rx_msg d' = rx_msg d"
    and "msg_rx (request d') = msg_rx (request d)"
    and "Tcpm_pd_hard_reset \<notin> set (calls_since d d')"
proof -
  have "rx_id d' = rx_id d \<and> rx_msg d' = rx_msg d
      \<and> msg_rx (request d') = msg_rx (request d)
      \<and> Tcpm_pd_hard_reset \<notin> set (calls_since d d')"
  proof (cases e)
    case (Sysfs_store buf)
    with assms(3) show ?thesis
      by (auto simp add: tcpmtest_sysfs_store_def calls_since_def Let_def
          split: sum.splits if_splits)
  next
    case (Set_vbus source sink)
    with assms(3) show ?thesis
      by (auto simp add: tcpmtest_set_vbus_def calls_since_def Let_def split: if_splits)
  next
    case (Set_pd_rx enable)
    with assms(3) show ?thesis
      by (auto simp add: tcpmtest_set_pd_rx_def calls_since_def split: if_splits)
  next
    case (Set_polarity p)
    with assms(3) show ?thesis
      by (auto simp add: tcpmtest_set_polarity_def calls_since_def)
  next
    case (Set_vconn enable)
    with assms(3) show ?thesis
      by (auto simp add: tcpmtest_set_vconn_def calls_since_def)
  next
    case (Set_roles attached pr dr)
    with assms(3) show ?thesis
      by (auto simp add: tcpmtest_set_roles_def calls_since_def)
  next
    case (Pd_transmit ty msg)
    with assms(3) obtain m d1 where "msg = Some m" and log: "tcpmtest_log_msg d ty m = Some d1"
      and d': "d' = d1\<lparr>tx_type := ty, tx_msg := m,
          request := (request d1)\<lparr>msg_tx := True\<rparr>, calls := calls d1 @ [Queue_work]\<rparr>"
      by (auto simp add: tcpmtest_pd_transmit_def split: option.splits)
    from log_msg_frame(1,2,3,4) [OF log] show ?thesis
      unfolding d' by (simp add: calls_since_def)
  next
    case Event_work
    with assms(1) show ?thesis by simp
  next
    case Tmo_work
    with assms(2) show ?thesis by simp
  qed
  then show "rx_id d' = rx_id d" and "rx_msg d' = rx_msg d"
    and "msg_rx (request d') = msg_rx (request d)"
    and "Tcpm_pd_hard_reset \<notin> set (calls_since d d')"
    by simp_all
qed

lemma pd_transmit_latches:
  assumes "tcpmtest_pd_transmit d ty (Some m) = Some d'"
  shows "tx_type d' = ty" and "tx_msg d' = m" and "msg_tx (request d')"
    and "sysfs_mode d' = sysfs_mode d" and "sysfs_mode_req d' = sysfs_mode_req d"
    and "state d' = state d" and "mode_set (request d') = mode_set (request d)"
    and "calls d' = calls d @ [Queue_work]"
proof -
  from assms obtain d1 where log: "tcpmtest_log_msg d ty m = Some d1"
    and d': "d' = d1\<lparr>tx_type := ty, tx_msg := m,
        request := (request d1)\<lparr>msg_tx := True\<rparr>, calls := calls d1 @ [Queue_work]\<rparr>"
    by (auto simp add: tcpmtest_pd_transmit_def split: option.splits)
  from log_msg_frame [OF log]
  show "tx_type d' = ty" and "tx_msg d' = m" and "msg_tx (request d')"
    and "sysfs_mode d' = sysfs_mode d" and "sysfs_mode_req d' = sysfs_mode_req d"
    and "state d' = state d" and "mode_set (request d') = mode_set (request d)"
    and "calls d' = calls d @ [Queue_work]"
    unfolding d' by simp_all
qed
section \<open>The claims\<close>

text \<open>
  C1. The step of the state machine from \<^verbatim>\<open>SSTATE_SRC_SEND_REQUEST\<close> stages an Accept
  control message and moves to \<^verbatim>\<open>SSTATE_SRC_SEND_PS_RDY\<close>; the step from
  \<^verbatim>\<open>SSTATE_SRC_SEND_PS_RDY\<close> does nothing while the message-to-deliver flag is set and,
  once it is clear, stages a PowerReady control message and moves to \<^verbatim>\<open>SSTATE_SRC_RUN\<close>.
  The timeout work, which makes that last step, never queues the event work and arms
  the timer only in \<^verbatim>\<open>SSTATE_SRC_START\<close>. So, for a Source session that waits for the
  Request with nothing pending, and a well-formed Request (one data object, a non-zero
  object position): the Port Manager transmits it, the event work and then the timeout
  work run, and then no work is pending any more; the session is in \<^verbatim>\<open>SSTATE_SRC_RUN\<close>,
  the Port Manager has received the Accept, and the PowerReady is staged with the
  message-to-deliver flag set but is not delivered. It is delivered only if the event
  work is queued again by a later call and arms the timer.
\<close>

theorem source_power_ready_staged_not_delivered:
  "(state d = SSTATE_SRC_SEND_REQUEST \<longrightarrow>
      tcpmtest_state_machine d timeout =
        (tcpmtest_mk_src_accept d)\<lparr>state := SSTATE_SRC_SEND_PS_RDY\<rparr>
      \<and> msg_rx (request (tcpmtest_state_machine d timeout))
      \<and> pd_header_type (header (rx_msg (tcpmtest_state_machine d timeout))) = PD_CTRL_ACCEPT
      \<and> pd_header_cnt (header (rx_msg (tcpmtest_state_machine d timeout))) = 0)
   \<and> (state d = SSTATE_SRC_SEND_PS_RDY \<longrightarrow>
      tcpmtest_state_machine d timeout =
        (if msg_rx (request d) then d
         else (tcpmtest_mk_src_ps_rdy d)\<lparr>state := SSTATE_SRC_RUN\<rparr>)
      \<and> (\<not> msg_rx (request d) \<longrightarrow>
          msg_rx (request (tcpmtest_state_machine d timeout))
          \<and> pd_header_type (header (rx_msg (tcpmtest_state_machine d timeout))) = PD_CTRL_PS_RDY
          \<and> pd_header_cnt (header (rx_msg (tcpmtest_state_machine d timeout))) = 0))
   \<and> (tcpmtest_tmo_work d = Some d' \<longrightarrow>
      Queue_work \<notin> set (calls_since d d')
      \<and> (list_ex is_mod_delayed_work (calls_since d d') \<longrightarrow> state d = SSTATE_SRC_START))
   \<and> (sysfs_mode d = TESTMODE_SRC \<and> state d = SSTATE_SRC_WAIT_FOR_REQUEST
        \<and> request d = request_word_zero
        \<and> pd_header_type (header m) = PD_DATA_REQUEST \<and> pd_header_cnt (header m) = 1
        \<and> rdo_index (payload m ! 0) \<noteq> 0 \<longrightarrow>
      external_call (Suc (Suc n)) (Pd_transmit TCPC_TX_SOP (Some m)) (work_queue_idle, d) =
        Some (work_queue_idle,
              d\<lparr>tx_type := TCPC_TX_SOP, tx_msg := m, delay := 0,
                state := SSTATE_SRC_RUN,
                request := request_word_zero\<lparr>msg_rx := True\<rparr>,
                rx_msg := (rx_msg d)\<lparr>header :=
                  PD_HEADER_LE PD_CTRL_PS_RDY TYPEC_SOURCE TYPEC_HOST (rx_id d + 1) 0\<rparr>,
                rx_id := rx_id d + 2,
                calls := calls d @
                  [Queue_work, Tcpm_pd_transmit_complete TCPC_TX_SUCCESS,
                   Mod_delayed_work SRC_RESP_DELAY,
                   Tcpm_pd_receive ((rx_msg d)\<lparr>header :=
                     PD_HEADER_LE PD_CTRL_ACCEPT TYPEC_SOURCE TYPEC_HOST (rx_id d) 0\<rparr>)]\<rparr>))"
proof (intro conjI impI)
  assume "state d = SSTATE_SRC_SEND_REQUEST"
  then show sm: "tcpmtest_state_machine d timeout =
        (tcpmtest_mk_src_accept d)\<lparr>state := SSTATE_SRC_SEND_PS_RDY\<rparr>"
    by (simp add: tcpmtest_state_machine_def)
  show "msg_rx (request (tcpmtest_state_machine d timeout))"
    "pd_header_type (header (rx_msg (tcpmtest_state_machine d timeout))) = PD_CTRL_ACCEPT"
    "pd_header_cnt (header (rx_msg (tcpmtest_state_machine d timeout))) = 0"
    by (simp_all add: sm tcpmtest_mk_src_accept_def pd_header_type_LE pd_header_cnt_LE
        PD_CTRL_ACCEPT_def)
next
  assume "state d = SSTATE_SRC_SEND_PS_RDY"
  then show sm: "tcpmtest_state_machine d timeout =
        (if msg_rx (request d) then d
         else (tcpmtest_mk_src_ps_rdy d)\<lparr>state := SSTATE_SRC_RUN\<rparr>)"
    by (simp add: tcpmtest_state_machine_def)
  assume "\<not> msg_rx (request d)"
  then show "msg_rx (request (tcpmtest_state_machine d timeout))"
    "pd_header_type (header (rx_msg (tcpmtest_state_machine d timeout))) = PD_CTRL_PS_RDY"
    "pd_header_cnt (header (rx_msg (tcpmtest_state_machine d timeout))) = 0"
    by (simp_all add: sm tcpmtest_mk_src_ps_rdy_def pd_header_type_LE pd_header_cnt_LE
        PD_CTRL_PS_RDY_def)
next
  assume "tcpmtest_tmo_work d = Some d'"
  then show "Queue_work \<notin> set (calls_since d d')"
    and "list_ex is_mod_delayed_work (calls_since d d') \<Longrightarrow> state d = SSTATE_SRC_START"
    by (simp_all add: tmo_work_calls)
next
  assume a: "sysfs_mode d = TESTMODE_SRC \<and> state d = SSTATE_SRC_WAIT_FOR_REQUEST
        \<and> request d = request_word_zero
        \<and> pd_header_type (header m) = PD_DATA_REQUEST \<and> pd_header_cnt (header m) = 1
        \<and> rdo_index (payload m ! 0) \<noteq> 0"
  then have log: "tcpmtest_log_msg d TCPC_TX_SOP m = Some d"
    by (simp add: log_msg_request_safe)
  define accept where "accept = (rx_msg d)\<lparr>header :=
      PD_HEADER_LE PD_CTRL_ACCEPT TYPEC_SOURCE TYPEC_HOST (rx_id d) 0\<rparr>"
  define ps_rdy where "ps_rdy = (rx_msg d)\<lparr>header :=
      PD_HEADER_LE PD_CTRL_PS_RDY TYPEC_SOURCE TYPEC_HOST (rx_id d + 1) 0\<rparr>"
  define d1 where "d1 = d\<lparr>tx_type := TCPC_TX_SOP, tx_msg := m,
      request := request_word_zero\<lparr>msg_tx := True\<rparr>, calls := calls d @ [Queue_work]\<rparr>"
  define d2 where "d2 = d\<lparr>tx_type := TCPC_TX_SOP, tx_msg := m,
      state := SSTATE_SRC_SEND_PS_RDY, request := request_word_zero\<lparr>msg_rx := True\<rparr>,
      rx_msg := accept, rx_id := rx_id d + 1,
      calls := calls d @ [Queue_work, Tcpm_pd_transmit_complete TCPC_TX_SUCCESS,
                          Mod_delayed_work SRC_RESP_DELAY]\<rparr>"
  define d3 where "d3 = d\<lparr>tx_type := TCPC_TX_SOP, tx_msg := m, delay := 0,
      state := SSTATE_SRC_RUN, request := request_word_zero\<lparr>msg_rx := True\<rparr>,
      rx_msg := ps_rdy, rx_id := rx_id d + 2,
      calls := calls d @ [Queue_work, Tcpm_pd_transmit_complete TCPC_TX_SUCCESS,
                          Mod_delayed_work SRC_RESP_DELAY, Tcpm_pd_receive accept]\<rparr>"
  have s1: "tcpmtest_pd_transmit d TCPC_TX_SOP (Some m) = Some d1"
    using a by (simp add: tcpmtest_pd_transmit_def log d1_def)
  have s2: "tcpmtest_event_work d1 = d2"
    using a
    by (simp add: d1_def d2_def accept_def tcpmtest_event_work_def
        tcpmtest_event_work_mode_set_def tcpmtest_event_work_vbus_chng_def
        tcpmtest_event_work_msg_tx_def tcpmtest_process_tx_msg_for_src_def
        tcpmtest_state_machine_def tcpmtest_mk_src_accept_def request_word_zero_def
        Let_def pd_msg_types)
  have s3: "tcpmtest_tmo_work d2 = Some d3"
    by (simp add: d2_def d3_def accept_def ps_rdy_def tcpmtest_tmo_work_def
        log_msg_no_objects pd_header_cnt_LE tcpmtest_state_machine_def
        tcpmtest_mk_src_ps_rdy_def request_word_zero_def)
  have q1: "queue_after work_queue_idle d d1 = \<lparr>event_pending = True, tmo_armed = False\<rparr>"
    by (simp add: queue_after_def calls_since_def work_queue_idle_def d1_def)
  have q2: "queue_after \<lparr>event_pending = False, tmo_armed = False\<rparr> d1 d2
      = \<lparr>event_pending = False, tmo_armed = True\<rparr>"
    by (simp add: queue_after_def calls_since_def d1_def d2_def)
  have q3: "queue_after \<lparr>event_pending = False, tmo_armed = False\<rparr> d2 d3 = work_queue_idle"
    by (simp add: queue_after_def calls_since_def work_queue_idle_def d2_def d3_def)
  have "external_call (Suc (Suc n)) (Pd_transmit TCPC_TX_SOP (Some m)) (work_queue_idle, d)
      = Some (work_queue_idle, d3)"
    by (simp add: external_call_def s1 q1 s2 q2 s3 q3 drain_idle)
  then show "external_call (Suc (Suc n)) (Pd_transmit TCPC_TX_SOP (Some m)) (work_queue_idle, d) =
        Some (work_queue_idle,
              d\<lparr>tx_type := TCPC_TX_SOP, tx_msg := m, delay := 0,
                state := SSTATE_SRC_RUN,
                request := request_word_zero\<lparr>msg_rx := True\<rparr>,
                rx_msg := (rx_msg d)\<lparr>header :=
                  PD_HEADER_LE PD_CTRL_PS_RDY TYPEC_SOURCE TYPEC_HOST (rx_id d + 1) 0\<rparr>,
                rx_id := rx_id d + 2,
                calls := calls d @
                  [Queue_work, Tcpm_pd_transmit_complete TCPC_TX_SUCCESS,
                   Mod_delayed_work SRC_RESP_DELAY,
                   Tcpm_pd_receive ((rx_msg d)\<lparr>header :=
                     PD_HEADER_LE PD_CTRL_ACCEPT TYPEC_SOURCE TYPEC_HOST (rx_id d) 0\<rparr>)]\<rparr>)"
    by (simp add: d3_def accept_def ps_rdy_def)
qed

text \<open>
  The theorem at the Source session started from \<^verbatim>\<open>probe\<close>: the operator writes
  \<^verbatim>\<open>src\<close>, the Port Manager enables PD reception and, in \<open>src_waiting_state\<close>,
  transmits the Request for object position 1. When no work is pending any more the
  session is in \<open>src_accepted_state\<close>: the Port Manager has received SourceCapabilities
  (ID 0) and Accept (ID 1, header \<open>0x363\<close>); the PowerReady (ID 2, header \<open>0x566\<close>) is
  staged, flagged for delivery, and not received.
\<close>

theorem source_power_ready_staged_not_delivered_witness:
  "session 2 [Sysfs_store ''src'', Set_pd_rx True] (work_queue_idle, tcpmtest_probe)
     = Some (work_queue_idle, src_waiting_state)
   \<and> sysfs_mode src_waiting_state = TESTMODE_SRC
   \<and> state src_waiting_state = SSTATE_SRC_WAIT_FOR_REQUEST
   \<and> request src_waiting_state = request_word_zero
   \<and> pd_header_type (header request_message) = PD_DATA_REQUEST
   \<and> pd_header_cnt (header request_message) = 1
   \<and> rdo_index (payload request_message ! 0) = 1
   \<and> external_call 2 (Pd_transmit TCPC_TX_SOP (Some request_message))
         (work_queue_idle, src_waiting_state)
       = Some (work_queue_idle, src_accepted_state)
   \<and> session 2 [Sysfs_store ''src'', Set_pd_rx True,
                 Pd_transmit TCPC_TX_SOP (Some request_message)]
         (work_queue_idle, tcpmtest_probe)
       = Some (work_queue_idle, src_accepted_state)
   \<and> state src_accepted_state = SSTATE_SRC_RUN
   \<and> msg_rx (request src_accepted_state)
   \<and> rx_msg src_accepted_state = \<lparr>header = 0x566, payload = [0x2E01912C, 0, 0, 0, 0, 0, 0]\<rparr>
   \<and> pd_header_type 0x363 = PD_CTRL_ACCEPT \<and> pd_header_cnt 0x363 = 0
   \<and> pd_header_type 0x566 = PD_CTRL_PS_RDY \<and> pd_header_cnt 0x566 = 0
   \<and> [c \<leftarrow> calls src_accepted_state. \<exists>msg. c = Tcpm_pd_receive msg] =
       [Tcpm_pd_receive \<lparr>header = 0x1161, payload = [0x2E01912C, 0, 0, 0, 0, 0, 0]\<rparr>,
        Tcpm_pd_receive \<lparr>header = 0x363, payload = [0x2E01912C, 0, 0, 0, 0, 0, 0]\<rparr>]"
proof -
  have start: "session 2 [Sysfs_store ''src'', Set_pd_rx True] (work_queue_idle, tcpmtest_probe)
      = Some (work_queue_idle, src_waiting_state)"
    unfolding numeral_2_eq_2
    by (simp add: external_call_def queue_after_def calls_since_def work_queue_idle_def
        example_defs driver_defs pd_defs Let_def upt_rec)
  have req: "external_call 2 (Pd_transmit TCPC_TX_SOP (Some request_message))
         (work_queue_idle, src_waiting_state)
       = Some (work_queue_idle, src_accepted_state)"
    unfolding numeral_2_eq_2
    using source_power_ready_staged_not_delivered [of src_waiting_state False _ request_message 0]
    by (simp add: example_defs pm_message_def request_word_zero_def tcpmtest_probe_def pd_defs
        SRC_RESP_DELAY_def)
  have all: "session 2 [Sysfs_store ''src'', Set_pd_rx True,
                 Pd_transmit TCPC_TX_SOP (Some request_message)]
         (work_queue_idle, tcpmtest_probe)
       = Some (work_queue_idle, src_accepted_state)"
  proof -
    have "session 2 ([Sysfs_store ''src'', Set_pd_rx True]
                     @ [Pd_transmit TCPC_TX_SOP (Some request_message)])
            (work_queue_idle, tcpmtest_probe)
          = Some (work_queue_idle, src_accepted_state)"
      unfolding session_append start by (simp add: req)
    then show ?thesis by simp
  qed
  have rest: "sysfs_mode src_waiting_state = TESTMODE_SRC
   \<and> state src_waiting_state = SSTATE_SRC_WAIT_FOR_REQUEST
   \<and> request src_waiting_state = request_word_zero
   \<and> pd_header_type (header request_message) = PD_DATA_REQUEST
   \<and> pd_header_cnt (header request_message) = 1
   \<and> rdo_index (payload request_message ! 0) = 1
   \<and> state src_accepted_state = SSTATE_SRC_RUN
   \<and> msg_rx (request src_accepted_state)
   \<and> rx_msg src_accepted_state = \<lparr>header = 0x566, payload = [0x2E01912C, 0, 0, 0, 0, 0, 0]\<rparr>
   \<and> pd_header_type 0x363 = PD_CTRL_ACCEPT \<and> pd_header_cnt 0x363 = 0
   \<and> pd_header_type 0x566 = PD_CTRL_PS_RDY \<and> pd_header_cnt 0x566 = 0
   \<and> [c \<leftarrow> calls src_accepted_state. \<exists>msg. c = Tcpm_pd_receive msg] =
       [Tcpm_pd_receive \<lparr>header = 0x1161, payload = [0x2E01912C, 0, 0, 0, 0, 0, 0]\<rparr>,
        Tcpm_pd_receive \<lparr>header = 0x363, payload = [0x2E01912C, 0, 0, 0, 0, 0, 0]\<rparr>]"
    by (simp add: example_defs pm_message_def request_word_zero_def pd_defs)
  from start req all rest show ?thesis by (simp only: simp_thms)
qed

text \<open>
  C2, as the code has it. For a control message transmitted by the Port Manager over SOP
  (no data objects in the header):
  \<^item> GoodCRC, GotoMin, Ping and PowerReady leave the state unchanged in both roles, and so
    does Accept in the Sink role; in the Source role Accept is grouped with Reject and
    triggers the hard reset;
  \<^item> Reject and the DR, PR and Vconn swap requests in both roles, and GetSourceCap in the
    Sink role, trigger the hard reset from the peer: all request flags and the
    message-ID counter are cleared and the Port Manager is notified
    (\<^verbatim>\<open>tcpm_pd_hard_reset\<close>);
  \<^item> SoftReset sets the message-ID counter to zero and changes nothing else, in both roles;
  \<^item> GetSinkCap in the Sink role stages a SinkCapabilities message with one data object.
\<close>

theorem control_message_reactions:
  assumes "tx_type d = TCPC_TX_SOP" and "pd_header_cnt (header (tx_msg d)) = 0"
  shows
    "(pd_header_type (header (tx_msg d))
        \<in> {PD_CTRL_GOOD_CRC, PD_CTRL_GOTO_MIN, PD_CTRL_PING, PD_CTRL_PS_RDY}
      \<longrightarrow> tcpmtest_process_tx_msg_for_snk d = d \<and> tcpmtest_process_tx_msg_for_src d = d)
     \<and> (pd_header_type (header (tx_msg d)) = PD_CTRL_ACCEPT
      \<longrightarrow> tcpmtest_process_tx_msg_for_snk d = d
        \<and> tcpmtest_process_tx_msg_for_src d =
            d\<lparr>request := request_word_zero, rx_id := 0,
              calls := calls d @ [Tcpm_pd_hard_reset]\<rparr>)
     \<and> (pd_header_type (header (tx_msg d))
        \<in> {PD_CTRL_REJECT, PD_CTRL_DR_SWAP, PD_CTRL_PR_SWAP, PD_CTRL_VCONN_SWAP}
      \<longrightarrow> tcpmtest_process_tx_msg_for_snk d =
            d\<lparr>request := request_word_zero, rx_id := 0,
              calls := calls d @ [Tcpm_pd_hard_reset]\<rparr>
        \<and> tcpmtest_process_tx_msg_for_src d =
            d\<lparr>request := request_word_zero, rx_id := 0,
              calls := calls d @ [Tcpm_pd_hard_reset]\<rparr>)
     \<and> (pd_header_type (header (tx_msg d)) = PD_CTRL_GET_SOURCE_CAP
      \<longrightarrow> tcpmtest_process_tx_msg_for_snk d =
            d\<lparr>request := request_word_zero, rx_id := 0,
              calls := calls d @ [Tcpm_pd_hard_reset]\<rparr>)
     \<and> (pd_header_type (header (tx_msg d)) = PD_CTRL_SOFT_RESET
      \<longrightarrow> tcpmtest_process_tx_msg_for_snk d = d\<lparr>rx_id := 0\<rparr>
        \<and> tcpmtest_process_tx_msg_for_src d = d\<lparr>rx_id := 0\<rparr>)
     \<and> (pd_header_type (header (tx_msg d)) = PD_CTRL_GET_SINK_CAP
      \<longrightarrow> tcpmtest_process_tx_msg_for_snk d = tcpmtest_mk_snk_sink_cap d
        \<and> msg_rx (request (tcpmtest_process_tx_msg_for_snk d))
        \<and> pd_header_cnt (header (rx_msg (tcpmtest_process_tx_msg_for_snk d))) = 1
        \<and> pd_header_type (header (rx_msg (tcpmtest_process_tx_msg_for_snk d)))
            = PD_DATA_SINK_CAP)"
  using snk_control_reactions [OF assms] src_control_reactions [OF assms]
  by (auto simp add: hard_reset_from_peer mk_snk_sink_cap_staged)

theorem control_message_reactions_witness:
  "tcpmtest_process_tx_msg_for_src (src_running_state\<lparr>tx_msg := ctrl_message PD_CTRL_PING\<rparr>)
     = src_running_state\<lparr>tx_msg := ctrl_message PD_CTRL_PING\<rparr>
   \<and> tcpmtest_process_tx_msg_for_snk (src_running_state\<lparr>tx_msg := ctrl_message PD_CTRL_ACCEPT\<rparr>)
     = src_running_state\<lparr>tx_msg := ctrl_message PD_CTRL_ACCEPT\<rparr>
   \<and> tcpmtest_process_tx_msg_for_src (src_running_state\<lparr>tx_msg := ctrl_message PD_CTRL_ACCEPT\<rparr>)
     = src_running_state\<lparr>tx_msg := ctrl_message PD_CTRL_ACCEPT,
         request := request_word_zero, rx_id := 0,
         calls := calls src_running_state @ [Tcpm_pd_hard_reset]\<rparr>
   \<and> tcpmtest_process_tx_msg_for_snk (src_running_state\<lparr>tx_msg := ctrl_message PD_CTRL_PR_SWAP\<rparr>)
     = src_running_state\<lparr>tx_msg := ctrl_message PD_CTRL_PR_SWAP,
         request := request_word_zero, rx_id := 0,
         calls := calls src_running_state @ [Tcpm_pd_hard_reset]\<rparr>
   \<and> tcpmtest_process_tx_msg_for_src
       (src_running_state\<lparr>tx_msg := ctrl_message PD_CTRL_SOFT_RESET\<rparr>)
     = src_running_state\<lparr>tx_msg := ctrl_message PD_CTRL_SOFT_RESET, rx_id := 0\<rparr>
   \<and> rx_msg (tcpmtest_process_tx_msg_for_snk
       (src_running_state\<lparr>tx_msg := ctrl_message PD_CTRL_GET_SINK_CAP\<rparr>))
     = \<lparr>header = 0x1644, payload = [0x040190C8, 0, 0, 0, 0, 0, 0]\<rparr>"
  using control_message_reactions [of "src_running_state\<lparr>tx_msg := ctrl_message PD_CTRL_PING\<rparr>"]
    control_message_reactions [of "src_running_state\<lparr>tx_msg := ctrl_message PD_CTRL_ACCEPT\<rparr>"]
    control_message_reactions [of "src_running_state\<lparr>tx_msg := ctrl_message PD_CTRL_PR_SWAP\<rparr>"]
    control_message_reactions
      [of "src_running_state\<lparr>tx_msg := ctrl_message PD_CTRL_SOFT_RESET\<rparr>"]
    control_message_reactions
      [of "src_running_state\<lparr>tx_msg := ctrl_message PD_CTRL_GET_SINK_CAP\<rparr>"]
  by (simp add: example_defs pm_message_def request_word_zero_def tcpmtest_probe_def pd_defs
      tcpmtest_mk_snk_sink_cap_def)

text \<open>
  C2 as stated fails for Accept in the Source role: in \<open>src_running_state\<close> an Accept
  control message (header \<open>0x43\<close>, no data objects) is not absorbed; the simulator
  clears the request flags and the message-ID counter and notifies a hard reset.
\<close>

theorem accept_in_source_role_counterexample:
  "header (ctrl_message PD_CTRL_ACCEPT) = 0x43
   \<and> pd_header_cnt (header (ctrl_message PD_CTRL_ACCEPT)) = 0
   \<and> pd_header_type (header (ctrl_message PD_CTRL_ACCEPT)) = PD_CTRL_ACCEPT
   \<and> tx_type src_running_state = TCPC_TX_SOP
   \<and> sysfs_mode src_running_state = TESTMODE_SRC
   \<and> rx_id src_running_state = 3
   \<and> tcpmtest_process_tx_msg_for_src (src_running_state\<lparr>tx_msg := ctrl_message PD_CTRL_ACCEPT\<rparr>)
       \<noteq> src_running_state\<lparr>tx_msg := ctrl_message PD_CTRL_ACCEPT\<rparr>
   \<and> rx_id (tcpmtest_process_tx_msg_for_src
        (src_running_state\<lparr>tx_msg := ctrl_message PD_CTRL_ACCEPT\<rparr>)) = 0
   \<and> calls (tcpmtest_process_tx_msg_for_src
        (src_running_state\<lparr>tx_msg := ctrl_message PD_CTRL_ACCEPT\<rparr>))
       = calls src_running_state @ [Tcpm_pd_hard_reset]"
  by (simp add: example_defs driver_defs pd_defs Let_def)




text \<open>
  C4, as the code has it. When the event work processes a latched mode-change request
  it clears the latch and then: with the active mode None and Sink (respectively Source)
  requested, it records the new mode and enters \<^verbatim>\<open>SSTATE_SNK_START\<close> (respectively
  \<^verbatim>\<open>SSTATE_SRC_START\<close>); with None or Reset requested while the active mode is not None,
  it enters \<^verbatim>\<open>SSTATE_TO_NONE\<close>; every other combination (Sink or Source requested while a
  session is active, and None or Reset requested while the active mode is already None)
  leaves mode and state unchanged. In every state the driver reaches from \<^verbatim>\<open>probe\<close>, by
  any sequence of mode writes, Port Manager calls, event-work and timeout-work runs, the
  state belongs to the active mode (\<open>session_inv\<close>), so a mode-change arms a new
  session only when the state machine is in \<^verbatim>\<open>SSTATE_NONE\<close>.
\<close>

theorem mode_change_dispatch:
  "tcpmtest_event_work_mode_set d =
     (if \<not> mode_set (request d) then d
      else if sysfs_mode d = TESTMODE_NONE \<and> sysfs_mode_req d = TESTMODE_SNK
        then d\<lparr>request := (request d)\<lparr>mode_set := False\<rparr>,
               sysfs_mode := TESTMODE_SNK, state := SSTATE_SNK_START\<rparr>
      else if sysfs_mode d = TESTMODE_NONE \<and> sysfs_mode_req d = TESTMODE_SRC
        then d\<lparr>request := (request d)\<lparr>mode_set := False\<rparr>,
               sysfs_mode := TESTMODE_SRC, state := SSTATE_SRC_START\<rparr>
      else if sysfs_mode d \<noteq> TESTMODE_NONE
              \<and> (sysfs_mode_req d = TESTMODE_NONE \<or> sysfs_mode_req d = TESTMODE_RESET)
        then d\<lparr>request := (request d)\<lparr>mode_set := False\<rparr>, state := SSTATE_TO_NONE\<rparr>
      else d\<lparr>request := (request d)\<lparr>mode_set := False\<rparr>\<rparr>)
   \<and> (run es tcpmtest_probe = Some d \<longrightarrow>
        session_inv d
        \<and> (sysfs_mode (tcpmtest_event_work_mode_set d) \<noteq> sysfs_mode d \<longrightarrow>
             sysfs_mode d = TESTMODE_NONE \<and> state d = SSTATE_NONE
             \<and> state (tcpmtest_event_work_mode_set d) \<in> {SSTATE_SNK_START, SSTATE_SRC_START}))"
proof (intro conjI impI)
  show eq: "tcpmtest_event_work_mode_set d =
     (if \<not> mode_set (request d) then d
      else if sysfs_mode d = TESTMODE_NONE \<and> sysfs_mode_req d = TESTMODE_SNK
        then d\<lparr>request := (request d)\<lparr>mode_set := False\<rparr>,
               sysfs_mode := TESTMODE_SNK, state := SSTATE_SNK_START\<rparr>
      else if sysfs_mode d = TESTMODE_NONE \<and> sysfs_mode_req d = TESTMODE_SRC
        then d\<lparr>request := (request d)\<lparr>mode_set := False\<rparr>,
               sysfs_mode := TESTMODE_SRC, state := SSTATE_SRC_START\<rparr>
      else if sysfs_mode d \<noteq> TESTMODE_NONE
              \<and> (sysfs_mode_req d = TESTMODE_NONE \<or> sysfs_mode_req d = TESTMODE_RESET)
        then d\<lparr>request := (request d)\<lparr>mode_set := False\<rparr>, state := SSTATE_TO_NONE\<rparr>
      else d\<lparr>request := (request d)\<lparr>mode_set := False\<rparr>\<rparr>)"
    by (cases "sysfs_mode_req d")
      (simp_all add: tcpmtest_event_work_mode_set_def Let_def)
  assume "run es tcpmtest_probe = Some d"
  with session_inv_probe show inv: "session_inv d" by (rule session_inv_run)
  assume changed: "sysfs_mode (tcpmtest_event_work_mode_set d) \<noteq> sysfs_mode d"
  then show none: "sysfs_mode d = TESTMODE_NONE"
    by (simp add: eq split: if_splits)
  with inv show "state d = SSTATE_NONE"
    by (simp add: session_inv_def)
  from changed none
  show "state (tcpmtest_event_work_mode_set d) \<in> {SSTATE_SNK_START, SSTATE_SRC_START}"
    by (simp add: eq split: if_splits)
qed

text \<open>
  The theorem on a run: the operator writes \<^verbatim>\<open>snk\<close> and then, with the Sink session
  active, \<^verbatim>\<open>src\<close>; the second request is dropped and the Sink session goes on.
\<close>

theorem mode_change_dispatch_witness:
  "run [Sysfs_store ''snk'', Event_work, Sysfs_store ''src''] tcpmtest_probe =
     Some (snk_attached_state
            \<lparr>sysfs_mode_req := TESTMODE_SRC,
             request := request_word_zero\<lparr>mode_set := True\<rparr>,
             calls := calls snk_attached_state @ [Queue_work]\<rparr>)
   \<and> session_inv (snk_attached_state
            \<lparr>sysfs_mode_req := TESTMODE_SRC,
             request := request_word_zero\<lparr>mode_set := True\<rparr>,
             calls := calls snk_attached_state @ [Queue_work]\<rparr>)
   \<and> tcpmtest_event_work_mode_set
        (snk_attached_state
            \<lparr>sysfs_mode_req := TESTMODE_SRC,
             request := request_word_zero\<lparr>mode_set := True\<rparr>,
             calls := calls snk_attached_state @ [Queue_work]\<rparr>)
      = snk_attached_state
            \<lparr>sysfs_mode_req := TESTMODE_SRC,
             calls := calls snk_attached_state @ [Queue_work]\<rparr>
   \<and> sysfs_mode snk_attached_state = TESTMODE_SNK
   \<and> state snk_attached_state = SSTATE_SNK_RUN"
proof -
  have r: "run [Sysfs_store ''snk'', Event_work, Sysfs_store ''src''] tcpmtest_probe =
     Some (snk_attached_state
            \<lparr>sysfs_mode_req := TESTMODE_SRC,
             request := request_word_zero\<lparr>mode_set := True\<rparr>,
             calls := calls snk_attached_state @ [Queue_work]\<rparr>)"
    by (simp add: example_defs driver_defs Let_def)
  from mode_change_dispatch
    [of "snk_attached_state
            \<lparr>sysfs_mode_req := TESTMODE_SRC,
             request := request_word_zero\<lparr>mode_set := True\<rparr>,
             calls := calls snk_attached_state @ [Queue_work]\<rparr>"
        "[Sysfs_store ''snk'', Event_work, Sysfs_store ''src'']"] r
  show ?thesis
    by (simp add: example_defs tcpmtest_probe_def request_word_zero_def)
qed

text \<open>
  C4 as stated fails for "None or Reset from any state": in the state after \<^verbatim>\<open>probe\<close>
  (mode None, \<^verbatim>\<open>SSTATE_NONE\<close>) the operator writes \<^verbatim>\<open>reset\<close>; the mode-change block
  clears the latch and leaves the state at \<^verbatim>\<open>SSTATE_NONE\<close>, so \<^verbatim>\<open>SSTATE_TO_NONE\<close> is not
  entered and the whole event work notifies nothing.
\<close>

theorem reset_request_while_idle_counterexample:
  "run [Sysfs_store ''reset''] tcpmtest_probe =
     Some (tcpmtest_probe\<lparr>sysfs_mode_req := TESTMODE_RESET,
             request := request_word_zero\<lparr>mode_set := True\<rparr>, calls := [Queue_work]\<rparr>)
   \<and> tcpmtest_event_work_mode_set
        (tcpmtest_probe\<lparr>sysfs_mode_req := TESTMODE_RESET,
           request := request_word_zero\<lparr>mode_set := True\<rparr>, calls := [Queue_work]\<rparr>)
      = tcpmtest_probe\<lparr>sysfs_mode_req := TESTMODE_RESET, calls := [Queue_work]\<rparr>
   \<and> state (tcpmtest_probe\<lparr>sysfs_mode_req := TESTMODE_RESET, calls := [Queue_work]\<rparr>)
      \<noteq> SSTATE_TO_NONE
   \<and> run [Sysfs_store ''reset'', Event_work] tcpmtest_probe =
     Some (tcpmtest_probe\<lparr>sysfs_mode_req := TESTMODE_RESET, calls := [Queue_work]\<rparr>)"
  by (simp add: driver_defs Let_def)

text \<open>
  C5. Every synthesizer writes the low three bits of the counter \<^verbatim>\<open>rx_id\<close> into the
  message-ID field of the header and increments the counter: after any sequence
  \<open>fs\<close> of synthesized messages, the next message carries the ID
  \<open>(rx_id + length fs) mod 8\<close>, so the IDs go up by one modulo 8.
  In a session, every step of the driver (a write to the mode attribute, an operation
  called by the Port Manager, a run of the event work or of the timeout work) that is
  one of the events of \<open>counter_reset_event\<close> (a hard reset processed from the Port
  Manager, a hard reset notified from the simulated peer, a SoftReset processed, the end
  of the session in \<^verbatim>\<open>SSTATE_TO_NONE\<close>) sets the counter to zero, after which the state
  machine may stage one message, with ID 0; every other step keeps the counter or stages
  one or two messages with the next IDs. Steps other than the two works keep the counter
  and are no such event. A transmit with a message present latches the message for the
  event work, so that a SoftReset, or a hard reset that comes with a message, transmitted
  in an active session is followed by a counter of zero. A transmit without a message,
  which is how the Port Manager sends a hard reset, is an invalid access in
  \<^verbatim>\<open>tcpmtest_log_msg\<close>: the run ends there and the counter is not set to zero.
\<close>

theorem message_id_counter_in_session:
  "(set fs \<subseteq> set synthesizers \<and> f \<in> set synthesizers \<longrightarrow>
      rx_id (f (synthesize_all fs d)) = rx_id d + of_nat (length fs) + 1
      \<and> unat (pd_header_id (header (rx_msg (f (synthesize_all fs d)))))
          = (unat (rx_id d) + length fs) mod 8)
   \<and> (step e d = Some d' \<longrightarrow>
      (if counter_reset_event e d d'
       then rx_id d' = 0
            \<or> (rx_id d' = 1 \<and> msg_rx (request d')
                \<and> pd_header_id (header (rx_msg d')) = 0)
       else rx_id d' = rx_id d
            \<or> (rx_id d' = rx_id d + 1 \<and> msg_rx (request d')
                \<and> pd_header_id (header (rx_msg d')) = rx_id d AND 7)
            \<or> (rx_id d' = rx_id d + 2 \<and> msg_rx (request d')
                \<and> pd_header_id (header (rx_msg d')) = (rx_id d + 1) AND 7)))
   \<and> (e \<noteq> Event_work \<and> e \<noteq> Tmo_work \<and> step e d = Some d' \<longrightarrow>
      rx_id d' = rx_id d \<and> rx_msg d' = rx_msg d \<and> \<not> counter_reset_event e d d')
   \<and> (step (Pd_transmit ty (Some m)) d = Some d' \<longrightarrow>
      tx_type d' = ty \<and> tx_msg d' = m \<and> msg_tx (request d')
      \<and> sysfs_mode d' = sysfs_mode d \<and> state d' = state d
      \<and> mode_set (request d') = mode_set (request d))
   \<and> ((sysfs_mode d = TESTMODE_SNK \<or> sysfs_mode d = TESTMODE_SRC)
        \<and> \<not> mode_set (request d)
        \<and> (ty = TCPC_TX_HARD_RESET
            \<or> (ty = TCPC_TX_SOP \<and> pd_header_cnt (header m) = 0
                \<and> pd_header_type (header m) = PD_CTRL_SOFT_RESET)) \<longrightarrow>
      (case run [Pd_transmit ty (Some m), Event_work] d of
         None \<Rightarrow> False
       | Some d2 \<Rightarrow>
           rx_id d2 = 0
           \<or> (rx_id d2 = 1 \<and> msg_rx (request d2)
               \<and> pd_header_id (header (rx_msg d2)) = 0)))
   \<and> run (Pd_transmit ty None # es) d = None"
proof (intro conjI)
  show "set fs \<subseteq> set synthesizers \<and> f \<in> set synthesizers \<longrightarrow>
      rx_id (f (synthesize_all fs d)) = rx_id d + of_nat (length fs) + 1
      \<and> unat (pd_header_id (header (rx_msg (f (synthesize_all fs d)))))
          = (unat (rx_id d) + length fs) mod 8"
  proof (intro impI conjI)
    assume a: "set fs \<subseteq> set synthesizers \<and> f \<in> set synthesizers"
    then have all: "rx_id (synthesize_all fs d) = rx_id d + of_nat (length fs)"
      by (simp add: synthesize_all_rx_id)
    from a show "rx_id (f (synthesize_all fs d)) = rx_id d + of_nat (length fs) + 1"
      by (simp add: synthesizer_consumes_id(1) all)
    from a have "pd_header_id (header (rx_msg (f (synthesize_all fs d))))
        = (rx_id d + of_nat (length fs)) AND 7"
      by (simp add: synthesizer_consumes_id(2) all)
    then show "unat (pd_header_id (header (rx_msg (f (synthesize_all fs d)))))
        = (unat (rx_id d) + length fs) mod 8"
      by (simp only: unat_low3_add)
  qed
next
  show "step e d = Some d' \<longrightarrow>
      (if counter_reset_event e d d'
       then rx_id d' = 0
            \<or> (rx_id d' = 1 \<and> msg_rx (request d')
                \<and> pd_header_id (header (rx_msg d')) = 0)
       else rx_id d' = rx_id d
            \<or> (rx_id d' = rx_id d + 1 \<and> msg_rx (request d')
                \<and> pd_header_id (header (rx_msg d')) = rx_id d AND 7)
            \<or> (rx_id d' = rx_id d + 2 \<and> msg_rx (request d')
                \<and> pd_header_id (header (rx_msg d')) = (rx_id d + 1) AND 7))"
  proof
    assume s: "step e d = Some d'"
    consider (event) "e = Event_work" | (tmo) "e = Tmo_work"
      | (external) "e \<noteq> Event_work" "e \<noteq> Tmo_work"
      by blast
    then show "if counter_reset_event e d d'
       then rx_id d' = 0
            \<or> (rx_id d' = 1 \<and> msg_rx (request d')
                \<and> pd_header_id (header (rx_msg d')) = 0)
       else rx_id d' = rx_id d
            \<or> (rx_id d' = rx_id d + 1 \<and> msg_rx (request d')
                \<and> pd_header_id (header (rx_msg d')) = rx_id d AND 7)
            \<or> (rx_id d' = rx_id d + 2 \<and> msg_rx (request d')
                \<and> pd_header_id (header (rx_msg d')) = (rx_id d + 1) AND 7)"
    proof cases
      case event
      with s have d': "d' = tcpmtest_event_work d" by simp
      show ?thesis unfolding d' event by (rule event_work_counter)
    next
      case tmo
      with s have t: "tcpmtest_tmo_work d = Some d'" by simp
      from tmo tmo_work_counter(1) [OF t]
      have r: "counter_reset_event e d d' \<longleftrightarrow> state d = SSTATE_TO_NONE"
        by (simp add: counter_reset_event_def)
      show ?thesis
      proof (cases "state d = SSTATE_TO_NONE")
        case True
        with tmo_work_counter(2) [OF t] r show ?thesis by simp
      next
        case False
        with tmo_work_counter(3) [OF t] r show ?thesis by auto
      qed
    next
      case external
      from external external_step_frame(4) [OF external s]
      have "\<not> counter_reset_event e d d'"
        by (simp add: counter_reset_event_def)
      with external_step_frame(1) [OF external s] show ?thesis by simp
    qed
  qed
next
  show "e \<noteq> Event_work \<and> e \<noteq> Tmo_work \<and> step e d = Some d' \<longrightarrow>
      rx_id d' = rx_id d \<and> rx_msg d' = rx_msg d \<and> \<not> counter_reset_event e d d'"
  proof (intro impI, elim conjE)
    assume e: "e \<noteq> Event_work" "e \<noteq> Tmo_work" and s: "step e d = Some d'"
    from e external_step_frame(4) [OF e s] have "\<not> counter_reset_event e d d'"
      by (simp add: counter_reset_event_def)
    with external_step_frame(1,2) [OF e s]
    show "rx_id d' = rx_id d \<and> rx_msg d' = rx_msg d \<and> \<not> counter_reset_event e d d'"
      by simp
  qed
next
  show "step (Pd_transmit ty (Some m)) d = Some d' \<longrightarrow>
      tx_type d' = ty \<and> tx_msg d' = m \<and> msg_tx (request d')
      \<and> sysfs_mode d' = sysfs_mode d \<and> state d' = state d
      \<and> mode_set (request d') = mode_set (request d)"
  proof
    assume "step (Pd_transmit ty (Some m)) d = Some d'"
    then have "tcpmtest_pd_transmit d ty (Some m) = Some d'" by simp
    from pd_transmit_latches [OF this]
    show "tx_type d' = ty \<and> tx_msg d' = m \<and> msg_tx (request d')
      \<and> sysfs_mode d' = sysfs_mode d \<and> state d' = state d
      \<and> mode_set (request d') = mode_set (request d)"
      by simp
  qed
next
  show "(sysfs_mode d = TESTMODE_SNK \<or> sysfs_mode d = TESTMODE_SRC)
        \<and> \<not> mode_set (request d)
        \<and> (ty = TCPC_TX_HARD_RESET
            \<or> (ty = TCPC_TX_SOP \<and> pd_header_cnt (header m) = 0
                \<and> pd_header_type (header m) = PD_CTRL_SOFT_RESET)) \<longrightarrow>
      (case run [Pd_transmit ty (Some m), Event_work] d of
         None \<Rightarrow> False
       | Some d2 \<Rightarrow>
           rx_id d2 = 0
           \<or> (rx_id d2 = 1 \<and> msg_rx (request d2)
               \<and> pd_header_id (header (rx_msg d2)) = 0))"
  proof (intro impI, elim conjE)
    assume mode: "sysfs_mode d = TESTMODE_SNK \<or> sysfs_mode d = TESTMODE_SRC"
      and no_set: "\<not> mode_set (request d)"
      and kind: "ty = TCPC_TX_HARD_RESET
            \<or> (ty = TCPC_TX_SOP \<and> pd_header_cnt (header m) = 0
                \<and> pd_header_type (header m) = PD_CTRL_SOFT_RESET)"
    from kind have "tcpmtest_log_msg d ty m = Some d"
      by (auto simp add: log_msg_no_objects) (simp add: tcpmtest_log_msg_def)
    then obtain d1 where t: "tcpmtest_pd_transmit d ty (Some m) = Some d1"
      by (simp add: tcpmtest_pd_transmit_def)
    note l = pd_transmit_latches [OF t]
    from l(7) no_set have ms: "tcpmtest_event_work_mode_set d1 = d1"
      by (simp add: tcpmtest_event_work_mode_set_def)
    from l(3,4) mode have mp: "message_processed d1"
      by (simp add: message_processed_def ms)
    from kind l(1,2) mp
    have "counter_reset_event Event_work d1 (tcpmtest_event_work d1)"
      unfolding counter_reset_event_def by blast
    with event_work_counter [of d1]
    have "rx_id (tcpmtest_event_work d1) = 0
        \<or> (rx_id (tcpmtest_event_work d1) = 1 \<and> msg_rx (request (tcpmtest_event_work d1))
            \<and> pd_header_id (header (rx_msg (tcpmtest_event_work d1))) = 0)"
      by (simp only: if_True)
    then show "case run [Pd_transmit ty (Some m), Event_work] d of
         None \<Rightarrow> False
       | Some d2 \<Rightarrow>
           rx_id d2 = 0
           \<or> (rx_id d2 = 1 \<and> msg_rx (request d2)
               \<and> pd_header_id (header (rx_msg d2)) = 0)"
      by (simp add: t)
  qed
next
  show "run (Pd_transmit ty None # es) d = None"
    by (simp add: tcpmtest_pd_transmit_def)
qed

text \<open>
  The theorem in the Source session that waits for the Request (\<open>src_waiting_state\<close>,
  counter 1): a SoftReset of the Port Manager, and a hard reset that comes with a
  message, are followed by a counter of zero; a hard reset without a message ends the
  run. And with the counter at 6, SourceCapabilities, Accept and PowerReady are
  synthesized with the IDs 6, 7 and 0, and the counter ends at 9.
\<close>

theorem message_id_counter_in_session_witness:
  "sysfs_mode src_waiting_state = TESTMODE_SRC
   \<and> \<not> mode_set (request src_waiting_state)
   \<and> rx_id src_waiting_state = 1
   \<and> pd_header_cnt (header (ctrl_message PD_CTRL_SOFT_RESET)) = 0
   \<and> pd_header_type (header (ctrl_message PD_CTRL_SOFT_RESET)) = PD_CTRL_SOFT_RESET
   \<and> run [Pd_transmit TCPC_TX_SOP (Some (ctrl_message PD_CTRL_SOFT_RESET)), Event_work]
         src_waiting_state
       = Some (src_waiting_state
           \<lparr>tx_msg := ctrl_message PD_CTRL_SOFT_RESET, rx_id := 0,
            calls := calls src_waiting_state
              @ [Queue_work, Tcpm_pd_transmit_complete TCPC_TX_SUCCESS]\<rparr>)
   \<and> run [Pd_transmit TCPC_TX_HARD_RESET (Some (ctrl_message PD_CTRL_SOFT_RESET)), Event_work]
         src_waiting_state
       = Some (src_waiting_state
           \<lparr>tx_type := TCPC_TX_HARD_RESET, tx_msg := ctrl_message PD_CTRL_SOFT_RESET,
            rx_id := 0,
            calls := calls src_waiting_state
              @ [Queue_work, Tcpm_pd_transmit_complete TCPC_TX_SUCCESS]\<rparr>)
   \<and> run [Pd_transmit TCPC_TX_HARD_RESET None, Event_work] src_waiting_state = None
   \<and> set [tcpmtest_mk_src_data_source_cap, tcpmtest_mk_src_accept] \<subseteq> set synthesizers
   \<and> tcpmtest_mk_src_ps_rdy \<in> set synthesizers
   \<and> pd_header_id (header (rx_msg (tcpmtest_mk_src_data_source_cap
        (tcpmtest_probe\<lparr>rx_id := 6\<rparr>)))) = 6
   \<and> pd_header_id (header (rx_msg (tcpmtest_mk_src_accept
        (synthesize_all [tcpmtest_mk_src_data_source_cap] (tcpmtest_probe\<lparr>rx_id := 6\<rparr>))))) = 7
   \<and> unat (pd_header_id (header (rx_msg (tcpmtest_mk_src_ps_rdy
        (synthesize_all [tcpmtest_mk_src_data_source_cap, tcpmtest_mk_src_accept]
           (tcpmtest_probe\<lparr>rx_id := 6\<rparr>)))))) = 0
   \<and> rx_id (tcpmtest_mk_src_ps_rdy
        (synthesize_all [tcpmtest_mk_src_data_source_cap, tcpmtest_mk_src_accept]
           (tcpmtest_probe\<lparr>rx_id := 6\<rparr>))) = 9"
proof -
  have soft: "run [Pd_transmit TCPC_TX_SOP (Some (ctrl_message PD_CTRL_SOFT_RESET)), Event_work]
         src_waiting_state
       = Some (src_waiting_state
           \<lparr>tx_msg := ctrl_message PD_CTRL_SOFT_RESET, rx_id := 0,
            calls := calls src_waiting_state
              @ [Queue_work, Tcpm_pd_transmit_complete TCPC_TX_SUCCESS]\<rparr>)"
    by (simp add: example_defs driver_defs pd_defs Let_def)
  have hard: "run [Pd_transmit TCPC_TX_HARD_RESET (Some (ctrl_message PD_CTRL_SOFT_RESET)),
               Event_work] src_waiting_state
       = Some (src_waiting_state
           \<lparr>tx_type := TCPC_TX_HARD_RESET, tx_msg := ctrl_message PD_CTRL_SOFT_RESET,
            rx_id := 0,
            calls := calls src_waiting_state
              @ [Queue_work, Tcpm_pd_transmit_complete TCPC_TX_SUCCESS]\<rparr>)"
    by (simp add: example_defs driver_defs pd_defs Let_def)
  have facts: "sysfs_mode src_waiting_state = TESTMODE_SRC
   \<and> \<not> mode_set (request src_waiting_state)
   \<and> rx_id src_waiting_state = 1
   \<and> pd_header_cnt (header (ctrl_message PD_CTRL_SOFT_RESET)) = 0
   \<and> pd_header_type (header (ctrl_message PD_CTRL_SOFT_RESET)) = PD_CTRL_SOFT_RESET"
    by (simp add: example_defs pm_message_def request_word_zero_def pd_defs)
  have none: "run [Pd_transmit TCPC_TX_HARD_RESET None, Event_work] src_waiting_state = None"
    using message_id_counter_in_session
      [of "[]" tcpmtest_mk_src_ps_rdy src_waiting_state Event_work src_waiting_state
          TCPC_TX_HARD_RESET "ctrl_message PD_CTRL_SOFT_RESET" "[Event_work]"]
    by (simp only: simp_thms)
  have ids: "set [tcpmtest_mk_src_data_source_cap, tcpmtest_mk_src_accept] \<subseteq> set synthesizers
   \<and> tcpmtest_mk_src_ps_rdy \<in> set synthesizers
   \<and> pd_header_id (header (rx_msg (tcpmtest_mk_src_data_source_cap
        (tcpmtest_probe\<lparr>rx_id := 6\<rparr>)))) = 6
   \<and> pd_header_id (header (rx_msg (tcpmtest_mk_src_accept
        (synthesize_all [tcpmtest_mk_src_data_source_cap] (tcpmtest_probe\<lparr>rx_id := 6\<rparr>))))) = 7
   \<and> unat (pd_header_id (header (rx_msg (tcpmtest_mk_src_ps_rdy
        (synthesize_all [tcpmtest_mk_src_data_source_cap, tcpmtest_mk_src_accept]
           (tcpmtest_probe\<lparr>rx_id := 6\<rparr>)))))) = 0
   \<and> rx_id (tcpmtest_mk_src_ps_rdy
        (synthesize_all [tcpmtest_mk_src_data_source_cap, tcpmtest_mk_src_accept]
           (tcpmtest_probe\<lparr>rx_id := 6\<rparr>))) = 9"
    using message_id_counter_in_session
      [of "[tcpmtest_mk_src_data_source_cap, tcpmtest_mk_src_accept]" tcpmtest_mk_src_ps_rdy
          "tcpmtest_probe\<lparr>rx_id := 6\<rparr>", THEN conjunct1]
    by (simp add: synthesizers_def tcpmtest_probe_def tcpmtest_mk_src_data_source_cap_def
        tcpmtest_mk_src_accept_def tcpmtest_mk_src_ps_rdy_def pd_header_id_LE)
  from facts soft hard none ids show ?thesis by (simp only: simp_thms)
qed

text \<open>
  C6. One step of the state machine from \<^verbatim>\<open>SSTATE_SNK_START\<close> clears VBUS-present, sets
  CC1 to Rd and CC2 to Ra, notifies the Port Manager of the CC change and moves to
  \<^verbatim>\<open>SSTATE_SNK_RUN\<close>. A SourceCapabilities data message transmitted over SOP makes the
  Sink classifier stage a Request: a data message with one data object, an RDO selecting
  object position 1 with operating and maximum current 1500 mA and the USB-communications
  flag. From \<^verbatim>\<open>probe\<close>: after the operator writes \<^verbatim>\<open>snk\<close> and the event work runs, the
  driver is in \<open>snk_attached_state\<close>; after the Port Manager transmits any
  SourceCapabilities message and the event work runs again, that Request (header
  \<open>0x1042\<close>, RDO \<open>0x12025896\<close>) is staged and the timeout work is armed.
\<close>

theorem sink_attach_then_request:
  "(state d = SSTATE_SNK_START \<longrightarrow>
      tcpmtest_state_machine d timeout =
        d\<lparr>vbus_present := False, cc1_status := TYPEC_CC_RD, cc2_status := TYPEC_CC_RA,
          calls := calls d @ [Tcpm_cc_change], state := SSTATE_SNK_RUN\<rparr>)
   \<and> (tx_type d = TCPC_TX_SOP \<and> pd_header_cnt (header (tx_msg d)) \<noteq> 0
        \<and> pd_header_type (header (tx_msg d)) = PD_DATA_SOURCE_CAP \<longrightarrow>
      tcpmtest_process_tx_msg_for_snk d = tcpmtest_mk_snk_request d
      \<and> msg_rx (request (tcpmtest_process_tx_msg_for_snk d))
      \<and> pd_header_type (header (rx_msg (tcpmtest_process_tx_msg_for_snk d))) = PD_DATA_REQUEST
      \<and> pd_header_cnt (header (rx_msg (tcpmtest_process_tx_msg_for_snk d))) = 1
      \<and> (payload (rx_msg d) \<noteq> [] \<longrightarrow>
          rdo_index (payload (rx_msg (tcpmtest_process_tx_msg_for_snk d)) ! 0) = 1
          \<and> rdo_op_current (payload (rx_msg (tcpmtest_process_tx_msg_for_snk d)) ! 0) = 1500
          \<and> rdo_max_current (payload (rx_msg (tcpmtest_process_tx_msg_for_snk d)) ! 0) = 1500
          \<and> payload (rx_msg (tcpmtest_process_tx_msg_for_snk d)) ! 0 AND RDO_USB_COMM \<noteq> 0))
   \<and> run [Sysfs_store ''snk'', Event_work] tcpmtest_probe = Some snk_attached_state
   \<and> (pd_header_cnt (header m) \<noteq> 0 \<and> pd_header_type (header m) = PD_DATA_SOURCE_CAP \<longrightarrow>
        (\<exists>c. run [Pd_transmit TCPC_TX_SOP (Some m), Event_work] snk_attached_state =
          Some (snk_attached_state
                 \<lparr>src_cap_pdo_type := c,
                  tx_msg := m,
                  rx_msg := \<lparr>header = 0x1042, payload = [0x12025896, 0, 0, 0, 0, 0, 0]\<rparr>,
                  rx_id := 1,
                  request := request_word_zero\<lparr>msg_rx := True\<rparr>,
                  calls := calls snk_attached_state @
                    [Queue_work, Tcpm_pd_transmit_complete TCPC_TX_SUCCESS,
                     Mod_delayed_work SRC_RESP_DELAY]\<rparr>)))"
proof (intro conjI impI)
  assume "state d = SSTATE_SNK_START"
  then show "tcpmtest_state_machine d timeout =
        d\<lparr>vbus_present := False, cc1_status := TYPEC_CC_RD, cc2_status := TYPEC_CC_RA,
          calls := calls d @ [Tcpm_cc_change], state := SSTATE_SNK_RUN\<rparr>"
    by (simp add: tcpmtest_state_machine_def)
next
  assume a: "tx_type d = TCPC_TX_SOP \<and> pd_header_cnt (header (tx_msg d)) \<noteq> 0
        \<and> pd_header_type (header (tx_msg d)) = PD_DATA_SOURCE_CAP"
  then show eq: "tcpmtest_process_tx_msg_for_snk d = tcpmtest_mk_snk_request d"
    by (simp add: tcpmtest_process_tx_msg_for_snk_def Let_def pd_msg_types)
  show "msg_rx (request (tcpmtest_process_tx_msg_for_snk d))"
    "pd_header_type (header (rx_msg (tcpmtest_process_tx_msg_for_snk d))) = PD_DATA_REQUEST"
    "pd_header_cnt (header (rx_msg (tcpmtest_process_tx_msg_for_snk d))) = 1"
    by (simp_all add: eq tcpmtest_mk_snk_request_def pd_header_type_LE pd_header_cnt_LE
        PD_DATA_REQUEST_def)
  assume "payload (rx_msg d) \<noteq> []"
  then have "payload (rx_msg (tcpmtest_process_tx_msg_for_snk d)) ! 0
      = RDO_FIXED 1 1500 1500 RDO_USB_COMM"
    by (simp add: eq tcpmtest_mk_snk_request_def)
  then show "rdo_index (payload (rx_msg (tcpmtest_process_tx_msg_for_snk d)) ! 0) = 1"
    "rdo_op_current (payload (rx_msg (tcpmtest_process_tx_msg_for_snk d)) ! 0) = 1500"
    "rdo_max_current (payload (rx_msg (tcpmtest_process_tx_msg_for_snk d)) ! 0) = 1500"
    "payload (rx_msg (tcpmtest_process_tx_msg_for_snk d)) ! 0 AND RDO_USB_COMM \<noteq> 0"
    by (simp_all add: snk_request_rdo)
next
  show "run [Sysfs_store ''snk'', Event_work] tcpmtest_probe = Some snk_attached_state"
    by (simp add: example_defs driver_defs Let_def)
next
  assume m: "pd_header_cnt (header m) \<noteq> 0 \<and> pd_header_type (header m) = PD_DATA_SOURCE_CAP"
  then have "pd_header_type (header m) \<noteq> PD_DATA_REQUEST"
    by (simp add: pd_msg_types)
  from log_msg_no_request [OF this] obtain c where
    log: "tcpmtest_log_msg snk_attached_state TCPC_TX_SOP m
            = Some (snk_attached_state\<lparr>src_cap_pdo_type := c\<rparr>)"
    by blast
  have "run [Pd_transmit TCPC_TX_SOP (Some m), Event_work] snk_attached_state =
          Some (snk_attached_state
                 \<lparr>src_cap_pdo_type := c,
                  tx_msg := m,
                  rx_msg := \<lparr>header = 0x1042, payload = [0x12025896, 0, 0, 0, 0, 0, 0]\<rparr>,
                  rx_id := 1,
                  request := request_word_zero\<lparr>msg_rx := True\<rparr>,
                  calls := calls snk_attached_state @
                    [Queue_work, Tcpm_pd_transmit_complete TCPC_TX_SUCCESS,
                     Mod_delayed_work SRC_RESP_DELAY]\<rparr>)"
    using m
    apply (simp add: tcpmtest_pd_transmit_def log)
    apply (simp add: tcpmtest_event_work_def
        tcpmtest_event_work_mode_set_def tcpmtest_event_work_vbus_chng_def
        tcpmtest_event_work_msg_tx_def tcpmtest_state_machine_def
        tcpmtest_process_tx_msg_for_snk_def tcpmtest_mk_snk_request_def Let_def
        snk_attached_state_def tcpmtest_probe_def request_word_zero_def pd_defs)
    done
  then show "\<exists>c. run [Pd_transmit TCPC_TX_SOP (Some m), Event_work] snk_attached_state =
          Some (snk_attached_state
                 \<lparr>src_cap_pdo_type := c,
                  tx_msg := m,
                  rx_msg := \<lparr>header = 0x1042, payload = [0x12025896, 0, 0, 0, 0, 0, 0]\<rparr>,
                  rx_id := 1,
                  request := request_word_zero\<lparr>msg_rx := True\<rparr>,
                  calls := calls snk_attached_state @
                    [Queue_work, Tcpm_pd_transmit_complete TCPC_TX_SUCCESS,
                     Mod_delayed_work SRC_RESP_DELAY]\<rparr>)"
    by blast
qed

theorem sink_attach_then_request_witness:
  "tcpmtest_state_machine (tcpmtest_probe\<lparr>state := SSTATE_SNK_START\<rparr>) False =
     tcpmtest_probe\<lparr>cc1_status := TYPEC_CC_RD, cc2_status := TYPEC_CC_RA,
       calls := [Tcpm_cc_change], state := SSTATE_SNK_RUN\<rparr>
   \<and> rx_msg (tcpmtest_process_tx_msg_for_snk (snk_attached_state\<lparr>tx_msg := source_cap_message\<rparr>))
       = \<lparr>header = 0x1042, payload = [0x12025896, 0, 0, 0, 0, 0, 0]\<rparr>
   \<and> rdo_index 0x12025896 = 1 \<and> rdo_op_current 0x12025896 = 1500
   \<and> rdo_max_current 0x12025896 = 1500 \<and> 0x12025896 AND RDO_USB_COMM \<noteq> 0
   \<and> (\<exists>c. run [Pd_transmit TCPC_TX_SOP (Some source_cap_message), Event_work]
            snk_attached_state =
          Some (snk_attached_state
                 \<lparr>src_cap_pdo_type := c,
                  tx_msg := source_cap_message,
                  rx_msg := \<lparr>header = 0x1042, payload = [0x12025896, 0, 0, 0, 0, 0, 0]\<rparr>,
                  rx_id := 1,
                  request := request_word_zero\<lparr>msg_rx := True\<rparr>,
                  calls := calls snk_attached_state @
                    [Queue_work, Tcpm_pd_transmit_complete TCPC_TX_SUCCESS,
                     Mod_delayed_work SRC_RESP_DELAY]\<rparr>))"
  using sink_attach_then_request
    [of "tcpmtest_probe\<lparr>state := SSTATE_SNK_START\<rparr>" False source_cap_message]
    sink_attach_then_request
    [of "snk_attached_state\<lparr>tx_msg := source_cap_message\<rparr>" False source_cap_message]
  by (simp add: example_defs pm_message_def tcpmtest_probe_def pd_defs
      tcpmtest_mk_snk_request_def)

text \<open>
  C7. For every pair of booleans, \<^verbatim>\<open>tcpmtest_set_vbus\<close> leaves the stored VBUS-present
  value equal to \<open>source \<or> sink\<close>; it latches the VBUS-change request and queues the
  event work exactly when that value differs from the stored one, and otherwise changes
  nothing; a second call with the same pair changes nothing, so two calls in a row queue
  at most one dispatch.
\<close>

theorem tcpmtest_set_vbus_latches_on_change:
  "vbus_present (tcpmtest_set_vbus d source sink) = (source \<or> sink)
   \<and> tcpmtest_set_vbus d source sink =
       (if (source \<or> sink) \<noteq> vbus_present d
        then d\<lparr>request := (request d)\<lparr>vbus_chng := True\<rparr>,
               vbus_present := (source \<or> sink),
               calls := calls d @ [Queue_work]\<rparr>
        else d)
   \<and> tcpmtest_set_vbus (tcpmtest_set_vbus d source sink) source sink
       = tcpmtest_set_vbus d source sink
   \<and> length (calls (tcpmtest_set_vbus (tcpmtest_set_vbus d source sink) source sink))
       \<le> length (calls d) + 1"
  by (simp add: tcpmtest_set_vbus_def Let_def)

text \<open>
  C8. The step of the state machine from \<^verbatim>\<open>SSTATE_TO_NONE\<close> clears VBUS-present, sets
  both CC lines to Open, clears all request flags and the message-ID counter, notifies
  the Port Manager of a controller reset when the requested mode is Reset and of a CC
  change otherwise, sets the active mode to None and lands in \<^verbatim>\<open>SSTATE_NONE\<close>. When the
  event work processes a latched mode-change to Reset or None while a session is active,
  the whole pass ends in that state: whatever else was pending, the last call is the
  one notification (controller reset for Reset, CC change for None), and no other
  controller-reset or CC-change notification is made in the pass.
\<close>

theorem transition_to_idle_resets:
  "(state d = SSTATE_TO_NONE \<longrightarrow>
      tcpmtest_state_machine d timeout =
        d\<lparr>vbus_present := False, cc1_status := TYPEC_CC_OPEN, cc2_status := TYPEC_CC_OPEN,
          request := request_word_zero, rx_id := 0,
          calls := calls d @ [if sysfs_mode_req d = TESTMODE_RESET then Tcpm_tcpc_reset
                              else Tcpm_cc_change],
          sysfs_mode := TESTMODE_NONE, state := SSTATE_NONE\<rparr>)
   \<and> (mode_set (request d) \<and> sysfs_mode d \<noteq> TESTMODE_NONE
        \<and> (sysfs_mode_req d = TESTMODE_RESET \<or> sysfs_mode_req d = TESTMODE_NONE) \<longrightarrow>
      state (tcpmtest_event_work d) = SSTATE_NONE
      \<and> sysfs_mode (tcpmtest_event_work d) = TESTMODE_NONE
      \<and> vbus_present (tcpmtest_event_work d) = False
      \<and> cc1_status (tcpmtest_event_work d) = TYPEC_CC_OPEN
      \<and> cc2_status (tcpmtest_event_work d) = TYPEC_CC_OPEN
      \<and> request (tcpmtest_event_work d) = request_word_zero
      \<and> rx_id (tcpmtest_event_work d) = 0
      \<and> (\<exists>pre. calls (tcpmtest_event_work d) =
                  calls d @ pre @ [if sysfs_mode_req d = TESTMODE_RESET then Tcpm_tcpc_reset
                                   else Tcpm_cc_change]
               \<and> Tcpm_tcpc_reset \<notin> set pre \<and> Tcpm_cc_change \<notin> set pre))"
proof (intro conjI impI)
  assume "state d = SSTATE_TO_NONE"
  then show "tcpmtest_state_machine d timeout =
        d\<lparr>vbus_present := False, cc1_status := TYPEC_CC_OPEN, cc2_status := TYPEC_CC_OPEN,
          request := request_word_zero, rx_id := 0,
          calls := calls d @ [if sysfs_mode_req d = TESTMODE_RESET then Tcpm_tcpc_reset
                              else Tcpm_cc_change],
          sysfs_mode := TESTMODE_NONE, state := SSTATE_NONE\<rparr>"
    by (rule state_machine_TO_NONE)
next
  assume a: "mode_set (request d) \<and> sysfs_mode d \<noteq> TESTMODE_NONE
        \<and> (sysfs_mode_req d = TESTMODE_RESET \<or> sysfs_mode_req d = TESTMODE_NONE)"
  define d1 where "d1 = tcpmtest_event_work_mode_set d"
  define d2 where "d2 = tcpmtest_event_work_vbus_chng d1"
  define d3 where "d3 = tcpmtest_event_work_msg_tx d2"
  define ntf where "ntf = (if sysfs_mode_req d = TESTMODE_RESET then Tcpm_tcpc_reset
                              else Tcpm_cc_change)"
  from a have d1: "state d1 = SSTATE_TO_NONE" "sysfs_mode_req d1 = sysfs_mode_req d"
    "calls d1 = calls d"
    by (auto simp add: d1_def tcpmtest_event_work_mode_set_def Let_def)
  obtain ys where d2: "state d2 = SSTATE_TO_NONE" "sysfs_mode_req d2 = sysfs_mode_req d"
    "calls d2 = calls d @ ys" "Tcpm_tcpc_reset \<notin> set ys" "Tcpm_cc_change \<notin> set ys"
  proof (cases "vbus_chng (request d1)")
    case True
    with d1 that [of "[Tcpm_vbus_change]"] show ?thesis
      by (simp add: d2_def tcpmtest_event_work_vbus_chng_def)
  next
    case False
    with d1 that [of "[]"] show ?thesis
      by (simp add: d2_def tcpmtest_event_work_vbus_chng_def)
  qed
  from event_work_msg_tx_calls [of d2] obtain xs where
    xs: "calls d3 = calls d2 @ xs" "Tcpm_tcpc_reset \<notin> set xs" "Tcpm_cc_change \<notin> set xs"
    unfolding d3_def by blast
  from d2 have d3: "state d3 = SSTATE_TO_NONE" "sysfs_mode_req d3 = sysfs_mode_req d"
    by (simp_all add: d3_def event_work_msg_tx_frame)
  have ew: "tcpmtest_event_work d =
      d3\<lparr>vbus_present := False, cc1_status := TYPEC_CC_OPEN, cc2_status := TYPEC_CC_OPEN,
        request := request_word_zero, rx_id := 0,
        calls := calls d3 @ [ntf],
        sysfs_mode := TESTMODE_NONE, state := SSTATE_NONE\<rparr>"
    using state_machine_TO_NONE [OF d3(1), of False] d3(2)
    by (simp add: tcpmtest_event_work_def Let_def d1_def [symmetric] d2_def [symmetric]
        d3_def [symmetric] ntf_def request_word_zero_def)
  show "state (tcpmtest_event_work d) = SSTATE_NONE"
    "sysfs_mode (tcpmtest_event_work d) = TESTMODE_NONE"
    "vbus_present (tcpmtest_event_work d) = False"
    "cc1_status (tcpmtest_event_work d) = TYPEC_CC_OPEN"
    "cc2_status (tcpmtest_event_work d) = TYPEC_CC_OPEN"
    "request (tcpmtest_event_work d) = request_word_zero"
    "rx_id (tcpmtest_event_work d) = 0"
    by (simp_all add: ew)
  have "calls (tcpmtest_event_work d) = calls d @ (ys @ xs) @ [ntf]"
    by (simp add: ew xs d2)
  moreover have "Tcpm_tcpc_reset \<notin> set (ys @ xs)" "Tcpm_cc_change \<notin> set (ys @ xs)"
    using d2 xs by simp_all
  ultimately show "\<exists>pre. calls (tcpmtest_event_work d) =
                  calls d @ pre @ [if sysfs_mode_req d = TESTMODE_RESET then Tcpm_tcpc_reset
                                   else Tcpm_cc_change]
               \<and> Tcpm_tcpc_reset \<notin> set pre \<and> Tcpm_cc_change \<notin> set pre"
    unfolding ntf_def by blast
qed

text \<open>
  The theorem at \<open>src_running_state\<close>: the operator writes \<^verbatim>\<open>reset\<close> in the middle of a
  Source session and the event work runs; with \<^verbatim>\<open>none\<close> instead, the only difference is
  the notification.
\<close>

theorem transition_to_idle_resets_witness:
  "run [Sysfs_store ''reset'', Event_work] src_running_state =
     Some (src_running_state
            \<lparr>vbus_present := False, cc1_status := TYPEC_CC_OPEN, cc2_status := TYPEC_CC_OPEN,
             request := request_word_zero, rx_id := 0,
             calls := calls src_running_state @ [Queue_work, Tcpm_tcpc_reset],
             sysfs_mode := TESTMODE_NONE, sysfs_mode_req := TESTMODE_RESET,
             state := SSTATE_NONE\<rparr>)
   \<and> run [Sysfs_store ''none'', Event_work] src_running_state =
     Some (src_running_state
            \<lparr>vbus_present := False, cc1_status := TYPEC_CC_OPEN, cc2_status := TYPEC_CC_OPEN,
             request := request_word_zero, rx_id := 0,
             calls := calls src_running_state @ [Queue_work, Tcpm_cc_change],
             sysfs_mode := TESTMODE_NONE, sysfs_mode_req := TESTMODE_NONE,
             state := SSTATE_NONE\<rparr>)
   \<and> state (tcpmtest_event_work
        (src_running_state\<lparr>sysfs_mode_req := TESTMODE_RESET,
           request := request_word_zero\<lparr>mode_set := True\<rparr>\<rparr>)) = SSTATE_NONE
   \<and> rx_id (tcpmtest_event_work
        (src_running_state\<lparr>sysfs_mode_req := TESTMODE_RESET,
           request := request_word_zero\<lparr>mode_set := True\<rparr>\<rparr>)) = 0"
  using transition_to_idle_resets
    [of "src_running_state\<lparr>sysfs_mode_req := TESTMODE_RESET,
           request := request_word_zero\<lparr>mode_set := True\<rparr>\<rparr>" False]
  by (simp add: example_defs driver_defs Let_def)

text \<open>
  C9, as the code has it. In the Sink role the message-processing functions of the
  polling variant and of the event-driven variant agree on every message but one: to a
  DiscoverModes initiation for the DisplayPort SVID both stage the same reply except for
  its mode object, \<open>0x405\<close> in the polling variant and \<open>0x445\<close> (receptacle bit set)
  in the event-driven one. In the Source role the two functions agree
  \<^item> on hard-reset and other non-SOP transmits,
  \<^item> on every control message other than Accept, GetSourceCap and GetSinkCap,
  \<^item> on every data message other than Request, SinkCapabilities and vendor-defined
    messages;
  on Accept, GetSourceCap, GetSinkCap, Request and SinkCapabilities their results always
  differ, and on a vendor-defined message they differ exactly when it is a structured
  initiation of DiscoverIdentity, DiscoverSVIDs or DisplayPort DiscoverModes
  (\<open>svdm_init_answered\<close>), which the polling variant answers and the event-driven one
  ignores.
\<close>

theorem classifier_variants_agreement:
  "(\<not> disc_modes_dp_init d \<longrightarrow>
      tcpmtest_process_tx_msg_for_snk_poll d = tcpmtest_process_tx_msg_for_snk d)
   \<and> (disc_modes_dp_init d \<longrightarrow>
      tcpmtest_process_tx_msg_for_snk d
        = tcpmtest_mk_snk_disc_modes_resp_vdm d (ucast USB_SID_DISPLAYPORT)
      \<and> tcpmtest_process_tx_msg_for_snk_poll d
        = tcpmtest_mk_snk_disc_modes_resp_vdm_poll d (ucast USB_SID_DISPLAYPORT)
      \<and> tcpmtest_process_tx_msg_for_snk_poll d
        = (tcpmtest_process_tx_msg_for_snk d)
            \<lparr>rx_msg := (rx_msg (tcpmtest_process_tx_msg_for_snk d))
               \<lparr>payload := (payload (rx_msg (tcpmtest_process_tx_msg_for_snk d)))
                              [1 := 0x405]\<rparr>\<rparr>
      \<and> (1 < length (payload (rx_msg d)) \<longrightarrow>
            payload (rx_msg (tcpmtest_process_tx_msg_for_snk d)) ! 1 = 0x445
            \<and> payload (rx_msg (tcpmtest_process_tx_msg_for_snk_poll d)) ! 1 = 0x405
            \<and> tcpmtest_process_tx_msg_for_snk_poll d \<noteq> tcpmtest_process_tx_msg_for_snk d))
   \<and> (tx_type d \<noteq> TCPC_TX_SOP
        \<or> (pd_header_cnt (header (tx_msg d)) = 0
            \<and> pd_header_type (header (tx_msg d))
                \<notin> {PD_CTRL_ACCEPT, PD_CTRL_GET_SOURCE_CAP, PD_CTRL_GET_SINK_CAP})
        \<or> (pd_header_cnt (header (tx_msg d)) \<noteq> 0
            \<and> pd_header_type (header (tx_msg d))
                \<notin> {PD_DATA_REQUEST, PD_DATA_SINK_CAP, PD_DATA_VENDOR_DEF}) \<longrightarrow>
      tcpmtest_process_tx_msg_for_src_poll d = tcpmtest_process_tx_msg_for_src d)
   \<and> (tx_type d = TCPC_TX_SOP \<and> pd_header_cnt (header (tx_msg d)) = 0 \<longrightarrow>
        (pd_header_type (header (tx_msg d)) = PD_CTRL_ACCEPT \<longrightarrow>
           tcpmtest_process_tx_msg_for_src_poll d = d
           \<and> tcpmtest_process_tx_msg_for_src d = tcpmtest_hard_reset d True
           \<and> tcpmtest_process_tx_msg_for_src_poll d \<noteq> tcpmtest_process_tx_msg_for_src d)
        \<and> (pd_header_type (header (tx_msg d)) = PD_CTRL_GET_SOURCE_CAP \<longrightarrow>
           tcpmtest_process_tx_msg_for_src_poll d = tcpmtest_hard_reset d True
           \<and> tcpmtest_process_tx_msg_for_src d = tcpmtest_mk_src_data_source_cap d
           \<and> tcpmtest_process_tx_msg_for_src_poll d \<noteq> tcpmtest_process_tx_msg_for_src d)
        \<and> (pd_header_type (header (tx_msg d)) = PD_CTRL_GET_SINK_CAP \<longrightarrow>
           tcpmtest_process_tx_msg_for_src_poll d = tcpmtest_mk_snk_sink_cap d
           \<and> tcpmtest_process_tx_msg_for_src d = tcpmtest_hard_reset d True
           \<and> tcpmtest_process_tx_msg_for_src_poll d \<noteq> tcpmtest_process_tx_msg_for_src d))
   \<and> (tx_type d = TCPC_TX_SOP \<and> pd_header_cnt (header (tx_msg d)) \<noteq> 0 \<longrightarrow>
        (pd_header_type (header (tx_msg d)) = PD_DATA_REQUEST \<longrightarrow>
           tcpmtest_process_tx_msg_for_src_poll d = tcpmtest_mk_snk_request d
           \<and> tcpmtest_process_tx_msg_for_src d =
               (if state d = SSTATE_SRC_WAIT_FOR_REQUEST
                then d\<lparr>state := SSTATE_SRC_SEND_REQUEST\<rparr> else d)
           \<and> tcpmtest_process_tx_msg_for_src_poll d \<noteq> tcpmtest_process_tx_msg_for_src d)
        \<and> (pd_header_type (header (tx_msg d)) = PD_DATA_SINK_CAP \<longrightarrow>
           tcpmtest_process_tx_msg_for_src_poll d = tcpmtest_hard_reset d True
           \<and> tcpmtest_process_tx_msg_for_src d = d
           \<and> tcpmtest_process_tx_msg_for_src_poll d \<noteq> tcpmtest_process_tx_msg_for_src d)
        \<and> (pd_header_type (header (tx_msg d)) = PD_DATA_VENDOR_DEF \<longrightarrow>
           tcpmtest_process_tx_msg_for_src_poll d
             = tcpmtest_process_tx_vdm_for_snk_poll d (pd_header_cnt (header (tx_msg d)))
           \<and> tcpmtest_process_tx_msg_for_src d = d
           \<and> (tcpmtest_process_tx_msg_for_src_poll d \<noteq> tcpmtest_process_tx_msg_for_src d
                \<longleftrightarrow> svdm_init_answered d)))"
proof (intro conjI)
  show "\<not> disc_modes_dp_init d \<longrightarrow>
      tcpmtest_process_tx_msg_for_snk_poll d = tcpmtest_process_tx_msg_for_snk d"
  proof
    assume no: "\<not> disc_modes_dp_init d"
    consider (off) "tx_type d \<noteq> TCPC_TX_SOP"
      | (ctrl) "tx_type d = TCPC_TX_SOP" "pd_header_cnt (header (tx_msg d)) = 0"
      | (data) "tx_type d = TCPC_TX_SOP" "pd_header_cnt (header (tx_msg d)) \<noteq> 0"
          "pd_header_type (header (tx_msg d)) \<noteq> PD_DATA_VENDOR_DEF"
      | (vdm) "tx_type d = TCPC_TX_SOP" "pd_header_cnt (header (tx_msg d)) \<noteq> 0"
          "pd_header_type (header (tx_msg d)) = PD_DATA_VENDOR_DEF"
      by blast
    then show "tcpmtest_process_tx_msg_for_snk_poll d = tcpmtest_process_tx_msg_for_snk d"
    proof cases
      case off
      then show ?thesis by (rule variants_off_sop)
    next
      case ctrl
      then show ?thesis by (rule variants_control)
    next
      case data
      then show ?thesis by (rule variants_data)
    next
      case vdm
      from no vdm have c:
        "\<not> (payload (tx_msg d) ! 0 AND VDO_SVDM_TYPE \<noteq> 0
           \<and> PD_VDO_CMD (payload (tx_msg d) ! 0) = CMD_DISCOVER_MODES
           \<and> PD_VDO_CMDT (payload (tx_msg d) ! 0) = CMDT_INIT
           \<and> ucast (ucast (PD_VDO_VID (payload (tx_msg d) ! 0)) :: u16) = USB_SID_DISPLAYPORT)"
        unfolding disc_modes_dp_init_def by blast
      have "tcpmtest_process_tx_vdm_for_snk_poll d (pd_header_cnt (header (tx_msg d)))
          = tcpmtest_process_tx_vdm_for_snk d (pd_header_cnt (header (tx_msg d)))"
        unfolding vdm_variants(1) by (simp only: c if_False)
      then show ?thesis
        by (simp only: variants_vendor_def(1,2) [OF vdm])
    qed
  qed
next
  show "disc_modes_dp_init d \<longrightarrow>
      tcpmtest_process_tx_msg_for_snk d
        = tcpmtest_mk_snk_disc_modes_resp_vdm d (ucast USB_SID_DISPLAYPORT)
      \<and> tcpmtest_process_tx_msg_for_snk_poll d
        = tcpmtest_mk_snk_disc_modes_resp_vdm_poll d (ucast USB_SID_DISPLAYPORT)
      \<and> tcpmtest_process_tx_msg_for_snk_poll d
        = (tcpmtest_process_tx_msg_for_snk d)
            \<lparr>rx_msg := (rx_msg (tcpmtest_process_tx_msg_for_snk d))
               \<lparr>payload := (payload (rx_msg (tcpmtest_process_tx_msg_for_snk d)))
                              [1 := 0x405]\<rparr>\<rparr>
      \<and> (1 < length (payload (rx_msg d)) \<longrightarrow>
            payload (rx_msg (tcpmtest_process_tx_msg_for_snk d)) ! 1 = 0x445
            \<and> payload (rx_msg (tcpmtest_process_tx_msg_for_snk_poll d)) ! 1 = 0x405
            \<and> tcpmtest_process_tx_msg_for_snk_poll d \<noteq> tcpmtest_process_tx_msg_for_snk d)"
  proof
    assume dp: "disc_modes_dp_init d"
    then have new: "tcpmtest_process_tx_msg_for_snk d
        = tcpmtest_mk_snk_disc_modes_resp_vdm d (ucast USB_SID_DISPLAYPORT)"
      by (simp add: disc_modes_dp_init_def variants_vendor_def vdm_variants(2))
    from dp have old: "tcpmtest_process_tx_msg_for_snk_poll d
        = tcpmtest_mk_snk_disc_modes_resp_vdm_poll d (ucast USB_SID_DISPLAYPORT)"
      by (simp add: disc_modes_dp_init_def variants_vendor_def vdm_variants(1))
    show "tcpmtest_process_tx_msg_for_snk d
        = tcpmtest_mk_snk_disc_modes_resp_vdm d (ucast USB_SID_DISPLAYPORT)
      \<and> tcpmtest_process_tx_msg_for_snk_poll d
        = tcpmtest_mk_snk_disc_modes_resp_vdm_poll d (ucast USB_SID_DISPLAYPORT)
      \<and> tcpmtest_process_tx_msg_for_snk_poll d
        = (tcpmtest_process_tx_msg_for_snk d)
            \<lparr>rx_msg := (rx_msg (tcpmtest_process_tx_msg_for_snk d))
               \<lparr>payload := (payload (rx_msg (tcpmtest_process_tx_msg_for_snk d)))
                              [1 := 0x405]\<rparr>\<rparr>
      \<and> (1 < length (payload (rx_msg d)) \<longrightarrow>
            payload (rx_msg (tcpmtest_process_tx_msg_for_snk d)) ! 1 = 0x445
            \<and> payload (rx_msg (tcpmtest_process_tx_msg_for_snk_poll d)) ! 1 = 0x405
            \<and> tcpmtest_process_tx_msg_for_snk_poll d \<noteq> tcpmtest_process_tx_msg_for_snk d)"
      unfolding new old
    proof (intro conjI impI)
      show "tcpmtest_mk_snk_disc_modes_resp_vdm d (ucast USB_SID_DISPLAYPORT)
          = tcpmtest_mk_snk_disc_modes_resp_vdm d (ucast USB_SID_DISPLAYPORT)" ..
      show "tcpmtest_mk_snk_disc_modes_resp_vdm_poll d (ucast USB_SID_DISPLAYPORT)
          = tcpmtest_mk_snk_disc_modes_resp_vdm_poll d (ucast USB_SID_DISPLAYPORT)" ..
      show "tcpmtest_mk_snk_disc_modes_resp_vdm_poll d (ucast USB_SID_DISPLAYPORT)
          = (tcpmtest_mk_snk_disc_modes_resp_vdm d (ucast USB_SID_DISPLAYPORT))
              \<lparr>rx_msg := (rx_msg (tcpmtest_mk_snk_disc_modes_resp_vdm d
                   (ucast USB_SID_DISPLAYPORT)))
                 \<lparr>payload := (payload (rx_msg (tcpmtest_mk_snk_disc_modes_resp_vdm d
                      (ucast USB_SID_DISPLAYPORT))))[1 := 0x405]\<rparr>\<rparr>"
        by (rule disc_modes_replies(1))
      assume len: "1 < length (payload (rx_msg d))"
      then show n: "payload (rx_msg (tcpmtest_mk_snk_disc_modes_resp_vdm d
            (ucast USB_SID_DISPLAYPORT))) ! 1 = 0x445"
        by (rule disc_modes_replies(2))
      from len show p: "payload (rx_msg (tcpmtest_mk_snk_disc_modes_resp_vdm_poll d
            (ucast USB_SID_DISPLAYPORT))) ! 1 = 0x405"
        by (rule disc_modes_replies(3))
      have "payload (rx_msg (tcpmtest_mk_snk_disc_modes_resp_vdm_poll d
            (ucast USB_SID_DISPLAYPORT))) ! 1
          \<noteq> payload (rx_msg (tcpmtest_mk_snk_disc_modes_resp_vdm d
            (ucast USB_SID_DISPLAYPORT))) ! 1"
        unfolding n p by simp
      then have "payload (rx_msg (tcpmtest_mk_snk_disc_modes_resp_vdm_poll d
            (ucast USB_SID_DISPLAYPORT)))
          \<noteq> payload (rx_msg (tcpmtest_mk_snk_disc_modes_resp_vdm d
            (ucast USB_SID_DISPLAYPORT)))"
        by auto
      then show "tcpmtest_mk_snk_disc_modes_resp_vdm_poll d (ucast USB_SID_DISPLAYPORT)
          \<noteq> tcpmtest_mk_snk_disc_modes_resp_vdm d (ucast USB_SID_DISPLAYPORT)"
        by (rule neq_by_payload)
    qed
  qed
next
  show "tx_type d \<noteq> TCPC_TX_SOP
        \<or> (pd_header_cnt (header (tx_msg d)) = 0
            \<and> pd_header_type (header (tx_msg d))
                \<notin> {PD_CTRL_ACCEPT, PD_CTRL_GET_SOURCE_CAP, PD_CTRL_GET_SINK_CAP})
        \<or> (pd_header_cnt (header (tx_msg d)) \<noteq> 0
            \<and> pd_header_type (header (tx_msg d))
                \<notin> {PD_DATA_REQUEST, PD_DATA_SINK_CAP, PD_DATA_VENDOR_DEF}) \<longrightarrow>
      tcpmtest_process_tx_msg_for_src_poll d = tcpmtest_process_tx_msg_for_src d"
    using variants_off_sop(2) [of d] variants_control(2) [of d] variants_data(2) [of d]
    by (cases "tx_type d = TCPC_TX_SOP") auto
next
  show "tx_type d = TCPC_TX_SOP \<and> pd_header_cnt (header (tx_msg d)) = 0 \<longrightarrow>
        (pd_header_type (header (tx_msg d)) = PD_CTRL_ACCEPT \<longrightarrow>
           tcpmtest_process_tx_msg_for_src_poll d = d
           \<and> tcpmtest_process_tx_msg_for_src d = tcpmtest_hard_reset d True
           \<and> tcpmtest_process_tx_msg_for_src_poll d \<noteq> tcpmtest_process_tx_msg_for_src d)
        \<and> (pd_header_type (header (tx_msg d)) = PD_CTRL_GET_SOURCE_CAP \<longrightarrow>
           tcpmtest_process_tx_msg_for_src_poll d = tcpmtest_hard_reset d True
           \<and> tcpmtest_process_tx_msg_for_src d = tcpmtest_mk_src_data_source_cap d
           \<and> tcpmtest_process_tx_msg_for_src_poll d \<noteq> tcpmtest_process_tx_msg_for_src d)
        \<and> (pd_header_type (header (tx_msg d)) = PD_CTRL_GET_SINK_CAP \<longrightarrow>
           tcpmtest_process_tx_msg_for_src_poll d = tcpmtest_mk_snk_sink_cap d
           \<and> tcpmtest_process_tx_msg_for_src d = tcpmtest_hard_reset d True
           \<and> tcpmtest_process_tx_msg_for_src_poll d \<noteq> tcpmtest_process_tx_msg_for_src d)"
  proof (intro impI, elim conjE)
    assume sop: "tx_type d = TCPC_TX_SOP" and c: "pd_header_cnt (header (tx_msg d)) = 0"
    have accept: "tcpmtest_process_tx_msg_for_src_poll d = d
        \<and> tcpmtest_process_tx_msg_for_src d = tcpmtest_hard_reset d True"
      if "pd_header_type (header (tx_msg d)) = PD_CTRL_ACCEPT"
      using sop c that
      by (simp add: poll_defs tcpmtest_process_tx_msg_for_src_def Let_def pd_msg_types)
    have get_source_cap: "tcpmtest_process_tx_msg_for_src_poll d = tcpmtest_hard_reset d True
        \<and> tcpmtest_process_tx_msg_for_src d = tcpmtest_mk_src_data_source_cap d"
      if "pd_header_type (header (tx_msg d)) = PD_CTRL_GET_SOURCE_CAP"
      using sop c that
      by (simp add: poll_defs tcpmtest_process_tx_msg_for_src_def Let_def pd_msg_types)
    have get_sink_cap: "tcpmtest_process_tx_msg_for_src_poll d = tcpmtest_mk_snk_sink_cap d
        \<and> tcpmtest_process_tx_msg_for_src d = tcpmtest_hard_reset d True"
      if "pd_header_type (header (tx_msg d)) = PD_CTRL_GET_SINK_CAP"
      using sop c that
      by (simp add: poll_defs tcpmtest_process_tx_msg_for_src_def Let_def pd_msg_types)
    have "tcpmtest_process_tx_msg_for_src_poll d \<noteq> tcpmtest_process_tx_msg_for_src d"
      if "pd_header_type (header (tx_msg d)) = PD_CTRL_ACCEPT"
      unfolding accept [OF that, THEN conjunct1] accept [OF that, THEN conjunct2]
      by (rule variant_results_differ)
    moreover
    have "tcpmtest_process_tx_msg_for_src_poll d \<noteq> tcpmtest_process_tx_msg_for_src d"
      if "pd_header_type (header (tx_msg d)) = PD_CTRL_GET_SOURCE_CAP"
      unfolding get_source_cap [OF that, THEN conjunct1] get_source_cap [OF that, THEN conjunct2]
      by (rule variant_results_differ)
    moreover
    have "tcpmtest_process_tx_msg_for_src_poll d \<noteq> tcpmtest_process_tx_msg_for_src d"
      if "pd_header_type (header (tx_msg d)) = PD_CTRL_GET_SINK_CAP"
      unfolding get_sink_cap [OF that, THEN conjunct1] get_sink_cap [OF that, THEN conjunct2]
      by (rule variant_results_differ)
    ultimately
    show "(pd_header_type (header (tx_msg d)) = PD_CTRL_ACCEPT \<longrightarrow>
           tcpmtest_process_tx_msg_for_src_poll d = d
           \<and> tcpmtest_process_tx_msg_for_src d = tcpmtest_hard_reset d True
           \<and> tcpmtest_process_tx_msg_for_src_poll d \<noteq> tcpmtest_process_tx_msg_for_src d)
        \<and> (pd_header_type (header (tx_msg d)) = PD_CTRL_GET_SOURCE_CAP \<longrightarrow>
           tcpmtest_process_tx_msg_for_src_poll d = tcpmtest_hard_reset d True
           \<and> tcpmtest_process_tx_msg_for_src d = tcpmtest_mk_src_data_source_cap d
           \<and> tcpmtest_process_tx_msg_for_src_poll d \<noteq> tcpmtest_process_tx_msg_for_src d)
        \<and> (pd_header_type (header (tx_msg d)) = PD_CTRL_GET_SINK_CAP \<longrightarrow>
           tcpmtest_process_tx_msg_for_src_poll d = tcpmtest_mk_snk_sink_cap d
           \<and> tcpmtest_process_tx_msg_for_src d = tcpmtest_hard_reset d True
           \<and> tcpmtest_process_tx_msg_for_src_poll d \<noteq> tcpmtest_process_tx_msg_for_src d)"
      using accept get_source_cap get_sink_cap by blast
  qed
next
  show "tx_type d = TCPC_TX_SOP \<and> pd_header_cnt (header (tx_msg d)) \<noteq> 0 \<longrightarrow>
        (pd_header_type (header (tx_msg d)) = PD_DATA_REQUEST \<longrightarrow>
           tcpmtest_process_tx_msg_for_src_poll d = tcpmtest_mk_snk_request d
           \<and> tcpmtest_process_tx_msg_for_src d =
               (if state d = SSTATE_SRC_WAIT_FOR_REQUEST
                then d\<lparr>state := SSTATE_SRC_SEND_REQUEST\<rparr> else d)
           \<and> tcpmtest_process_tx_msg_for_src_poll d \<noteq> tcpmtest_process_tx_msg_for_src d)
        \<and> (pd_header_type (header (tx_msg d)) = PD_DATA_SINK_CAP \<longrightarrow>
           tcpmtest_process_tx_msg_for_src_poll d = tcpmtest_hard_reset d True
           \<and> tcpmtest_process_tx_msg_for_src d = d
           \<and> tcpmtest_process_tx_msg_for_src_poll d \<noteq> tcpmtest_process_tx_msg_for_src d)
        \<and> (pd_header_type (header (tx_msg d)) = PD_DATA_VENDOR_DEF \<longrightarrow>
           tcpmtest_process_tx_msg_for_src_poll d
             = tcpmtest_process_tx_vdm_for_snk_poll d (pd_header_cnt (header (tx_msg d)))
           \<and> tcpmtest_process_tx_msg_for_src d = d
           \<and> (tcpmtest_process_tx_msg_for_src_poll d \<noteq> tcpmtest_process_tx_msg_for_src d
                \<longleftrightarrow> svdm_init_answered d))"
  proof (intro impI, elim conjE)
    assume sop: "tx_type d = TCPC_TX_SOP" and c: "pd_header_cnt (header (tx_msg d)) \<noteq> 0"
    have request: "tcpmtest_process_tx_msg_for_src_poll d = tcpmtest_mk_snk_request d
        \<and> tcpmtest_process_tx_msg_for_src d =
               (if state d = SSTATE_SRC_WAIT_FOR_REQUEST
                then d\<lparr>state := SSTATE_SRC_SEND_REQUEST\<rparr> else d)"
      if "pd_header_type (header (tx_msg d)) = PD_DATA_REQUEST"
      using sop c that
      by (simp add: poll_defs tcpmtest_process_tx_msg_for_src_def Let_def pd_msg_types)
    have sink_cap: "tcpmtest_process_tx_msg_for_src_poll d = tcpmtest_hard_reset d True
        \<and> tcpmtest_process_tx_msg_for_src d = d"
      if "pd_header_type (header (tx_msg d)) = PD_DATA_SINK_CAP"
      using sop c that
      by (simp add: poll_defs tcpmtest_process_tx_msg_for_src_def Let_def pd_msg_types)
    have vendor_def: "tcpmtest_process_tx_msg_for_src_poll d
          = tcpmtest_process_tx_vdm_for_snk_poll d (pd_header_cnt (header (tx_msg d)))
        \<and> tcpmtest_process_tx_msg_for_src d = d"
      if "pd_header_type (header (tx_msg d)) = PD_DATA_VENDOR_DEF"
      using sop c that by (simp only: variants_vendor_def(3,4) simp_thms)
    have "tcpmtest_process_tx_msg_for_src_poll d \<noteq> tcpmtest_process_tx_msg_for_src d"
      if "pd_header_type (header (tx_msg d)) = PD_DATA_REQUEST"
      unfolding request [OF that, THEN conjunct1] request [OF that, THEN conjunct2]
      by (rule variant_results_differ)
    moreover
    have "tcpmtest_process_tx_msg_for_src_poll d \<noteq> tcpmtest_process_tx_msg_for_src d"
      if "pd_header_type (header (tx_msg d)) = PD_DATA_SINK_CAP"
      unfolding sink_cap [OF that, THEN conjunct1] sink_cap [OF that, THEN conjunct2]
      by (rule variant_results_differ)
    moreover
    have "tcpmtest_process_tx_msg_for_src_poll d \<noteq> tcpmtest_process_tx_msg_for_src d
        \<longleftrightarrow> svdm_init_answered d"
      if "pd_header_type (header (tx_msg d)) = PD_DATA_VENDOR_DEF"
      unfolding vendor_def [OF that, THEN conjunct1] vendor_def [OF that, THEN conjunct2]
      by (rule vdm_poll_changes)
    ultimately
    show "(pd_header_type (header (tx_msg d)) = PD_DATA_REQUEST \<longrightarrow>
           tcpmtest_process_tx_msg_for_src_poll d = tcpmtest_mk_snk_request d
           \<and> tcpmtest_process_tx_msg_for_src d =
               (if state d = SSTATE_SRC_WAIT_FOR_REQUEST
                then d\<lparr>state := SSTATE_SRC_SEND_REQUEST\<rparr> else d)
           \<and> tcpmtest_process_tx_msg_for_src_poll d \<noteq> tcpmtest_process_tx_msg_for_src d)
        \<and> (pd_header_type (header (tx_msg d)) = PD_DATA_SINK_CAP \<longrightarrow>
           tcpmtest_process_tx_msg_for_src_poll d = tcpmtest_hard_reset d True
           \<and> tcpmtest_process_tx_msg_for_src d = d
           \<and> tcpmtest_process_tx_msg_for_src_poll d \<noteq> tcpmtest_process_tx_msg_for_src d)
        \<and> (pd_header_type (header (tx_msg d)) = PD_DATA_VENDOR_DEF \<longrightarrow>
           tcpmtest_process_tx_msg_for_src_poll d
             = tcpmtest_process_tx_vdm_for_snk_poll d (pd_header_cnt (header (tx_msg d)))
           \<and> tcpmtest_process_tx_msg_for_src d = d
           \<and> (tcpmtest_process_tx_msg_for_src_poll d \<noteq> tcpmtest_process_tx_msg_for_src d
                \<longleftrightarrow> svdm_init_answered d))"
      using request sink_cap vendor_def by blast
  qed
qed

text \<open>
  The theorem at \<open>snk_attached_state\<close> with the Port Manager's SourceCapabilities (both
  Sink classifiers stage the same Request) and at \<open>src_running_state\<close> with a Ping (both
  Source classifiers ignore it).
\<close>

theorem classifier_variants_agreement_witness:
  "\<not> disc_modes_dp_init (snk_attached_state\<lparr>tx_msg := source_cap_message\<rparr>)
   \<and> tcpmtest_process_tx_msg_for_snk_poll (snk_attached_state\<lparr>tx_msg := source_cap_message\<rparr>)
       = tcpmtest_process_tx_msg_for_snk (snk_attached_state\<lparr>tx_msg := source_cap_message\<rparr>)
   \<and> rx_msg (tcpmtest_process_tx_msg_for_snk_poll
        (snk_attached_state\<lparr>tx_msg := source_cap_message\<rparr>))
       = \<lparr>header = 0x1042, payload = [0x12025896, 0, 0, 0, 0, 0, 0]\<rparr>
   \<and> tx_type (src_running_state\<lparr>tx_msg := ctrl_message PD_CTRL_PING\<rparr>) = TCPC_TX_SOP
   \<and> pd_header_cnt (header (ctrl_message PD_CTRL_PING)) = 0
   \<and> pd_header_type (header (ctrl_message PD_CTRL_PING)) = PD_CTRL_PING
   \<and> tcpmtest_process_tx_msg_for_src_poll (src_running_state\<lparr>tx_msg := ctrl_message PD_CTRL_PING\<rparr>)
       = tcpmtest_process_tx_msg_for_src (src_running_state\<lparr>tx_msg := ctrl_message PD_CTRL_PING\<rparr>)
   \<and> tcpmtest_process_tx_msg_for_src (src_running_state\<lparr>tx_msg := ctrl_message PD_CTRL_PING\<rparr>)
       = src_running_state\<lparr>tx_msg := ctrl_message PD_CTRL_PING\<rparr>"
proof -
  let ?s = "snk_attached_state\<lparr>tx_msg := source_cap_message\<rparr>"
  let ?p = "src_running_state\<lparr>tx_msg := ctrl_message PD_CTRL_PING\<rparr>"
  have n: "\<not> disc_modes_dp_init ?s"
    by (simp add: disc_modes_dp_init_def example_defs pm_message_def pd_defs)
  have a: "tcpmtest_process_tx_msg_for_snk_poll ?s = tcpmtest_process_tx_msg_for_snk ?s"
    using classifier_variants_agreement [of ?s, THEN conjunct1] n by (rule mp)
  have v: "rx_msg (tcpmtest_process_tx_msg_for_snk ?s)
      = \<lparr>header = 0x1042, payload = [0x12025896, 0, 0, 0, 0, 0, 0]\<rparr>"
    by (simp add: example_defs driver_defs pd_defs Let_def)
  have t: "tx_type ?p = TCPC_TX_SOP"
    by (simp add: example_defs driver_defs pd_defs Let_def)
  have c: "pd_header_cnt (header (ctrl_message PD_CTRL_PING)) = 0"
    by (simp add: example_defs pm_message_def pd_defs)
  have y: "pd_header_type (header (ctrl_message PD_CTRL_PING)) = PD_CTRL_PING"
    by (simp add: example_defs pm_message_def pd_defs)
  have h: "tx_type ?p \<noteq> TCPC_TX_SOP
        \<or> (pd_header_cnt (header (tx_msg ?p)) = 0
            \<and> pd_header_type (header (tx_msg ?p))
                \<notin> {PD_CTRL_ACCEPT, PD_CTRL_GET_SOURCE_CAP, PD_CTRL_GET_SINK_CAP})
        \<or> (pd_header_cnt (header (tx_msg ?p)) \<noteq> 0
            \<and> pd_header_type (header (tx_msg ?p))
                \<notin> {PD_DATA_REQUEST, PD_DATA_SINK_CAP, PD_DATA_VENDOR_DEF})"
    using c y by (simp add: pd_msg_types)
  have b: "tcpmtest_process_tx_msg_for_src_poll ?p = tcpmtest_process_tx_msg_for_src ?p"
    using classifier_variants_agreement [of ?p, THEN conjunct2, THEN conjunct2, THEN conjunct1] h
    by (rule mp)
  have w: "tcpmtest_process_tx_msg_for_src ?p = ?p"
    using t c y by (simp add: tcpmtest_process_tx_msg_for_src_def Let_def pd_msg_types)
  from n a v t c y b w show ?thesis by (simp only: simp_thms)
qed

text \<open>
  C9 as stated fails in the Source role: in \<open>src_running_state\<close> with the Port Manager's
  SinkCapabilities transmitted, the polling variant's function answers with a hard reset
  from the peer (flags and counter cleared, \<^verbatim>\<open>tcpm_pd_hard_reset\<close> called) and the
  event-driven variant's function changes nothing.
\<close>

theorem source_variants_differ_counterexample:
  "tx_type src_running_state = TCPC_TX_SOP
   \<and> pd_header_cnt (header sink_cap_message) = 1
   \<and> pd_header_type (header sink_cap_message) = PD_DATA_SINK_CAP
   \<and> tcpmtest_process_tx_msg_for_src_poll (src_running_state\<lparr>tx_msg := sink_cap_message\<rparr>)
       = src_running_state\<lparr>tx_msg := sink_cap_message, request := request_word_zero,
           rx_id := 0, calls := calls src_running_state @ [Tcpm_pd_hard_reset]\<rparr>
   \<and> tcpmtest_process_tx_msg_for_src (src_running_state\<lparr>tx_msg := sink_cap_message\<rparr>)
       = src_running_state\<lparr>tx_msg := sink_cap_message\<rparr>
   \<and> tcpmtest_process_tx_msg_for_src_poll (src_running_state\<lparr>tx_msg := sink_cap_message\<rparr>)
       \<noteq> tcpmtest_process_tx_msg_for_src (src_running_state\<lparr>tx_msg := sink_cap_message\<rparr>)"
  by (simp add: example_defs driver_defs pd_defs poll_defs Let_def)

text \<open>
  C10. What the code does with the index \<^verbatim>\<open>rdo_index(rdo) - 1\<close> of
  \<^verbatim>\<open>tcpmtest_log_request_pdo\<close>: for a PD 2.0 Request message with one data object
  passed to \<^verbatim>\<open>tcpmtest_pd_transmit\<close> on SOP, SOP' or SOP'', the index lies within the
  \<^verbatim>\<open>PDO_MAX_OBJECTS\<close> entries of \<^verbatim>\<open>src_cap_pdo_type\<close> exactly when the object position
  of the RDO is not 0. With object position 0 the unsigned subtraction wraps to
  \<open>4294967295\<close> and the read is outside the array, which the model reports as \<open>None\<close>.
\<close>

theorem request_index_in_bounds_iff_position_nonzero:
  assumes "tx_type_num ty \<le> tx_type_num TCPC_TX_SOP_PRIME_PRIME"
    and "pd_header_rev (header m) = PD_REV20"
    and "pd_header_type (header m) = PD_DATA_REQUEST"
    and "pd_header_cnt (header m) = 1"
  shows "(unat (rdo_index (payload m ! 0) - 1) < PDO_MAX_OBJECTS
            \<longleftrightarrow> rdo_index (payload m ! 0) \<noteq> 0)
         \<and> (rdo_index (payload m ! 0) = 0
            \<longrightarrow> unat (rdo_index (payload m ! 0) - 1) = 4294967295)
         \<and> (tcpmtest_pd_transmit d ty (Some m) = None
            \<longleftrightarrow> rdo_index (payload m ! 0) = 0)"
proof (cases "rdo_index (payload m ! 0) = 0")
  case True
  have wrap: "unat (0 - 1 :: u32) = 4294967295"
    by (simp add: unsigned_minus_1_eq_mask mask_eq_exp_minus_1)
  then have "tcpmtest_log_request_pdo d (payload m ! 0) = None"
    by (simp only: tcpmtest_log_request_pdo_def Let_def True PDO_MAX_OBJECTS_def) simp
  then have "tcpmtest_log_msg d ty m = None"
    using assms by (simp add: tcpmtest_log_msg_def Let_def pd_msg_types)
  then have "tcpmtest_pd_transmit d ty (Some m) = None"
    by (simp add: tcpmtest_pd_transmit_def)
  with True wrap show ?thesis by (simp only: PDO_MAX_OBJECTS_def) simp
next
  case False
  then have "tcpmtest_log_request_pdo d (payload m ! 0) = Some d"
    by (rule log_request_pdo_safe)
  then have idx: "unat (rdo_index (payload m ! 0) - 1) < PDO_MAX_OBJECTS"
    by (simp add: tcpmtest_log_request_pdo_def Let_def split: if_splits)
  have "tcpmtest_log_msg d ty m = Some d"
    using assms(3,4) False by (rule log_msg_request_safe)
  then have "tcpmtest_pd_transmit d ty (Some m) \<noteq> None"
    by (simp add: tcpmtest_pd_transmit_def)
  with False idx show ?thesis by simp
qed

text \<open>
  The theorem at a Request with header \<open>0x1042\<close> (PD 2.0, one data object) and the RDO
  \<open>0\<close>, transmitted on SOP to the freshly probed driver.
\<close>

theorem request_index_in_bounds_iff_position_nonzero_witness:
  "tx_type_num TCPC_TX_SOP \<le> tx_type_num TCPC_TX_SOP_PRIME_PRIME
   \<and> pd_header_rev (header (pm_message 0x1042 0)) = PD_REV20
   \<and> pd_header_type (header (pm_message 0x1042 0)) = PD_DATA_REQUEST
   \<and> pd_header_cnt (header (pm_message 0x1042 0)) = 1
   \<and> rdo_index (payload (pm_message 0x1042 0) ! 0) = 0
   \<and> unat (rdo_index (payload (pm_message 0x1042 0) ! 0) - 1) = 4294967295
   \<and> \<not> unat (rdo_index (payload (pm_message 0x1042 0) ! 0) - 1) < PDO_MAX_OBJECTS
   \<and> tcpmtest_pd_transmit tcpmtest_probe TCPC_TX_SOP (Some (pm_message 0x1042 0)) = None"
proof -
  have h: "tx_type_num TCPC_TX_SOP \<le> tx_type_num TCPC_TX_SOP_PRIME_PRIME"
    "pd_header_rev (header (pm_message 0x1042 0)) = PD_REV20"
    "pd_header_type (header (pm_message 0x1042 0)) = PD_DATA_REQUEST"
    "pd_header_cnt (header (pm_message 0x1042 0)) = 1"
    by (simp_all add: pm_message_def pd_defs)
  have z: "rdo_index (payload (pm_message 0x1042 0) ! 0) = 0"
    by (simp add: pm_message_def rdo_index_def)
  from request_index_in_bounds_iff_position_nonzero [OF h, of tcpmtest_probe] h z
  show ?thesis by (simp only: PDO_MAX_OBJECTS_def) simp
qed

end
